theory Spec2Isabelle
  imports Main "HOL-Library.Word"
begin

section \<open>Shared data model\<close>

text \<open>
  The block pointer of the folder code.  The type declaration itself is outside the
  sources at hand; the fields are the ones the sources read and write
  (\<open>ID\<close>, \<open>KeyGen\<close>, \<open>DataVer\<close>, \<open>Creator\<close>, \<open>RefNonce\<close>).  Block identifiers,
  user identifiers and nonces are opaque and are represented by natural numbers.
\<close>

record BlockPointer =
  ID :: nat
  KeyGen :: int
  DataVer :: int
  Creator :: nat
  RefNonce :: nat

section \<open>Block retrieval queue (block\_retrieval\_queue.go)\<close>

text \<open>
  One consumer's request: the context, the destination block and the one-slot channel on
  which the final error is delivered.  Contexts, destination blocks and channels are
  identified by numbers; a channel made by \<open>make(chan error, 1)\<close> is a fresh number.
\<close>

record blockRetrievalRequest =
  req_ctx :: nat
  req_block :: nat
  doneCh :: nat

text \<open>
  The retrieval record.  \<open>index\<close> is the position in the heap, \<open>-1\<close> when the
  retrieval is not on the heap; \<open>insertionOrder\<close> is a \<open>uint64\<close>.
\<close>

record blockRetrieval =
  blockPtr :: BlockPointer
  kmd :: nat
  requests :: "blockRetrievalRequest list"
  index :: int
  priority :: int
  insertionOrder :: "64 word"

text \<open>
  The queue.  \<open>ptrs\<close> and the heap hold pointers to retrieval objects, so the objects
  live in an explicit store \<open>retrievals\<close> indexed by address; \<open>nextAddr\<close> is the
  next unused address and \<open>nextChan\<close> the next unused channel number.
  \<open>pendingNotify\<close> counts the \<open>notifyWorker\<close> goroutines started and not yet run.
\<close>

record blockRetrievalQueue =
  ptrs :: "BlockPointer \<Rightarrow> nat option"
  retrievals :: "nat \<Rightarrow> blockRetrieval option"
  insertionCount :: "64 word"
  heap :: "nat list"
  nextAddr :: nat
  nextChan :: nat
  pendingNotify :: nat










text \<open>\<open>FinalizeRequest\<close> (lines 134--139): \<open>delete(brq.ptrs, ptr)\<close>.\<close>

definition FinalizeRequest :: "BlockPointer \<Rightarrow> blockRetrievalQueue \<Rightarrow> blockRetrievalQueue" where
  "FinalizeRequest ptr brq = brq\<lparr>ptrs := (ptrs brq)(ptr := None)\<rparr>"






text \<open>The fields of a retrieval other than its heap position.\<close>

definition rview :: "blockRetrieval \<Rightarrow> BlockPointer \<times> nat \<times> blockRetrievalRequest list \<times> int \<times> 64 word" where
  "rview br = (blockPtr br, kmd br, requests br, priority br, insertionOrder br)"

section \<open>Folder block manager: quota reclamation (folder\_block\_manager.go)\<close>

text \<open>
  Errors are values.  The constructors name the error kinds the modelled code builds
  itself; \<open>ExternalError\<close> stands for an error handed back by a collaborator (block
  service, metadata server, key service, codec), identified by a number.
\<close>

datatype error =
    InvalidBlockRefError
  | InvalidPathError
  | InvalidParentPathError
  | NotFileBlockError
  | NotDirBlockError
  | NoSuchNameError
  | FileTooBigError
  | WriteAccessError
  | BadSplitError
  | DeadlineExceeded
  | NoSyncOpError
  | InconsistentEncodedSizeError
  | UnstagedError
  | TruncateLockError
  | ExternalError nat

text \<open>
  \<open>MetadataRevision\<close> is a signed 64-bit integer.  Revisions are modelled as \<open>int\<close>,
  and every arithmetic step of the source on revisions goes through \<open>int64\<close>, the
  two's-complement wrap-around.
\<close>

definition int64 :: "int \<Rightarrow> int" where
  "int64 x = (x + 2 ^ 63) mod 2 ^ 64 - 2 ^ 63"

definition numPointersPerGCThreshold :: nat where
  "numPointersPerGCThreshold = 100"

definition numMaxRevisionsPerQR :: int where
  "numMaxRevisionsPerQR = 100"

text \<open>
  A block update \<open>{Unref, Ref}\<close> and a metadata operation.  Only what the manager reads
  is kept: whether the operation is a \<open>gcOp\<close> (with its \<open>LatestRev\<close>), and for the
  other operations the results of \<open>Unrefs()\<close> and \<open>AllUpdates()\<close>.
\<close>

record blockUpdate =
  Unref :: BlockPointer
  Ref :: BlockPointer

datatype op =
    GcOp int
  | OtherOp "BlockPointer list" "blockUpdate list"

text \<open>The fields of a metadata revision the manager reads.\<close>

record RootMetadata =
  Revision :: int
  Ops :: "op list"
  DirMtime :: int
  merged :: bool

text \<open>
  The collaborators of one reclamation run.  \<open>getMDRange\<close> (declared outside the
  sources at hand) returns the merged revisions between two revision numbers, oldest
  first, or an error; \<open>maxMDsAtATime\<close>, \<open>MetadataRevisionUninitialized\<close> and
  \<open>MetadataRevisionInitial\<close> are constants declared outside the sources and are
  parameters here.  The other fields are the results the run gets from the helper, the
  key service, the metadata server's truncate lock, the clock and the block service.
\<close>

record fbmEnv =
  getMDRange :: "int \<Rightarrow> int \<Rightarrow> error + RootMetadata list"
  maxMDsAtATime :: int
  MetadataRevisionUninitialized :: int
  MetadataRevisionInitial :: int
  getMDForFBM :: "error + RootMetadata"
  IsReadableOrError :: "error option"
  GetCurrentUserInfo :: "error + nat"
  IsWriter :: "nat \<Rightarrow> bool"
  TruncateLock :: "error + bool"
  QuotaReclamationMinUnrefAge :: int
  clockNow :: int
  deleteBlockRefs :: "BlockPointer list \<Rightarrow> error + nat list"
  finalizeGCOp :: "int \<Rightarrow> nat list \<Rightarrow> error option"

text \<open>The memo of the last run kept in the manager.\<close>

record folderBlockManager =
  lastQRHeadRev :: int
  lastQROldEnoughRev :: int
  wasLastQRComplete :: bool

text \<open>\<open>isOldEnough\<close> (lines 506--520): \<open>mtime + unrefAge\<close> is before now.\<close>

definition isOldEnough :: "fbmEnv \<Rightarrow> RootMetadata \<Rightarrow> bool" where
  "isOldEnough env rmd = (DirMtime rmd + QuotaReclamationMinUnrefAge env < clockNow env)"

text \<open>
  The pointers one revision contributes (lines 637--651): for every operation that is
  not a \<open>gcOp\<close>, its unrefs, then the \<open>Unref\<close> of every update whose two pointers
  differ.
\<close>

fun opPtrs :: "op \<Rightarrow> BlockPointer list" where
  "opPtrs (GcOp r) = []"
| "opPtrs (OtherOp unrefs updates) =
     unrefs @ map Unref (filter (\<lambda>u. Ref u \<noteq> Unref u) updates)"

definition rmdPtrs :: "RootMetadata \<Rightarrow> BlockPointer list" where
  "rmdPtrs rmd = concat (map opPtrs (Ops rmd))"

text \<open>
  The inner loop of \<open>getUnreferencedBlocks\<close> (lines 630--658) over one batch, newest
  revision first.  The state is the pointer list and the map \<open>revStartPositions\<close>
  (kept as an association list, a later binding for a key replacing the earlier one).
  The flag of the result says whether \<open>break outer\<close> was taken.
\<close>

fun setRevStart :: "int \<Rightarrow> nat \<Rightarrow> (int \<times> nat) list \<Rightarrow> (int \<times> nat) list" where
  "setRevStart r n [] = [(r, n)]"
| "setRevStart r n ((k, v) # m) = (if k = r then (k, n) # m else (k, v) # setRevStart r n m)"

fun walkBatch ::
  "int \<Rightarrow> RootMetadata list \<Rightarrow> BlockPointer list \<times> (int \<times> nat) list \<Rightarrow>
     bool \<times> BlockPointer list \<times> (int \<times> nat) list" where
  "walkBatch earliestRev [] (ps, pos) = (False, ps, pos)"
| "walkBatch earliestRev (rmd # rest) (ps, pos) =
     (if Revision rmd \<le> earliestRev then (True, ps, pos)
      else walkBatch earliestRev rest
             (ps @ rmdPtrs rmd, setRevStart (Revision rmd) (length ps) pos))"

text \<open>
  The outer loop (lines 617--667).  Whether it ends depends on what \<open>getMDRange\<close>
  returns, so it runs on fuel: \<open>None\<close> means the fuel ran out.
\<close>

fun collectUnrefs ::
  "nat \<Rightarrow> fbmEnv \<Rightarrow> int \<Rightarrow> int \<Rightarrow> BlockPointer list \<times> (int \<times> nat) list \<Rightarrow>
     (error + BlockPointer list \<times> (int \<times> nat) list) option" where
  "collectUnrefs 0 env earliestRev currHead acc = None"
| "collectUnrefs (Suc fuel) env earliestRev currHead acc =
     (let startRev0 = int64 (int64 (currHead - maxMDsAtATime env) + 1);
          startRev = (if startRev0 < MetadataRevisionInitial env
                      then MetadataRevisionInitial env else startRev0)
      in case getMDRange env startRev currHead of
           Inl e \<Rightarrow> Some (Inl e)
         | Inr rmds \<Rightarrow>
            (case walkBatch earliestRev (rev rmds) acc of
               (True, ps, pos) \<Rightarrow> Some (Inr (ps, pos))
             | (False, ps, pos) \<Rightarrow>
                (let currHead' = (case rmds of [] \<Rightarrow> currHead
                                  | r # _ \<Rightarrow> int64 (Revision r - 1))
                 in if int (length rmds) < maxMDsAtATime env
                       \<or> currHead' < MetadataRevisionInitial env
                    then Some (Inr (ps, pos))
                    else collectUnrefs fuel env earliestRev currHead' (ps, pos))))"

text \<open>
  Lines 679--683: the loop over \<open>revStartPositions\<close>.  Go visits the entries of a map
  in no fixed order; the model visits them in the order of the association list, and
  the theorems below hold for every list, hence for every order.
\<close>

fun lowerLatestRev :: "nat \<Rightarrow> (int \<times> nat) list \<Rightarrow> int \<Rightarrow> int" where
  "lowerLatestRev threshStart [] latestRev = latestRev"
| "lowerLatestRev threshStart ((r, i) # m) latestRev =
     lowerLatestRev threshStart m (if i < threshStart \<and> r < latestRev then r else latestRev)"

text \<open>
  Lines 669--693.  \<open>ptrs[revStartPositions[latestRev]:]\<close> reads the map at a key the
  loop took from it; a missing key reads as position 0 in Go.
\<close>

definition shortenRange ::
  "BlockPointer list \<Rightarrow> (int \<times> nat) list \<Rightarrow> int \<Rightarrow> BlockPointer list \<times> int \<times> bool" where
  "shortenRange ps pos latestRev =
     (if numPointersPerGCThreshold < length ps
      then (let threshStart = length ps - numPointersPerGCThreshold;
                latestRev' = lowerLatestRev threshStart pos latestRev
            in if latestRev' < latestRev
               then (drop (case map_of pos latestRev' of None \<Rightarrow> 0 | Some i \<Rightarrow> i) ps,
                     latestRev', False)
               else (ps, latestRev', True))
      else (ps, latestRev, True))"

text \<open>\<open>getUnreferencedBlocks\<close> (lines 593--694): pointers, last revision considered, complete.\<close>

definition getUnreferencedBlocks ::
  "nat \<Rightarrow> fbmEnv \<Rightarrow> int \<Rightarrow> int \<Rightarrow> (error + BlockPointer list \<times> int \<times> bool) option" where
  "getUnreferencedBlocks fuel env latestRev earliestRev =
     (if latestRev \<le> earliestRev
      then Some (Inr ([], MetadataRevisionUninitialized env, True))
      else case collectUnrefs fuel env earliestRev latestRev ([], []) of
             None \<Rightarrow> None
           | Some (Inl e) \<Rightarrow> Some (Inl e)
           | Some (Inr (ps, pos)) \<Rightarrow> Some (Inr (shortenRange ps pos latestRev)))"

text \<open>
  \<open>getMostRecentOldEnoughAndGCRevisions\<close> (lines 525--586).  \<open>lastGcOp\<close> is the inner
  loop over the operations of one revision, last operation first; \<open>scanBatch\<close> is the
  loop over one batch, newest revision first, and its flag says whether both values were
  found (the early \<open>return\<close>).
\<close>

fun lastGcOp :: "op list \<Rightarrow> int option" where
  "lastGcOp [] = None"
| "lastGcOp (GcOp r # rest) = Some r"
| "lastGcOp (OtherOp u v # rest) = lastGcOp rest"

fun scanBatch :: "fbmEnv \<Rightarrow> RootMetadata list \<Rightarrow> int \<times> int \<Rightarrow> bool \<times> int \<times> int" where
  "scanBatch env [] (m, g) = (False, m, g)"
| "scanBatch env (rmd # rest) (m, g) =
     (let m' = (if m = MetadataRevisionUninitialized env \<and> isOldEnough env rmd
                then Revision rmd else m);
          g' = (if g = MetadataRevisionUninitialized env
                then (case lastGcOp (rev (Ops rmd)) of None \<Rightarrow> g | Some r \<Rightarrow> r)
                else g)
      in if m' \<noteq> MetadataRevisionUninitialized env \<and> g' \<noteq> MetadataRevisionUninitialized env
         then (True, m', g')
         else scanBatch env rest (m', g'))"

fun findRevisions ::
  "nat \<Rightarrow> fbmEnv \<Rightarrow> int \<Rightarrow> int \<times> int \<Rightarrow> (error + int \<times> int) option" where
  "findRevisions 0 env currHead acc = None"
| "findRevisions (Suc fuel) env currHead acc =
     (let startRev0 = int64 (int64 (currHead - maxMDsAtATime env) + 1);
          startRev = (if startRev0 < MetadataRevisionInitial env
                      then MetadataRevisionInitial env else startRev0)
      in case getMDRange env startRev currHead of
           Inl e \<Rightarrow> Some (Inl e)
         | Inr rmds \<Rightarrow>
            (case scanBatch env (rev rmds) acc of
               (True, m, g) \<Rightarrow> Some (Inr (m, g))
             | (False, m, g) \<Rightarrow>
                (let currHead' = (case rmds of [] \<Rightarrow> currHead
                                  | r # _ \<Rightarrow> int64 (Revision r - 1))
                 in if int (length rmds) < maxMDsAtATime env
                       \<or> currHead' < MetadataRevisionInitial env
                    then Some (Inr (m, g))
                    else findRevisions fuel env currHead' (m, g))))"

definition getMostRecentOldEnoughAndGCRevisions ::
  "nat \<Rightarrow> fbmEnv \<Rightarrow> RootMetadata \<Rightarrow> (error + int \<times> int) option" where
  "getMostRecentOldEnoughAndGCRevisions fuel env head =
     findRevisions fuel env (Revision head)
       (MetadataRevisionUninitialized env, MetadataRevisionUninitialized env)"

text \<open>\<open>isQRNecessary\<close> (lines 711--726), for a head that is not nil.\<close>

definition isQRNecessary :: "fbmEnv \<Rightarrow> folderBlockManager \<Rightarrow> RootMetadata \<Rightarrow> bool" where
  "isQRNecessary env fbm head =
     (if Revision head \<noteq> lastQRHeadRev fbm \<or> \<not> wasLastQRComplete fbm then True
      else lastQROldEnoughRev fbm < lastQRHeadRev fbm \<and> isOldEnough env head)"

text \<open>Lines 810--815: the cap on the revisions of one run, with the \<open>shortened\<close> flag.\<close>

definition capRevisions :: "int \<Rightarrow> int \<Rightarrow> int \<times> bool" where
  "capRevisions mostRecentOldEnoughRev lastGCRev =
     (if numMaxRevisionsPerQR < int64 (mostRecentOldEnoughRev - lastGCRev)
      then (int64 (lastGCRev + numMaxRevisionsPerQR), True)
      else (mostRecentOldEnoughRev, False))"

text \<open>
  What a run does to its collaborators, in order: taking and releasing the truncate
  lock, the delete sent to the block service, and the \<open>gcOp\<close> handed to
  \<open>finalizeGCOp\<close> (its \<open>LatestRev\<close> and the identifiers with no reference left).
\<close>

datatype qrEvent =
    EvTruncateLock
  | EvTruncateUnlock
  | EvDelete "BlockPointer list"
  | EvFinalize int "nat list"

text \<open>
  The deferred function of lines 766--773: the memo is written when the run ends without
  an error.
\<close>

definition rememberQR ::
  "error option \<Rightarrow> RootMetadata \<Rightarrow> int \<Rightarrow> bool \<Rightarrow> folderBlockManager \<Rightarrow> folderBlockManager" where
  "rememberQR err head mostRecentOldEnoughRev complete fbm =
     (case err of
        None \<Rightarrow> fbm\<lparr>lastQRHeadRev := Revision head,
                    lastQROldEnoughRev := mostRecentOldEnoughRev,
                    wasLastQRComplete := complete\<rparr>
      | Some e \<Rightarrow> fbm)"

text \<open>
  The part of \<open>doReclamation\<close> that runs with the truncate lock held (lines 797--842):
  error, the final values of \<open>mostRecentOldEnoughRev\<close> and \<open>complete\<close>, and the
  events.  At line 797 the two variables still hold their zero values.
\<close>

definition reclaimLocked ::
  "nat \<Rightarrow> fbmEnv \<Rightarrow> RootMetadata \<Rightarrow> (error option \<times> int \<times> bool \<times> qrEvent list) option" where
  "reclaimLocked fuel env head =
     (case getMostRecentOldEnoughAndGCRevisions fuel env head of
        None \<Rightarrow> None
      | Some (Inl e) \<Rightarrow> Some (Some e, MetadataRevisionUninitialized env, False, [])
      | Some (Inr (m, lastGCRev)) \<Rightarrow>
          if m = MetadataRevisionUninitialized env \<or> m \<le> lastGCRev
          then Some (None, m, True, [])
          else (case capRevisions m lastGCRev of
                 (m', shortened) \<Rightarrow>
                   (case getUnreferencedBlocks fuel env m' lastGCRev of
                      None \<Rightarrow> None
                    | Some (Inl e) \<Rightarrow> Some (Some e, m', False, [])
                    | Some (Inr (ps, latestRev, complete)) \<Rightarrow>
                        if ps = [] \<and> \<not> shortened then Some (None, m', True, [])
                        else (case deleteBlockRefs env ps of
                                Inl e \<Rightarrow> Some (Some e, m', complete, [EvDelete ps])
                              | Inr zeroRefCounts \<Rightarrow>
                                  Some (finalizeGCOp env latestRev zeroRefCounts, m', complete,
                                        [EvDelete ps, EvFinalize latestRev zeroRefCounts])))))"

text \<open>
  \<open>doReclamation\<close> (lines 728--843): the error returned, the manager afterwards, and
  the events.  Timer, wait group and cancellation are left out.
\<close>

definition doReclamation ::
  "nat \<Rightarrow> fbmEnv \<Rightarrow> folderBlockManager \<Rightarrow>
     (error option \<times> folderBlockManager \<times> qrEvent list) option" where
  "doReclamation fuel env fbm =
     (case getMDForFBM env of
        Inl e \<Rightarrow> Some (Some e, fbm, [])
      | Inr head \<Rightarrow>
         (case IsReadableOrError env of
            Some e \<Rightarrow> Some (Some e, fbm, [])
          | None \<Rightarrow>
             if \<not> merged head then Some (Some UnstagedError, fbm, [])
             else (case GetCurrentUserInfo env of
                Inl e \<Rightarrow> Some (Some e, fbm, [])
              | Inr uid \<Rightarrow>
                 if \<not> IsWriter env uid then Some (Some WriteAccessError, fbm, [])
                 else if \<not> isQRNecessary env fbm head then Some (None, fbm, [])
                 else (case TruncateLock env of
                    Inl e \<Rightarrow> Some (Some e, fbm, [])
                  | Inr locked \<Rightarrow>
                     if \<not> locked
                     then Some (Some TruncateLockError, fbm, [])
                     else (case reclaimLocked fuel env head of
                        None \<Rightarrow> None
                      | Some (err, m, complete, evs) \<Rightarrow>
                          Some (err, rememberQR err head m complete fbm,
                                [EvTruncateLock] @ evs @ [EvTruncateUnlock]))))))"

text \<open>
  Two concrete histories used below.  In the first, revisions 1, 2 and 3 unreference
  sixty blocks each and nothing has been collected yet; in the second a single revision
  unreferences 101 blocks.  Every revision is old enough, the user is a writer, the
  truncate lock is granted and the block service reports block 7 free.
\<close>

definition C8_ptr :: "int \<Rightarrow> BlockPointer" where
  "C8_ptr r = \<lparr>ID = nat r, KeyGen = 1, DataVer = 1, Creator = 1, RefNonce = 0\<rparr>"

definition C8_rmd :: "int \<Rightarrow> nat \<Rightarrow> RootMetadata" where
  "C8_rmd r n = \<lparr>Revision = r, Ops = [OtherOp (replicate n (C8_ptr r)) []],
                 DirMtime = 0, merged = True\<rparr>"

definition C8_env :: "RootMetadata list \<Rightarrow> fbmEnv" where
  "C8_env history =
     \<lparr>getMDRange = (\<lambda>start stop. Inr (filter (\<lambda>r. start \<le> Revision r \<and> Revision r \<le> stop) history)),
      maxMDsAtATime = 10,
      MetadataRevisionUninitialized = 0,
      MetadataRevisionInitial = 1,
      getMDForFBM = Inr (last history),
      IsReadableOrError = None,
      GetCurrentUserInfo = Inr 1,
      IsWriter = (\<lambda>uid. True),
      TruncateLock = Inr True,
      QuotaReclamationMinUnrefAge = 0,
      clockNow = 1,
      deleteBlockRefs = (\<lambda>ps. Inr [7]),
      finalizeGCOp = (\<lambda>latestRev ids. None)\<rparr>"

definition C8_three :: fbmEnv where
  "C8_three = C8_env [C8_rmd 1 60, C8_rmd 2 60, C8_rmd 3 60]"

definition C8_one :: fbmEnv where
  "C8_one = C8_env [C8_rmd 1 101]"

definition C8_fbm :: folderBlockManager where
  "C8_fbm = \<lparr>lastQRHeadRev = 0, lastQROldEnoughRev = 0, wasLastQRComplete = False\<rparr>"

section \<open>Folder block operations: data and state (folder\_block\_ops.go)\<close>

text \<open>
  Two outcomes that are not Go errors travel in the same sum as the errors:
  \<open>GoPanic\<close> is a run-time panic (an index out of range or a nil dereference), and
  \<open>OutOfFuel\<close> says that a loop of the model, whose end depends on a collaborator, used
  up its fuel.  No handler of the source sees either of them.
\<close>

datatype failure =
    Failed error
  | GoPanic
  | OutOfFuel

type_synonym byte = "8 word"

type_synonym BlockRef = "nat \<times> nat"

definition ref :: "BlockPointer \<Rightarrow> BlockRef" where
  "ref p = (ID p, RefNonce p)"

text \<open>
  Modelled from the spec: \<open>BlockPointer.IsValid\<close> and \<open>IsInitialized\<close> (the pointer's
  methods are outside the sources).  The spec calls a pointer initialised or not; the
  zero identifier is the uninitialised one.
\<close>

definition ptrIsValid :: "BlockPointer \<Rightarrow> bool" where
  "ptrIsValid p = (ID p \<noteq> 0)"

record BlockInfo =
  BlockPtr :: BlockPointer
  EncodedSize :: nat

record IndirectFilePtr =
  Info :: BlockInfo
  Off :: int
  Holes :: bool

record FileBlock =
  IsInd :: bool
  Contents :: "byte list"
  IPtrs :: "IndirectFilePtr list"

record DirEntry =
  EntryInfo :: BlockInfo
  Size :: nat
  Mtime :: int
  Ctime :: int

record DirBlock =
  Children :: "string \<Rightarrow> DirEntry option"

datatype Block =
    FileBlk FileBlock
  | DirBlk DirBlock
  | CommonBlk

text \<open>
  A path: folder, branch and the nodes from the root to the tail.  Modelled from the
  spec: a path is valid iff it is not empty and all its pointers are initialised, and it
  has a valid parent iff its length is at least two.  \<open>TailPointer\<close> indexes the last
  node, which panics in Go on an empty path; the callers modelled here test the path
  first wherever the source does.
\<close>

record pathNode =
  nodePtr :: BlockPointer
  Name :: string

record Path =
  Tlf :: nat
  Branch :: nat
  path :: "pathNode list"

definition pathIsValid :: "Path \<Rightarrow> bool" where
  "pathIsValid p = (path p \<noteq> [] \<and> list_all (\<lambda>n. ptrIsValid (nodePtr n)) (path p))"

definition HasValidParent :: "Path \<Rightarrow> bool" where
  "HasValidParent p = (2 \<le> length (path p) \<and> pathIsValid p)"

definition TailPointer :: "Path \<Rightarrow> BlockPointer" where
  "TailPointer p = nodePtr (last (path p))"

definition TailName :: "Path \<Rightarrow> string" where
  "TailName p = Name (last (path p))"

definition ParentPath :: "Path \<Rightarrow> Path" where
  "ParentPath p = p\<lparr>path := butlast (path p)\<rparr>"

text \<open>
  Modelled from the spec: the dirty-file tracker \<open>dirtyFile\<close> (dirty\_file.go is not among
  the sources).  Section 4.2 of the spec gives its operations.  A tracked block is Dirty,
  Syncing or Synced, and carries the orphaned flag that \<open>setBlockOrphaned\<close> sets and
  clears.  \<open>notified\<close> records what \<open>notifyErrListeners\<close> sent to which listener.
\<close>

datatype dirtyBlockSyncState = Dirty | Syncing | Synced

record dirtyBlockState =
  sync :: dirtyBlockSyncState
  orphaned :: bool

record dirtyFile =
  fileBlockStates :: "(BlockPointer \<times> dirtyBlockState) list"
  notYetSyncingBytes :: int
  deferredNewBytes :: int
  errListeners :: "nat list"
  notified :: "(nat \<times> failure) list"

definition newDirtyFile :: dirtyFile where
  "newDirtyFile = \<lparr>fileBlockStates = [], notYetSyncingBytes = 0, deferredNewBytes = 0,
                    errListeners = [], notified = []\<rparr>"

fun setState ::
  "BlockPointer \<Rightarrow> dirtyBlockState \<Rightarrow> (BlockPointer \<times> dirtyBlockState) list \<Rightarrow>
     (BlockPointer \<times> dirtyBlockState) list" where
  "setState p st [] = [(p, st)]"
| "setState p st ((q, t) # m) = (if q = p then (q, st) # m else (q, t) # setState p st m)"

text \<open>
  \<open>setBlockDirty\<close>: mark the pointer Dirty; report whether the pointer is new to the
  tracker, and whether any pointer of the file is Syncing.
\<close>

definition setBlockDirty :: "BlockPointer \<Rightarrow> dirtyFile \<Rightarrow> (bool \<times> bool) \<times> dirtyFile" where
  "setBlockDirty p df =
     (let old = map_of (fileBlockStates df) p;
          needsCaching = (old = None);
          isSyncing = list_ex (\<lambda>(q, t). sync t = Syncing) (fileBlockStates df);
          st = (case old of None \<Rightarrow> \<lparr>sync = Dirty, orphaned = False\<rparr>
                | Some t \<Rightarrow> t\<lparr>sync := Dirty\<rparr>)
      in ((needsCaching, isSyncing), df\<lparr>fileBlockStates := setState p st (fileBlockStates df)\<rparr>))"

definition blockNeedsCopy :: "BlockPointer \<Rightarrow> dirtyFile \<Rightarrow> bool" where
  "blockNeedsCopy p df =
     (case map_of (fileBlockStates df) p of None \<Rightarrow> False | Some t \<Rightarrow> sync t = Syncing)"

definition setBlockNotDirty :: "BlockPointer \<Rightarrow> dirtyFile \<Rightarrow> dirtyFile" where
  "setBlockNotDirty p df =
     df\<lparr>fileBlockStates := filter (\<lambda>(q, t). q \<noteq> p) (fileBlockStates df)\<rparr>"

definition isBlockDirty :: "BlockPointer \<Rightarrow> dirtyFile \<Rightarrow> bool" where
  "isBlockDirty p df = (map_of (fileBlockStates df) p \<noteq> None)"

definition isBlockSyncing :: "BlockPointer \<Rightarrow> dirtyFile \<Rightarrow> bool" where
  "isBlockSyncing p df = blockNeedsCopy p df"

definition setBlockOrphaned :: "BlockPointer \<Rightarrow> bool \<Rightarrow> dirtyFile \<Rightarrow> dirtyFile" where
  "setBlockOrphaned p b df =
     (case map_of (fileBlockStates df) p of
        None \<Rightarrow> df
      | Some t \<Rightarrow> df\<lparr>fileBlockStates := setState p (t\<lparr>orphaned := b\<rparr>) (fileBlockStates df)\<rparr>)"

text \<open>\<open>resetSyncingBlocksToDirty\<close>: all Syncing blocks revert to Dirty.\<close>

definition resetSyncingBlocksToDirty :: "dirtyFile \<Rightarrow> dirtyFile" where
  "resetSyncingBlocksToDirty df =
     df\<lparr>fileBlockStates :=
          map (\<lambda>(q, t). (q, if sync t = Syncing then t\<lparr>sync := Dirty\<rparr> else t))
            (fileBlockStates df)\<rparr>"

text \<open>
  \<open>finishSync\<close>: assert that all blocks have reached Synced or Orphaned.  The error of
  a failed assertion is an invariant violation raised by the tracker.
\<close>

definition finishSync :: "dirtyFile \<Rightarrow> error option" where
  "finishSync df =
     (if list_all (\<lambda>(q, t). sync t = Synced \<or> orphaned t) (fileBlockStates df)
      then None else Some (ExternalError 0))"

definition addErrListener :: "nat \<Rightarrow> dirtyFile \<Rightarrow> dirtyFile" where
  "addErrListener ch df = df\<lparr>errListeners := errListeners df @ [ch]\<rparr>"

definition notifyErrListeners_df :: "failure \<Rightarrow> dirtyFile \<Rightarrow> dirtyFile" where
  "notifyErrListeners_df e df =
     df\<lparr>notified := notified df @ map (\<lambda>ch. (ch, e)) (errListeners df), errListeners := []\<rparr>"

text \<open>
  The write-side bookkeeping of a file between syncs (\<open>syncInfo\<close>, lines 37--44).  The
  sync operation \<open>op\<close> is kept as the list of write ranges recorded so far together with
  the flag that \<open>resetUpdateState\<close> clears (ops.go is outside the sources); \<open>bps\<close> is
  a pointer to a \<open>blockPutState\<close>, \<open>None\<close> for nil.
\<close>

record WriteRange =
  wrOff :: nat
  wrLen :: nat

record syncOp =
  opFile :: BlockPointer
  opWrites :: "WriteRange list"
  opUpdated :: bool

record blockState =
  bsPtr :: BlockPointer
  bsBlock :: nat

record blockPutState =
  blockStates :: "blockState list"

record syncInfo =
  oldInfo :: BlockInfo
  op :: syncOp
  unrefs :: "BlockInfo list"
  bps :: "nat option"
  refBytes :: nat
  unrefBytes :: nat

text \<open>
  The state guarded by \<open>blockLock\<close> (lines 121--162), without the two lists of deferred
  work, together with the caches the operations reach through \<open>config\<close>.  Blocks, sync
  infos and block-put states are Go pointers, shared between the caches, the maps and
  the values held by running operations, so they live in stores indexed by address.

  Modelled from the spec: \<open>DirtyBlockCache\<close> and \<open>BlockCache\<close> (outside the sources).
  The dirty cache maps a pointer and a branch to a block; \<open>IsDirty\<close> holds iff the
  pointer is in it under the branch; \<open>Put\<close> and \<open>Delete\<close> update the map;
  \<open>UpdateUnsyncedBytes\<close> adds a delta to the waiting counter when the flag is set and to
  the unsynced counter otherwise.  The clean cache maps a pointer to a block and its
  lifetime (\<open>True\<close> for permanent).
\<close>

record fbo =
  blocks :: "nat \<Rightarrow> Block option"
  nextBlock :: nat
  syncInfos :: "nat \<Rightarrow> syncInfo option"
  putStates :: "nat \<Rightarrow> blockPutState option"
  nextInfo :: nat
  dirtyBcache :: "BlockPointer \<times> nat \<Rightarrow> nat option"
  unsyncedBytes :: int
  waitingBytes :: int
  bcache :: "BlockPointer \<Rightarrow> (nat \<times> bool) option"
  dirtyFiles :: "BlockPointer \<Rightarrow> dirtyFile option"
  unrefCache :: "BlockRef \<Rightarrow> nat option"
  deCache :: "BlockRef \<Rightarrow> DirEntry option"
  doDeferWrite :: bool
  tempIDsMade :: nat
  forceSyncSent :: bool

definition DirtyBcache_IsDirty :: "BlockPointer \<Rightarrow> nat \<Rightarrow> fbo \<Rightarrow> bool" where
  "DirtyBcache_IsDirty p br s = (dirtyBcache s (p, br) \<noteq> None)"

definition DirtyBcache_Put :: "BlockPointer \<Rightarrow> nat \<Rightarrow> nat \<Rightarrow> fbo \<Rightarrow> fbo" where
  "DirtyBcache_Put p br a s = s\<lparr>dirtyBcache := (dirtyBcache s)((p, br) \<mapsto> a)\<rparr>"

definition DirtyBcache_Delete :: "BlockPointer \<Rightarrow> nat \<Rightarrow> fbo \<Rightarrow> failure option \<times> fbo" where
  "DirtyBcache_Delete p br s = (None, s\<lparr>dirtyBcache := (dirtyBcache s)((p, br) := None)\<rparr>)"

definition UpdateUnsyncedBytes :: "int \<Rightarrow> bool \<Rightarrow> fbo \<Rightarrow> fbo" where
  "UpdateUnsyncedBytes delta waiting s =
     (if waiting then s\<lparr>waitingBytes := waitingBytes s + delta\<rparr>
      else s\<lparr>unsyncedBytes := unsyncedBytes s + delta\<rparr>)"

definition BlockCache_Put :: "BlockPointer \<Rightarrow> nat \<Rightarrow> bool \<Rightarrow> fbo \<Rightarrow> fbo" where
  "BlockCache_Put p a permanent s = s\<lparr>bcache := (bcache s)(p \<mapsto> (a, permanent))\<rparr>"

text \<open>
  \<open>DeletePermanent(id)\<close>: the entry leaves the permanent region of the clean cache and
  stays under transient retention.
\<close>

definition BlockCache_DeletePermanent :: "nat \<Rightarrow> fbo \<Rightarrow> fbo" where
  "BlockCache_DeletePermanent i s =
     s\<lparr>bcache := (\<lambda>p. case bcache s p of
                          None \<Rightarrow> None
                        | Some (a, perm) \<Rightarrow> Some (a, if ID p = i then False else perm))\<rparr>"

text \<open>
  The collaborators reached through \<open>config\<close>, the node cache and the metadata.  The
  admission control of the dirty cache, \<open>RequestPermissionToDirty\<close>, is a parameter: it
  refuses with an error or admits the bytes, and may change the state of the cache.
\<close>

record mdView =
  LatestKeyGeneration :: int
  TlfWriters :: "nat list"

record fboConfig =
  fboTlf :: nat
  fboBranch :: nat
  MaxFileBytes :: nat
  KBPKI_GetCurrentUserInfo :: "failure + nat"
  Crypto_MakeTemporaryBlockID :: "nat \<Rightarrow> failure + nat"
  DefaultNewBlockDataVersion :: "bool \<Rightarrow> int"
  BlockOps_Get :: "int option \<Rightarrow> BlockPointer \<Rightarrow> failure + Block"
  CopyUntilSplit :: "FileBlock \<Rightarrow> bool \<Rightarrow> byte list \<Rightarrow> int \<Rightarrow> FileBlock \<times> int"
  ShouldForceSync :: "int \<Rightarrow> int \<Rightarrow> bool"
  PathFromNode :: "nat \<Rightarrow> Path"
  isRecoverableBlockError :: "failure \<Rightarrow> bool"
  RequestPermissionToDirty :: "int \<Rightarrow> fbo \<Rightarrow> failure option \<times> fbo"

section \<open>Folder block operations: finishing and cleaning up a sync\<close>

text \<open>
  \<open>folderBlockOps\<close> proper: the state above plus the writes deferred during a sync and
  the dirty pointers to delete before they are replayed (lines 147--153).  A deferred
  write is a Go closure over the folder state; the closures the source builds (in
  \<open>Write\<close> and \<open>Truncate\<close>) take the context, the metadata and the new path, work on the state
  without touching the two lists, and return an error or nil.
\<close>

type_synonym deferredWrite = "int option \<Rightarrow> mdView \<Rightarrow> Path \<Rightarrow> fbo \<Rightarrow> failure option \<times> fbo"

record folderBlockOps =
  core :: fbo
  deferredWrites :: "deferredWrite list"
  deferredDirtyDeletes :: "BlockPointer list"

text \<open>\<open>fileSyncState\<close> (lines 1789--1824); the block and sync-info pointers are addresses.\<close>

record fileSyncState =
  fblock :: "nat option"
  savedFblock :: "nat option"
  redirtyOnRecoverableError :: "(BlockPointer \<times> BlockPointer) list"
  si :: "nat option"
  savedSi :: "nat option"
  oldFileBlockPtrs :: "BlockPointer list"
  newIndirectFileBlockPtrs :: "BlockPointer list"

text \<open>\<open>IsDirty\<close> (lines 1682--1686).\<close>

definition IsDirty :: "Path \<Rightarrow> fbo \<Rightarrow> bool" where
  "IsDirty file s = DirtyBcache_IsDirty (TailPointer file) (Branch file) s"

text \<open>
  \<open>clearCacheInfoLocked\<close> (lines 1688--1703).  When the tracker's \<open>finishSync\<close> fails,
  the two cache entries are already gone and the tracker stays.
\<close>

definition clearCacheInfoLocked :: "Path \<Rightarrow> fbo \<Rightarrow> failure option \<times> fbo" where
  "clearCacheInfoLocked file s =
     (if path file = [] then (Some GoPanic, s)
      else let r = ref (TailPointer file);
               s1 = s\<lparr>deCache := (deCache s)(r := None), unrefCache := (unrefCache s)(r := None)\<rparr>
           in case dirtyFiles s1 (TailPointer file) of
                None \<Rightarrow> (None, s1)
              | Some df \<Rightarrow>
                  (case finishSync df of
                     Some e \<Rightarrow> (Some (Failed e), s1)
                   | None \<Rightarrow> (None, s1\<lparr>dirtyFiles := (dirtyFiles s1)(TailPointer file := None)\<rparr>)))"

text \<open>The two delete loops of \<open>FinishSync\<close> (lines 2179--2183 and 2204--2208).\<close>

fun deleteDirty :: "BlockPointer list \<Rightarrow> nat \<Rightarrow> fbo \<Rightarrow> failure option \<times> fbo" where
  "deleteDirty [] br s = (None, s)"
| "deleteDirty (p # ps) br s =
     (case DirtyBcache_Delete p br s of
        (Some e, s') \<Rightarrow> (Some e, s')
      | (None, s') \<Rightarrow> deleteDirty ps br s')"

text \<open>The replay loop (lines 2210--2217): each closure in turn, stopping at the first error.\<close>

fun replayWrites :: "deferredWrite list \<Rightarrow> int option \<Rightarrow> mdView \<Rightarrow> Path \<Rightarrow> fbo \<Rightarrow> failure option \<times> fbo" where
  "replayWrites [] ctx md newPath s = (None, s)"
| "replayWrites (f # fs) ctx md newPath s =
     (case f ctx md newPath s of
        (Some e, s') \<Rightarrow> (Some e, s')
      | (None, s') \<Rightarrow> replayWrites fs ctx md newPath s')"

text \<open>
  Lines 2178--2208 of \<open>FinishSync\<close>: the state in which the replay starts, or the error
  of a failed delete.  An error of \<open>DeletePermanent\<close> is only logged.
\<close>

definition beforeReplay ::
  "fboConfig \<Rightarrow> fileSyncState \<Rightarrow> folderBlockOps \<Rightarrow> failure option \<times> folderBlockOps" where
  "beforeReplay cfg syncState S =
     (case deleteDirty (oldFileBlockPtrs syncState) (fboBranch cfg) (core S) of
        (Some e, s1) \<Rightarrow> (Some e, S\<lparr>core := s1\<rparr>)
      | (None, s1) \<Rightarrow>
          (let s2 = fold (\<lambda>p. BlockCache_DeletePermanent (ID p))
                      (newIndirectFileBlockPtrs syncState) s1;
               S1 = S\<lparr>deferredDirtyDeletes := [], deferredWrites := []\<rparr>
           in case deleteDirty (deferredDirtyDeletes S) (fboBranch cfg) s2 of
                (Some e, s3) \<Rightarrow> (Some e, S1\<lparr>core := s3\<rparr>)
              | (None, s3) \<Rightarrow> (None, S1\<lparr>core := s3\<rparr>)))"

text \<open>\<open>FinishSync\<close> (lines 2172--2233): \<open>stillDirty\<close>, the error, and the state.\<close>

definition FinishSync ::
  "fboConfig \<Rightarrow> int option \<Rightarrow> Path \<Rightarrow> Path \<Rightarrow> mdView \<Rightarrow> fileSyncState \<Rightarrow> folderBlockOps \<Rightarrow>
     (bool \<times> failure option) \<times> folderBlockOps" where
  "FinishSync cfg ctx oldPath newPath md syncState S =
     (case beforeReplay cfg syncState S of
        (Some e, S1) \<Rightarrow> ((True, Some e), S1)
      | (None, S1) \<Rightarrow>
          (case replayWrites (deferredWrites S) ctx md newPath (core S1) of
             (Some e, s4) \<Rightarrow> ((True, Some e), S1\<lparr>core := s4\<rparr>)
           | (None, s4) \<Rightarrow>
               (case clearCacheInfoLocked oldPath s4 of
                  (Some e, s5) \<Rightarrow> ((True, Some e), S1\<lparr>core := s5\<rparr>)
                | (None, s5) \<Rightarrow> ((deferredWrites S \<noteq> [], None), S1\<lparr>core := s5\<rparr>))))"

text \<open>
  A concrete sync used below.  The file at pointer 1 has been synced to pointer 2; its
  old tail is still in the dirty cache, it has a dirty directory entry, a sync info and a
  tracker whose only block is Synced.  One write was deferred during the sync: its replay
  puts the tail of the path it is given into the dirty cache.  Pointer 3 is the dirty
  pointer that write left behind.
\<close>

definition emptyFbo :: fbo where
  "emptyFbo =
     \<lparr>blocks = (\<lambda>a. None), nextBlock = 0, syncInfos = (\<lambda>a. None), putStates = (\<lambda>a. None),
      nextInfo = 0, dirtyBcache = (\<lambda>k. None), unsyncedBytes = 0, waitingBytes = 0,
      bcache = (\<lambda>p. None), dirtyFiles = (\<lambda>p. None), unrefCache = (\<lambda>r. None),
      deCache = (\<lambda>r. None), doDeferWrite = False, tempIDsMade = 0, forceSyncSent = False\<rparr>"

definition exPtr :: "nat \<Rightarrow> BlockPointer" where
  "exPtr n = \<lparr>ID = n, KeyGen = 1, DataVer = 1, Creator = 1, RefNonce = 0\<rparr>"

definition exPath :: "nat \<Rightarrow> Path" where
  "exPath n = \<lparr>Tlf = 1, Branch = 0,
               path = [\<lparr>nodePtr = exPtr 100, Name = ''root''\<rparr>, \<lparr>nodePtr = exPtr n, Name = ''f''\<rparr>]\<rparr>"

definition exConfig :: fboConfig where
  "exConfig =
     \<lparr>fboTlf = 1, fboBranch = 0, MaxFileBytes = 2 ^ 40,
      KBPKI_GetCurrentUserInfo = Inr 1,
      Crypto_MakeTemporaryBlockID = (\<lambda>n. Inr (1000 + n)),
      DefaultNewBlockDataVersion = (\<lambda>holes. if holes then 2 else 1),
      BlockOps_Get = (\<lambda>ctx p. Inl (Failed (ExternalError 1))),
      CopyUntilSplit = (\<lambda>b lastBlock d off. (b, 0)),
      ShouldForceSync = (\<lambda>unsynced waiting. False),
      PathFromNode = exPath,
      isRecoverableBlockError = (\<lambda>e. e = Failed (ExternalError 2)),
      RequestPermissionToDirty = (\<lambda>n s. (None, UpdateUnsyncedBytes n False s))\<rparr>"

definition exMD :: mdView where
  "exMD = \<lparr>LatestKeyGeneration = 1, TlfWriters = [1]\<rparr>"

definition exEntry :: "nat \<Rightarrow> nat \<Rightarrow> DirEntry" where
  "exEntry n sz = \<lparr>EntryInfo = \<lparr>BlockPtr = exPtr n, EncodedSize = 0\<rparr>, Size = sz, Mtime = 0, Ctime = 0\<rparr>"



definition C1_syncState :: fileSyncState where
  "C1_syncState =
     \<lparr>fblock = None, savedFblock = None, redirtyOnRecoverableError = [], si = Some 0,
      savedSi = Some 1, oldFileBlockPtrs = [exPtr 1], newIndirectFileBlockPtrs = []\<rparr>"




section \<open>Folder block operations: cleaning up after a failed sync\<close>

text \<open>\<open>getOrCreateDirtyFileLocked\<close> (lines 713--723).\<close>

definition getOrCreateDirtyFileLocked :: "Path \<Rightarrow> fbo \<Rightarrow> dirtyFile \<times> fbo" where
  "getOrCreateDirtyFileLocked file s =
     (case dirtyFiles s (TailPointer file) of
        Some df \<Rightarrow> (df, s)
      | None \<Rightarrow> (newDirtyFile, s\<lparr>dirtyFiles := (dirtyFiles s)(TailPointer file \<mapsto> newDirtyFile)\<rparr>))"

text \<open>
  \<open>cacheBlockIfNotYetDirtyLocked\<close> (lines 729--746); the block is given by its address.
  \<open>Put\<close> of the modelled dirty cache does not fail, so the error the source returns is
  always nil and the model returns the state only.
\<close>

definition cacheBlockIfNotYetDirtyLocked :: "BlockPointer \<Rightarrow> Path \<Rightarrow> nat \<Rightarrow> fbo \<Rightarrow> fbo" where
  "cacheBlockIfNotYetDirtyLocked p file a s =
     (case getOrCreateDirtyFileLocked file s of
        (df, s1) \<Rightarrow>
          (case setBlockDirty p df of
             ((needsCaching, isSyncing), df') \<Rightarrow>
               (let s2 = s1\<lparr>dirtyFiles := (dirtyFiles s1)(TailPointer file \<mapsto> df')\<rparr>;
                    s3 = (if needsCaching then DirtyBcache_Put p (Branch file) a s2 else s2)
                in if isSyncing then s3\<lparr>doDeferWrite := True\<rparr> else s3)))"

text \<open>
  \<open>syncInfo.DeepCopy\<close> (lines 46--64): a new sync info, and a new block-put state when
  \<open>bps\<close> is not nil.  The result is the address of the copy; a nil receiver panics.
\<close>

definition syncInfo_DeepCopy :: "nat \<Rightarrow> fbo \<Rightarrow> (failure + nat) \<times> fbo" where
  "syncInfo_DeepCopy a s =
     (case syncInfos s a of
        None \<Rightarrow> (Inl GoPanic, s)
      | Some i \<Rightarrow>
          (case bps i of
             None \<Rightarrow>
               (Inr (nextInfo s),
                s\<lparr>syncInfos := (syncInfos s)(nextInfo s \<mapsto> i), nextInfo := Suc (nextInfo s)\<rparr>)
           | Some b \<Rightarrow>
               (case putStates s b of
                  None \<Rightarrow> (Inl GoPanic, s)
                | Some ps \<Rightarrow>
                    (Inr (nextInfo s),
                     s\<lparr>syncInfos := (syncInfos s)(nextInfo s \<mapsto> i\<lparr>bps := Some (Suc (nextInfo s))\<rparr>),
                       putStates := (putStates s)(Suc (nextInfo s) \<mapsto> ps),
                       nextInfo := Suc (Suc (nextInfo s))\<rparr>))))"

text \<open>
  \<open>revertSyncInfoAfterRecoverableError\<close> (lines 1715--1738), statement by statement on
  the stores.  \<open>*si = *savedSi\<close> copies the struct, so \<open>si.bps\<close> becomes the pointer
  held in \<open>savedSi.bps\<close>.  \<open>si.bps.blockStates = nil\<close> writes through that pointer.
  The range expression \<open>savedSi.bps.blockStates\<close> is read, once, after that write.
\<close>

definition revertSyncInfoAfterRecoverableError ::
  "BlockPointer list \<Rightarrow> nat \<Rightarrow> nat \<Rightarrow> fbo \<Rightarrow> failure option \<times> fbo" where
  "revertSyncInfoAfterRecoverableError blocksToRemove siA savedA s =
     (case (syncInfos s siA, syncInfos s savedA) of
        (Some old, Some saved) \<Rightarrow>
          (let s1 = s\<lparr>syncInfos := (syncInfos s)(siA \<mapsto> saved)\<rparr>
           in case bps saved of
                None \<Rightarrow> (None, s1)
              | Some b \<Rightarrow>
                  (case putStates s1 b of
                     None \<Rightarrow> (Some GoPanic, s1)
                   | Some ps \<Rightarrow>
                       (let s2 = s1\<lparr>putStates := (putStates s1)(b \<mapsto> ps\<lparr>blockStates := []\<rparr>)\<rparr>;
                            ranged =
                              (case syncInfos s2 savedA of
                                 None \<Rightarrow> []
                               | Some sv \<Rightarrow>
                                   (case bps sv of
                                      None \<Rightarrow> []
                                    | Some b' \<Rightarrow>
                                        (case putStates s2 b' of
                                           None \<Rightarrow> []
                                         | Some ps' \<Rightarrow> blockStates ps')));
                            kept = filter (\<lambda>x. bsPtr x \<notin> set blocksToRemove) ranged
                        in (None,
                            s2\<lparr>putStates := (putStates s2)(b \<mapsto> ps\<lparr>blockStates := [] @ kept\<rparr>)\<rparr>))))
      | _ \<Rightarrow> (Some GoPanic, s))"

text \<open>
  \<open>fixChildBlocksAfterRecoverableError\<close> (lines 835--896).  The map
  \<open>redirtyOnRecoverableError\<close> (new pointer to old pointer) is an association list and
  is visited in its order.  Errors inside the loop are only logged in the source.
\<close>

definition redirtyChild :: "Path \<Rightarrow> nat \<Rightarrow> nat \<Rightarrow> BlockPointer \<times> BlockPointer \<Rightarrow> fbo \<Rightarrow> fbo" where
  "redirtyChild file br topA np s =
     (case blocks s topA of
        Some (FileBlk fb) \<Rightarrow>
          (if list_ex (\<lambda>ip. BlockPtr (Info ip) = fst np) (IPtrs fb)
           then (let fb' = fb\<lparr>IPtrs := map (\<lambda>ip. if BlockPtr (Info ip) = fst np
                                                   then ip\<lparr>Info := (Info ip)\<lparr>EncodedSize := 0\<rparr>\<rparr>
                                                   else ip) (IPtrs fb)\<rparr>;
                     s1 = s\<lparr>blocks := (blocks s)(topA \<mapsto> FileBlk fb')\<rparr>
                 in case bcache s1 (fst np) of
                      None \<Rightarrow> s1
                    | Some (b, perm) \<Rightarrow>
                        snd (DirtyBcache_Delete (snd np) br
                               (cacheBlockIfNotYetDirtyLocked (fst np) file b s1)))
           else s)
      | _ \<Rightarrow> s)"

definition fixChildBlocksAfterRecoverableError ::
  "fboConfig \<Rightarrow> Path \<Rightarrow> (BlockPointer \<times> BlockPointer) list \<Rightarrow> fbo \<Rightarrow> fbo" where
  "fixChildBlocksAfterRecoverableError cfg file redirty s =
     (case dirtyFiles s (TailPointer file) of
        None \<Rightarrow> s
      | Some df \<Rightarrow>
          (let df1 = fold (\<lambda>np d. setBlockOrphaned (snd np) False d) redirty df;
               s1 = s\<lparr>dirtyFiles := (dirtyFiles s)(TailPointer file \<mapsto> df1)\<rparr>
           in if \<not> isBlockDirty (TailPointer file) df1 \<or> \<not> isBlockSyncing (TailPointer file) df1
              then s1
              else (case dirtyBcache s1 (TailPointer file, fboBranch cfg) of
                      None \<Rightarrow> s1
                    | Some topA \<Rightarrow>
                        (case blocks s1 topA of
                           Some (FileBlk fb) \<Rightarrow>
                             fold (redirtyChild file (fboBranch cfg) topA) redirty s1
                         | _ \<Rightarrow> s1))))"

text \<open>\<open>notifyErrListeners\<close> (lines 2237--2253).\<close>

definition notifyErrListeners :: "fboConfig \<Rightarrow> BlockPointer \<Rightarrow> failure \<Rightarrow> fbo \<Rightarrow> fbo" where
  "notifyErrListeners cfg p err s =
     (if isRecoverableBlockError cfg err then s
      else case dirtyFiles s p of
             None \<Rightarrow> s
           | Some df \<Rightarrow> s\<lparr>dirtyFiles := (dirtyFiles s)(p \<mapsto> notifyErrListeners_df err df)\<rparr>)"

text \<open>
  \<open>CleanupSyncState\<close> (lines 2127--2167).  The source returns nothing; the result here
  is \<open>Some GoPanic\<close> where a nil pointer or an empty path would make it panic.
  \<open>resetUpdateState\<close> of the sync operation clears its update flag.
\<close>

definition CleanupSyncState ::
  "fboConfig \<Rightarrow> Path \<Rightarrow> BlockPointer list \<Rightarrow> fileSyncState \<Rightarrow> failure option \<Rightarrow> fbo \<Rightarrow>
     failure option \<times> fbo" where
  "CleanupSyncState cfg file blocksToRemove result err s =
     (case err of
        None \<Rightarrow> (None, s)
      | Some e \<Rightarrow>
          if path file = [] then (Some GoPanic, s)
          else
            (let s1 = notifyErrListeners cfg (TailPointer file) e s;
                 s2 = (case si result of
                         None \<Rightarrow> s1
                       | Some a \<Rightarrow>
                           (case syncInfos s1 a of
                              None \<Rightarrow> s1
                            | Some i \<Rightarrow>
                                s1\<lparr>syncInfos := (syncInfos s1)(a \<mapsto> i\<lparr>op := (op i)\<lparr>opUpdated := False\<rparr>\<rparr>)\<rparr>));
                 r3 = (if isRecoverableBlockError cfg e
                       then (case si result of
                               None \<Rightarrow> (None, s2)
                             | Some a \<Rightarrow>
                                 (case savedSi result of
                                    None \<Rightarrow> (Some GoPanic, s2)
                                  | Some sa \<Rightarrow>
                                      revertSyncInfoAfterRecoverableError blocksToRemove a sa s2))
                       else (None, s2))
             in case r3 of
                  (Some p, s3) \<Rightarrow> (Some p, s3)
                | (None, s3) \<Rightarrow>
                    (let r4 = (if isRecoverableBlockError cfg e
                               then (case fblock result of
                                       None \<Rightarrow> (None, s3)
                                     | Some fa \<Rightarrow>
                                         (case savedFblock result of
                                            None \<Rightarrow> (Some GoPanic, s3)
                                          | Some sfa \<Rightarrow>
                                              (None,
                                               fixChildBlocksAfterRecoverableError cfg file
                                                 (redirtyOnRecoverableError result)
                                                 (s3\<lparr>blocks := (blocks s3)(fa := blocks s3 sfa)\<rparr>))))
                               else (None, s3))
                     in case r4 of
                          (Some p, s4) \<Rightarrow> (Some p, s4)
                        | (None, s4) \<Rightarrow>
                            (None,
                             case dirtyFiles s4 (TailPointer file) of
                               None \<Rightarrow> s4
                             | Some df \<Rightarrow>
                                 s4\<lparr>dirtyFiles := (dirtyFiles s4)
                                       (TailPointer file \<mapsto> resetSyncingBlocksToDirty df)\<rparr>))))"

text \<open>
  A concrete failed sync.  Before this sync the file's sync info (address 0) already held
  a block-put state with the two blocks A and B of an earlier attempt.  \<open>StartSync\<close>
  saves a deep copy (line 1861), the sync adds block C to the live block-put state, and
  the upload of C fails with a recoverable error (error 2 of \<open>exConfig\<close>).
\<close>

definition C2_bs :: "nat \<Rightarrow> blockState" where
  "C2_bs n = \<lparr>bsPtr = exPtr n, bsBlock = n\<rparr>"

definition C2_before :: fbo where
  "C2_before =
     emptyFbo\<lparr>syncInfos := (\<lambda>a. None)(0 \<mapsto>
                  \<lparr>oldInfo = \<lparr>BlockPtr = exPtr 1, EncodedSize = 10\<rparr>,
                   op = \<lparr>opFile = exPtr 1, opWrites = [], opUpdated = True\<rparr>,
                   unrefs = [], bps = Some 0, refBytes = 0, unrefBytes = 0\<rparr>),
               putStates := (\<lambda>a. None)(0 \<mapsto> \<lparr>blockStates = [C2_bs 11, C2_bs 12]\<rparr>),
               nextInfo := 1,
               unrefCache := (\<lambda>r. None)(ref (exPtr 1) \<mapsto> 0)\<rparr>"

definition C2_failed :: fbo where
  "C2_failed =
     (let s = snd (syncInfo_DeepCopy 0 C2_before)
      in s\<lparr>putStates := (putStates s)(0 \<mapsto> \<lparr>blockStates = [C2_bs 11, C2_bs 12, C2_bs 13]\<rparr>)\<rparr>)"

definition C2_syncState :: fileSyncState where
  "C2_syncState =
     \<lparr>fblock = None, savedFblock = None, redirtyOnRecoverableError = [], si = Some 0,
      savedSi = Some 1, oldFileBlockPtrs = [exPtr 1], newIndirectFileBlockPtrs = []\<rparr>"

text \<open>The block states of the block-put state a sync info points to.\<close>

definition blockStatesOf :: "nat \<Rightarrow> fbo \<Rightarrow> blockState list option" where
  "blockStatesOf a s =
     (case syncInfos s a of
        None \<Rightarrow> None
      | Some i \<Rightarrow> (case bps i of None \<Rightarrow> None
                   | Some b \<Rightarrow> map_option blockStates (putStates s b)))"

section \<open>Folder block operations: fetching blocks and reading\<close>

text \<open>
  A context is its deadline, \<open>None\<close> when it has none; times are in nanoseconds.  The
  block server's \<open>Get\<close> is given the context and the pointer; the metadata it receives
  in the source only selects keys and is left out of the fetch helpers.
\<close>

datatype blockReqType = blockRead | blockWrite

text \<open>\<open>getBlockFromDirtyOrCleanCache\<close> (lines 188--195): the address of the cached block.\<close>

definition getBlockFromDirtyOrCleanCache :: "BlockPointer \<Rightarrow> nat \<Rightarrow> fbo \<Rightarrow> nat option" where
  "getBlockFromDirtyOrCleanCache p br s =
     (case dirtyBcache s (p, br) of
        Some a \<Rightarrow> Some a
      | None \<Rightarrow> map_option fst (bcache s p))"

text \<open>
  \<open>getBlockHelperLocked\<close> (lines 203--251).  A fetched block is a new object; with
  \<open>doCache\<close> it enters the clean cache as a transient entry.
\<close>

definition getBlockHelperLocked ::
  "fboConfig \<Rightarrow> int option \<Rightarrow> BlockPointer \<Rightarrow> nat \<Rightarrow> bool \<Rightarrow> fbo \<Rightarrow> (failure + nat) \<times> fbo" where
  "getBlockHelperLocked cfg ctx p br doCache s =
     (if \<not> ptrIsValid p then (Inl (Failed InvalidBlockRefError), s)
      else case getBlockFromDirtyOrCleanCache p br s of
             Some a \<Rightarrow> (Inr a, s)
           | None \<Rightarrow>
               (case BlockOps_Get cfg ctx p of
                  Inl e \<Rightarrow> (Inl e, s)
                | Inr b \<Rightarrow>
                    (let a = nextBlock s;
                         s1 = s\<lparr>blocks := (blocks s)(a \<mapsto> b), nextBlock := Suc a\<rparr>
                     in (Inr a, if doCache then BlockCache_Put p a False s1 else s1))))"

text \<open>\<open>getFileBlockHelperLocked\<close> (lines 263--280): the type assertion on the block.\<close>

definition getFileBlockHelperLocked ::
  "fboConfig \<Rightarrow> int option \<Rightarrow> BlockPointer \<Rightarrow> nat \<Rightarrow> fbo \<Rightarrow> (failure + nat) \<times> fbo" where
  "getFileBlockHelperLocked cfg ctx p br s =
     (case getBlockHelperLocked cfg ctx p br True s of
        (Inl e, s1) \<Rightarrow> (Inl e, s1)
      | (Inr a, s1) \<Rightarrow>
          (case blocks s1 a of
             Some (FileBlk fb) \<Rightarrow> (Inr a, s1)
           | Some other \<Rightarrow> (Inl (Failed NotFileBlockError), s1)
           | None \<Rightarrow> (Inl GoPanic, s1)))"

text \<open>\<open>DeepCopy\<close> of a block: a new object with the same content.\<close>

definition deepCopyBlock :: "nat \<Rightarrow> fbo \<Rightarrow> nat \<times> fbo" where
  "deepCopyBlock a s =
     (nextBlock s, s\<lparr>blocks := (blocks s)(nextBlock s := blocks s a), nextBlock := Suc (nextBlock s)\<rparr>)"

text \<open>
  \<open>getFileBlockLocked\<close> (lines 384--419): for writing, the block is copied when it is
  not dirty yet, or when the file's tracker says it is being synced.
\<close>

definition getFileBlockLocked ::
  "fboConfig \<Rightarrow> int option \<Rightarrow> BlockPointer \<Rightarrow> Path \<Rightarrow> blockReqType \<Rightarrow> fbo \<Rightarrow>
     (failure + nat) \<times> fbo" where
  "getFileBlockLocked cfg ctx p file rtype s =
     (if \<not> pathIsValid file then (Inl (Failed InvalidPathError), s)
      else case getFileBlockHelperLocked cfg ctx p (Branch file) s of
             (Inl e, s1) \<Rightarrow> (Inl e, s1)
           | (Inr a, s1) \<Rightarrow>
               (if rtype = blockWrite \<and>
                   (\<not> DirtyBcache_IsDirty p (Branch file) s1 \<or>
                    (case dirtyFiles s1 (TailPointer file) of
                       None \<Rightarrow> False
                     | Some df \<Rightarrow> blockNeedsCopy p df))
                then (case deepCopyBlock a s1 of (a', s2) \<Rightarrow> (Inr a', s2))
                else (Inr a, s1)))"

text \<open>
  \<open>getFileLocked\<close> (lines 422--426).  \<open>file.TailPointer()\<close> is evaluated for the call,
  before the callee tests the path, and panics on an empty path.
\<close>

definition getFileLocked ::
  "fboConfig \<Rightarrow> int option \<Rightarrow> Path \<Rightarrow> blockReqType \<Rightarrow> fbo \<Rightarrow> (failure + nat) \<times> fbo" where
  "getFileLocked cfg ctx file rtype s =
     (if path file = [] then (Inl GoPanic, s)
      else getFileBlockLocked cfg ctx (TailPointer file) file rtype s)"

text \<open>
  \<open>getFileBlockAtOffsetLocked\<close> (lines 523--566).  The inner loop picks the index of
  the child to follow: the first pointer whose offset is the wanted one, or the pointer
  before the first one whose offset is greater, or the last pointer.  The outer loop
  descends while the block is indirect; its end depends on the blocks the caches and the
  server hand out, so it runs on fuel.
\<close>

fun findNextIndex :: "IndirectFilePtr list \<Rightarrow> int \<Rightarrow> int \<Rightarrow> int option" where
  "findNextIndex [] off i = None"
| "findNextIndex (p # ps) off i =
     (if Off p = off then Some i
      else if Off p > off then Some (i - 1)
      else findNextIndex ps off (i + 1))"

record atOffset =
  aoPtr :: BlockPointer
  aoParent :: "nat option"
  aoIndex :: int
  aoBlock :: nat
  aoNext :: int
  aoStart :: int

definition descendStep ::
  "FileBlock \<Rightarrow> int \<Rightarrow> atOffset \<Rightarrow> failure + atOffset" where
  "descendStep fb off r =
     (let nextIndex = (case findNextIndex (IPtrs fb) off 0 of
                         None \<Rightarrow> int (length (IPtrs fb)) - 1
                       | Some i \<Rightarrow> i)
      in if nextIndex < 0 then Inl GoPanic
         else (let nextPtr = IPtrs fb ! nat nextIndex
               in Inr (r\<lparr>aoParent := Some (aoBlock r),
                         aoIndex := nextIndex,
                         aoStart := Off nextPtr,
                         aoNext := (if nextIndex \<noteq> int (length (IPtrs fb)) - 1
                                    then Off (IPtrs fb ! (nat nextIndex + 1))
                                    else aoNext r),
                         aoPtr := BlockPtr (Info nextPtr)\<rparr>)))"

fun descend ::
  "nat \<Rightarrow> fboConfig \<Rightarrow> int option \<Rightarrow> Path \<Rightarrow> blockReqType \<Rightarrow> int \<Rightarrow> atOffset \<Rightarrow> fbo \<Rightarrow>
     (failure + atOffset) \<times> fbo" where
  "descend 0 cfg ctx file rtype off r s =
     (case blocks s (aoBlock r) of
        Some (FileBlk fb) \<Rightarrow> (if IsInd fb then (Inl OutOfFuel, s) else (Inr r, s))
      | _ \<Rightarrow> (Inl GoPanic, s))"
| "descend (Suc k) cfg ctx file rtype off r s =
     (case blocks s (aoBlock r) of
        Some (FileBlk fb) \<Rightarrow>
          (if IsInd fb
           then (case descendStep fb off r of
                   Inl e \<Rightarrow> (Inl e, s)
                 | Inr r1 \<Rightarrow>
                     (case getFileBlockLocked cfg ctx (aoPtr r1) file rtype s of
                        (Inl e, s1) \<Rightarrow> (Inl e, s1)
                      | (Inr a, s1) \<Rightarrow> descend k cfg ctx file rtype off (r1\<lparr>aoBlock := a\<rparr>) s1))
           else (Inr r, s))
      | _ \<Rightarrow> (Inl GoPanic, s))"

definition getFileBlockAtOffsetLocked ::
  "nat \<Rightarrow> fboConfig \<Rightarrow> int option \<Rightarrow> Path \<Rightarrow> nat \<Rightarrow> int \<Rightarrow> blockReqType \<Rightarrow> fbo \<Rightarrow>
     (failure + atOffset) \<times> fbo" where
  "getFileBlockAtOffsetLocked fuel cfg ctx file topBlock off rtype s =
     (if path file = [] then (Inl GoPanic, s)
      else descend fuel cfg ctx file rtype off
             \<lparr>aoPtr = TailPointer file, aoParent = None, aoIndex = 0, aoBlock = topBlock,
              aoNext = - 1, aoStart = 0\<rparr> s)"

text \<open>
  \<open>Read\<close> (lines 974--1051).  The destination buffer is returned with the result.
  \<open>zeroFill\<close> is the loop of lines 1033--1035 and \<open>copyInto\<close> the \<open>copy\<close> of line 1045.
  Offsets are taken as mathematical integers.
\<close>

definition readTimeoutSmallerBy :: int where
  "readTimeoutSmallerBy = 2 * 1000000000"

definition zeroFill :: "byte list \<Rightarrow> int \<Rightarrow> int \<Rightarrow> byte list" where
  "zeroFill dest nRead fill =
     take (nat nRead) dest @ replicate (nat fill) 0 @ drop (nat nRead + nat fill) dest"

definition copyInto :: "byte list \<Rightarrow> int \<Rightarrow> byte list \<Rightarrow> byte list" where
  "copyInto dest nRead src =
     take (nat nRead) dest @ src @ drop (nat nRead + length src) dest"

text \<open>
  Lines 988--997: with a deadline more than \<open>readTimeoutSmallerBy\<close> away, the loop
  runs under a context whose deadline is earlier by that amount.
\<close>

definition readCtx :: "int option \<Rightarrow> int \<Rightarrow> int option" where
  "readCtx ctx now =
     (case ctx of
        None \<Rightarrow> None
      | Some deadline \<Rightarrow>
          (let rem = deadline - now - readTimeoutSmallerBy
           in if rem > 0 then Some (now + rem) else Some deadline))"

function readLoop ::
  "nat \<Rightarrow> fboConfig \<Rightarrow> int option \<Rightarrow> Path \<Rightarrow> nat \<Rightarrow> int \<Rightarrow> int \<Rightarrow> int \<Rightarrow> byte list \<Rightarrow> fbo \<Rightarrow>
     (int \<times> failure option) \<times> byte list \<times> fbo" where
  "readLoop fuel cfg ctx file topA off n nRead dest s =
     (if \<not> nRead < n then ((n, None), dest, s)
      else
        (case getFileBlockAtOffsetLocked fuel cfg ctx file topA (nRead + off) blockRead s of
           (Inl e, s1) \<Rightarrow>
             (if e = Failed DeadlineExceeded \<and> nRead > 0 then ((nRead, None), dest, s1)
              else ((0, Some e), dest, s1))
         | (Inr r, s1) \<Rightarrow>
             (case blocks s1 (aoBlock r) of
                Some (FileBlk b) \<Rightarrow>
                  (if nRead + off \<ge> aoStart r + int (length (Contents b))
                   then (if aoNext r > 0
                         then (if min (aoNext r - (nRead + off)) (n - nRead) \<le> 0
                               then ((nRead, Some (Failed BadSplitError)), dest, s1)
                               else readLoop fuel cfg ctx file topA off n
                                      (nRead + min (aoNext r - (nRead + off)) (n - nRead))
                                      (zeroFill dest nRead (min (aoNext r - (nRead + off)) (n - nRead)))
                                      s1)
                         else ((nRead, None), dest, s1))
                   else (if nRead + off - aoStart r < 0 then ((0, Some GoPanic), dest, s1)
                         else readLoop fuel cfg ctx file topA off n
                                (nRead + min (n - nRead) (aoStart r + int (length (Contents b)) - (nRead + off)))
                                (copyInto dest nRead
                                   (take (nat (min (n - nRead)
                                                  (aoStart r + int (length (Contents b)) - (nRead + off))))
                                      (drop (nat (nRead + off - aoStart r)) (Contents b))))
                                s1))
              | _ \<Rightarrow> ((0, Some GoPanic), dest, s1))))"
  by pat_completeness auto
termination
  by (relation "measure (\<lambda>(fuel, cfg, ctx, file, topA, off, n, nRead, dest, s). nat (n - nRead))")
     auto

declare readLoop.simps [simp del]

definition Read ::
  "nat \<Rightarrow> fboConfig \<Rightarrow> int option \<Rightarrow> int \<Rightarrow> Path \<Rightarrow> byte list \<Rightarrow> int \<Rightarrow> fbo \<Rightarrow>
     (int \<times> failure option) \<times> byte list \<times> fbo" where
  "Read fuel cfg ctx now file dest off s =
     (case getFileLocked cfg ctx file blockRead s of
        (Inl e, s1) \<Rightarrow> ((0, Some e), dest, s1)
      | (Inr topA, s1) \<Rightarrow>
          readLoop fuel cfg (readCtx ctx now) file topA off (int (length dest)) 0 dest s1)"

text \<open>
  A file of two leaves for the reads below: the top block and the first leaf (bytes 1 to
  4 at offset 0) are in the clean cache, the second leaf (offset 4) has to be fetched, and
  the server answers \<open>DeadlineExceeded\<close> under a deadline earlier than nine seconds.
\<close>

definition exIPtr :: "nat \<Rightarrow> int \<Rightarrow> IndirectFilePtr" where
  "exIPtr n off = \<lparr>Info = \<lparr>BlockPtr = exPtr n, EncodedSize = 0\<rparr>, Off = off, Holes = False\<rparr>"

definition C9_config :: fboConfig where
  "C9_config =
     exConfig\<lparr>BlockOps_Get :=
       (\<lambda>ctx p. case ctx of
                   None \<Rightarrow> Inr (FileBlk \<lparr>IsInd = False, Contents = [5, 6], IPtrs = []\<rparr>)
                 | Some d \<Rightarrow>
                     if d < 9000000000 then Inl (Failed DeadlineExceeded)
                     else Inr (FileBlk \<lparr>IsInd = False, Contents = [5, 6], IPtrs = []\<rparr>))\<rparr>"

definition C9_state :: fbo where
  "C9_state =
     emptyFbo\<lparr>blocks := (\<lambda>a. None)
                 (0 \<mapsto> FileBlk \<lparr>IsInd = True, Contents = [], IPtrs = [exIPtr 11 0, exIPtr 12 4]\<rparr>,
                  1 \<mapsto> FileBlk \<lparr>IsInd = False, Contents = [1, 2, 3, 4], IPtrs = []\<rparr>),
               nextBlock := 2,
               bcache := (\<lambda>p. None)(exPtr 2 \<mapsto> (0, False), exPtr 11 \<mapsto> (1, False))\<rparr>"

section \<open>Folder block operations: writing and truncating\<close>

text \<open>
  Modelled from the spec: the sync operation's \<open>addWrite\<close> and \<open>addTruncate\<close> (ops.go is
  outside the sources) record a write range and return it, a truncate being the range of
  length 0 at the new size.
\<close>

definition newSyncOp :: "BlockPointer \<Rightarrow> syncOp" where
  "newSyncOp p = \<lparr>opFile = p, opWrites = [], opUpdated = False\<rparr>"

definition addWrite :: "nat \<Rightarrow> nat \<Rightarrow> syncOp \<Rightarrow> WriteRange \<times> syncOp" where
  "addWrite off len x =
     (\<lparr>wrOff = off, wrLen = len\<rparr>, x\<lparr>opWrites := opWrites x @ [\<lparr>wrOff = off, wrLen = len\<rparr>]\<rparr>)"

definition addTruncate :: "nat \<Rightarrow> syncOp \<Rightarrow> WriteRange \<times> syncOp" where
  "addTruncate sz x =
     (\<lparr>wrOff = sz, wrLen = 0\<rparr>, x\<lparr>opWrites := opWrites x @ [\<lparr>wrOff = sz, wrLen = 0\<rparr>]\<rparr>)"

text \<open>A method call on the tracker of a file, through the pointer held in \<open>dirtyFiles\<close>.\<close>

definition onDirtyFile :: "Path \<Rightarrow> (dirtyFile \<Rightarrow> dirtyFile) \<Rightarrow> fbo \<Rightarrow> fbo" where
  "onDirtyFile file f s =
     (case dirtyFiles s (TailPointer file) of
        None \<Rightarrow> s
      | Some df \<Rightarrow> s\<lparr>dirtyFiles := (dirtyFiles s)(TailPointer file \<mapsto> f df)\<rparr>)"

text \<open>
  Modelled from the spec: the byte accounting of the tracker (dirty\_file.go is outside the
  sources).  The tracker is made with the dirty cache (line 719) and keeps the cache's
  counters in step with its own (section 4.2 of the spec, and the primer at lines
  72--118): \<open>updateNotYetSyncingBytes\<close> adds the delta to the tracker's bytes not yet
  syncing and to the unsynced bytes of the dirty cache, so that the newly dirtied bytes
  of a write count as unsynced and the bytes a replay takes back no longer do.
  \<open>addDeferredNewBytes\<close> records the bytes a deferred write added to the file; they
  reach the cache when a later sync assimilates them.
\<close>

definition updateNotYetSyncingBytes :: "Path \<Rightarrow> int \<Rightarrow> fbo \<Rightarrow> fbo" where
  "updateNotYetSyncingBytes file d s =
     (case dirtyFiles s (TailPointer file) of
        None \<Rightarrow> s
      | Some df \<Rightarrow>
          UpdateUnsyncedBytes d False
            (s\<lparr>dirtyFiles := (dirtyFiles s)
                 (TailPointer file \<mapsto> df\<lparr>notYetSyncingBytes := notYetSyncingBytes df + d\<rparr>)\<rparr>))"

definition addDeferredNewBytes :: "int \<Rightarrow> dirtyFile \<Rightarrow> dirtyFile" where
  "addDeferredNewBytes d df = df\<lparr>deferredNewBytes := deferredNewBytes df + d\<rparr>"

text \<open>The bytes not yet syncing that the tracker at a pointer holds, 0 without a tracker.\<close>

definition notYetSyncing :: "BlockPointer \<Rightarrow> fbo \<Rightarrow> int" where
  "notYetSyncing p s = (case dirtyFiles s p of None \<Rightarrow> 0 | Some df \<Rightarrow> notYetSyncingBytes df)"

text \<open>
  The unsynced bytes of the cache beyond those the tracker at a pointer accounts for.
\<close>

definition unsyncedBalance :: "BlockPointer \<Rightarrow> fbo \<Rightarrow> int" where
  "unsyncedBalance p s = unsyncedBytes s - notYetSyncing p s"

text \<open>\<open>pathFromNodeForBlockWriteLocked\<close> (lines 1102--1110).\<close>

definition pathFromNodeForBlockWriteLocked :: "fboConfig \<Rightarrow> nat \<Rightarrow> failure + Path" where
  "pathFromNodeForBlockWriteLocked cfg node =
     (if \<not> pathIsValid (PathFromNode cfg node) then Inl (Failed InvalidPathError)
      else Inr (PathFromNode cfg node))"

text \<open>\<open>writeGetFileLocked\<close> (lines 1114--1130): the top block for writing, and the user.\<close>

definition writeGetFileLocked ::
  "fboConfig \<Rightarrow> int option \<Rightarrow> mdView \<Rightarrow> Path \<Rightarrow> fbo \<Rightarrow> (failure + nat \<times> nat) \<times> fbo" where
  "writeGetFileLocked cfg ctx md file s =
     (case KBPKI_GetCurrentUserInfo cfg of
        Inl e \<Rightarrow> (Inl e, s)
      | Inr uid \<Rightarrow>
          if uid \<notin> set (TlfWriters md) then (Inl (Failed WriteAccessError), s)
          else (case getFileLocked cfg ctx file blockWrite s of
                  (Inl e, s1) \<Rightarrow> (Inl e, s1)
                | (Inr a, s1) \<Rightarrow> (Inr (a, uid), s1)))"

text \<open>
  \<open>createIndirectBlockLocked\<close> (lines 1135--1176): a new indirect block with one child
  pointer under a new temporary identifier, cached under the file's tail pointer.
\<close>

definition createIndirectBlockLocked ::
  "fboConfig \<Rightarrow> mdView \<Rightarrow> Path \<Rightarrow> nat \<Rightarrow> int \<Rightarrow> fbo \<Rightarrow> (failure + nat) \<times> fbo" where
  "createIndirectBlockLocked cfg md file uid dver s =
     (case Crypto_MakeTemporaryBlockID cfg (tempIDsMade s) of
        Inl e \<Rightarrow> (Inl e, s)
      | Inr newID \<Rightarrow>
          (let a = nextBlock s;
               fb = \<lparr>IsInd = True, Contents = [],
                     IPtrs = [\<lparr>Info = \<lparr>BlockPtr = \<lparr>ID = newID, KeyGen = LatestKeyGeneration md,
                                                      DataVer = dver, Creator = uid, RefNonce = 0\<rparr>,
                                          EncodedSize = 0\<rparr>,
                               Off = 0, Holes = False\<rparr>]\<rparr>;
               s1 = s\<lparr>tempIDsMade := Suc (tempIDsMade s),
                      blocks := (blocks s)(a \<mapsto> FileBlk fb), nextBlock := Suc a\<rparr>;
               s2 = snd (getOrCreateDirtyFileLocked file s1);
               s3 = onDirtyFile file (setBlockNotDirty (TailPointer file)) s2
           in (Inr a, cacheBlockIfNotYetDirtyLocked (TailPointer file) file a s3)))"

text \<open>
  \<open>newRightBlockLocked\<close> (lines 748--790): a new empty block under a new temporary
  identifier, appended to the parent's pointer list at the given offset.
\<close>

definition newRightBlockLocked ::
  "fboConfig \<Rightarrow> mdView \<Rightarrow> BlockPointer \<Rightarrow> Path \<Rightarrow> nat \<Rightarrow> int \<Rightarrow> fbo \<Rightarrow> failure option \<times> fbo" where
  "newRightBlockLocked cfg md p file pblock off s =
     (case Crypto_MakeTemporaryBlockID cfg (tempIDsMade s) of
        Inl e \<Rightarrow> (Some e, s)
      | Inr newRID \<Rightarrow>
          (let s1 = s\<lparr>tempIDsMade := Suc (tempIDsMade s)\<rparr>
           in case KBPKI_GetCurrentUserInfo cfg of
                Inl e \<Rightarrow> (Some e, s1)
              | Inr uid \<Rightarrow>
                  (case blocks s1 pblock of
                     Some (FileBlk pb) \<Rightarrow>
                       (let rblock = nextBlock s1;
                            newPtr = \<lparr>ID = newRID, KeyGen = LatestKeyGeneration md,
                                      DataVer = DefaultNewBlockDataVersion cfg False,
                                      Creator = uid, RefNonce = 0\<rparr>;
                            s2 = s1\<lparr>blocks := (blocks s1)
                                       (rblock \<mapsto> FileBlk \<lparr>IsInd = False, Contents = [], IPtrs = []\<rparr>,
                                        pblock \<mapsto> FileBlk (pb\<lparr>IPtrs := IPtrs pb @
                                           [\<lparr>Info = \<lparr>BlockPtr = newPtr, EncodedSize = 0\<rparr>,
                                             Off = off, Holes = False\<rparr>]\<rparr>)),
                                    nextBlock := Suc rblock\<rparr>
                        in (None, cacheBlockIfNotYetDirtyLocked p file pblock
                                    (cacheBlockIfNotYetDirtyLocked newPtr file rblock s2)))
                   | _ \<Rightarrow> (Some GoPanic, s1))))"

text \<open>
  The directory side (lines 307--325, 472--500, 573--608 and 654--702): the parent's
  block, its entries overlaid with the dirty entries of \<open>deCache\<close>, and the entry of the
  file.  The overlay is a copy, so it is a value here.
\<close>

definition getDirBlockHelperLocked ::
  "fboConfig \<Rightarrow> int option \<Rightarrow> BlockPointer \<Rightarrow> nat \<Rightarrow> fbo \<Rightarrow> (failure + nat) \<times> fbo" where
  "getDirBlockHelperLocked cfg ctx p br s =
     (case getBlockHelperLocked cfg ctx p br True s of
        (Inl e, s1) \<Rightarrow> (Inl e, s1)
      | (Inr a, s1) \<Rightarrow>
          (case blocks s1 a of
             Some (DirBlk db) \<Rightarrow> (Inr a, s1)
           | Some other \<Rightarrow> (Inl (Failed NotDirBlockError), s1)
           | None \<Rightarrow> (Inl GoPanic, s1)))"

definition getDirLocked ::
  "fboConfig \<Rightarrow> int option \<Rightarrow> Path \<Rightarrow> blockReqType \<Rightarrow> fbo \<Rightarrow> (failure + nat) \<times> fbo" where
  "getDirLocked cfg ctx dir rtype s =
     (if \<not> pathIsValid dir then (Inl (Failed InvalidPathError), s)
      else case getDirBlockHelperLocked cfg ctx (TailPointer dir) (Branch dir) s of
             (Inl e, s1) \<Rightarrow> (Inl e, s1)
           | (Inr a, s1) \<Rightarrow>
               (if rtype = blockWrite \<and> \<not> DirtyBcache_IsDirty (TailPointer dir) (Branch dir) s1
                then (case deepCopyBlock a s1 of (a', s2) \<Rightarrow> (Inr a', s2))
                else (Inr a, s1)))"

definition updateWithDirtyEntriesLocked :: "DirBlock \<Rightarrow> fbo \<Rightarrow> DirBlock" where
  "updateWithDirtyEntriesLocked db s =
     db\<lparr>Children := (\<lambda>k. case Children db k of
                             None \<Rightarrow> None
                           | Some v \<Rightarrow>
                               (case deCache s (ref (BlockPtr (EntryInfo v))) of
                                  None \<Rightarrow> Some v
                                | Some d \<Rightarrow> Some d))\<rparr>"

definition getDirtyEntryLocked ::
  "fboConfig \<Rightarrow> int option \<Rightarrow> Path \<Rightarrow> fbo \<Rightarrow> (failure + DirEntry) \<times> fbo" where
  "getDirtyEntryLocked cfg ctx file s =
     (if \<not> HasValidParent file then (Inl (Failed InvalidParentPathError), s)
      else case getDirLocked cfg ctx (ParentPath file) blockRead s of
             (Inl e, s1) \<Rightarrow> (Inl e, s1)
           | (Inr a, s1) \<Rightarrow>
               (case blocks s1 a of
                  Some (DirBlk db) \<Rightarrow>
                    (case Children (updateWithDirtyEntriesLocked db s1) (TailName file) of
                       None \<Rightarrow> (Inl (Failed NoSuchNameError), s1)
                     | Some d \<Rightarrow> (Inr d, s1))
                | _ \<Rightarrow> (Inl GoPanic, s1)))"

text \<open>\<open>getOrCreateSyncInfoLocked\<close> (lines 792--805): the address of the sync info.\<close>

definition getOrCreateSyncInfoLocked :: "DirEntry \<Rightarrow> fbo \<Rightarrow> nat \<times> fbo" where
  "getOrCreateSyncInfoLocked d s =
     (case unrefCache s (ref (BlockPtr (EntryInfo d))) of
        Some a \<Rightarrow> (a, s)
      | None \<Rightarrow>
          (nextInfo s,
           s\<lparr>syncInfos := (syncInfos s)(nextInfo s \<mapsto>
                  \<lparr>oldInfo = EntryInfo d, op = newSyncOp (BlockPtr (EntryInfo d)), unrefs = [],
                   bps = None, refBytes = 0, unrefBytes = 0\<rparr>),
              nextInfo := Suc (nextInfo s),
              unrefCache := (unrefCache s)(ref (BlockPtr (EntryInfo d)) \<mapsto> nextInfo s)\<rparr>))"

text \<open>The non-blocking send on \<open>forceSyncChan\<close> when the cache asks for a sync.\<close>

definition maybeForceSync :: "fboConfig \<Rightarrow> fbo \<Rightarrow> fbo" where
  "maybeForceSync cfg s =
     (if ShouldForceSync cfg (unsyncedBytes s) (waitingBytes s) then s\<lparr>forceSyncSent := True\<rparr>
      else s)"

text \<open>
  \<open>truncateExtendLocked\<close> (lines 1405--1494).  \<open>extendMakeIndirect\<close> is its first part
  (lines 1420--1436): a direct top block becomes the first child of a new indirect top
  block; the result is the top block to work on and the pointers dirtied so far.
\<close>

definition extendMakeIndirect ::
  "fboConfig \<Rightarrow> mdView \<Rightarrow> Path \<Rightarrow> nat \<Rightarrow> nat \<Rightarrow> fbo \<Rightarrow>
     (failure + nat \<times> BlockPointer list) \<times> fbo" where
  "extendMakeIndirect cfg md file uid old s =
     (case blocks s old of
        Some (FileBlk fb) \<Rightarrow>
          (if IsInd fb then (Inr (old, []), s)
           else (case createIndirectBlockLocked cfg md file uid (DefaultNewBlockDataVersion cfg True) s of
                   (Inl e, s1) \<Rightarrow> (Inl e, s1)
                 | (Inr a, s1) \<Rightarrow>
                     (case blocks s1 a of
                        Some (FileBlk nb) \<Rightarrow>
                          (case IPtrs nb of
                             [] \<Rightarrow> (Inl GoPanic, s1)
                           | ip # rest \<Rightarrow>
                               (let s2 = s1\<lparr>blocks := (blocks s1)
                                            (a \<mapsto> FileBlk (nb\<lparr>IPtrs := ip\<lparr>Holes := True\<rparr> # rest\<rparr>))\<rparr>
                                in (Inr (a, [BlockPtr (Info ip)]),
                                    cacheBlockIfNotYetDirtyLocked (BlockPtr (Info ip)) file old s2)))
                      | _ \<Rightarrow> (Inl GoPanic, s1))))
      | _ \<Rightarrow> (Inl GoPanic, s))"

definition truncateExtendLocked ::
  "fboConfig \<Rightarrow> int option \<Rightarrow> mdView \<Rightarrow> Path \<Rightarrow> nat \<Rightarrow> fbo \<Rightarrow>
     (failure + WriteRange \<times> BlockPointer list) \<times> fbo" where
  "truncateExtendLocked cfg ctx md file sz s =
     (if sz > MaxFileBytes cfg then (Inl (Failed FileTooBigError), s)
      else case writeGetFileLocked cfg ctx md file s of
        (Inl e, s1) \<Rightarrow> (Inl e, s1)
      | (Inr (old, uid), s1) \<Rightarrow>
          (case extendMakeIndirect cfg md file uid old s1 of
             (Inl e, s2) \<Rightarrow> (Inl e, s2)
           | (Inr (topA, dirty0), s2) \<Rightarrow>
               (case newRightBlockLocked cfg md (TailPointer file) file topA (int64 (int sz)) s2 of
                  (Some e, s3) \<Rightarrow> (Inl e, s3)
                | (None, s3) \<Rightarrow>
                    (case blocks s3 topA of
                       Some (FileBlk fb) \<Rightarrow>
                         (if IPtrs fb = [] then (Inl GoPanic, s3)
                          else
                            (case getDirtyEntryLocked cfg ctx file s3 of
                               (Inl e, s4) \<Rightarrow> (Inl e, s4)
                             | (Inr d, s4) \<Rightarrow>
                                 (case getOrCreateSyncInfoLocked d s4 of
                                    (siA, s5) \<Rightarrow>
                                      (case (blocks s5 topA, syncInfos s5 siA) of
                                         (Some (FileBlk fb5), Some i) \<Rightarrow>
                                           (let d' = d\<lparr>EntryInfo := (EntryInfo d)\<lparr>EncodedSize := 0\<rparr>,
                                                      Size := sz\<rparr>;
                                                s6 = s5\<lparr>deCache := (deCache s5)(ref (TailPointer file) \<mapsto> d'),
                                                       blocks := (blocks s5)(topA \<mapsto> FileBlk
                                                         (fb5\<lparr>IPtrs := map (\<lambda>ip. ip\<lparr>Holes := True\<rparr>) (IPtrs fb5)\<rparr>))\<rparr>;
                                                s7 = cacheBlockIfNotYetDirtyLocked (TailPointer file) file topA s6;
                                                s8 = s7\<lparr>syncInfos := (syncInfos s7)
                                                       (siA \<mapsto> i\<lparr>op := snd (addTruncate sz (op i))\<rparr>)\<rparr>
                                            in (Inr (fst (addTruncate sz (op i)),
                                                     dirty0 @ [BlockPtr (Info (last (IPtrs fb)))] @ [TailPointer file]),
                                                maybeForceSync cfg s8))
                                       | _ \<Rightarrow> (Inl GoPanic, s5)))))
                     | _ \<Rightarrow> (Inl GoPanic, s3)))))"

text \<open>
  \<open>writeDataLocked\<close> (lines 1180--1328).  The local variables that change in the loop
  are a record: the bytes copied, the top block, the directory entry, the dirtied
  pointers and the newly dirtied bytes.
\<close>

record writeState =
  wsCopied :: int
  wsTop :: nat
  wsDe :: DirEntry
  wsDirty :: "BlockPointer list"
  wsBytes :: int

text \<open>
  Lines 1248--1277: the blocks a write needs beyond the one it has just filled.  The
  result is the top block and the pointer under which the filled block is kept.
\<close>

definition writeNewBlocks ::
  "fboConfig \<Rightarrow> mdView \<Rightarrow> Path \<Rightarrow> nat \<Rightarrow> int \<Rightarrow> int \<Rightarrow> atOffset \<Rightarrow> nat \<Rightarrow> int \<Rightarrow> int \<Rightarrow> fbo \<Rightarrow>
     (failure + nat \<times> BlockPointer) \<times> fbo" where
  "writeNewBlocks cfg md file uid n off r topA copied newLen s =
     (if copied < n \<and> aoNext r < 0
      then (case (if aoPtr r = TailPointer file
                  then (case createIndirectBlockLocked cfg md file uid
                               (DefaultNewBlockDataVersion cfg False) s of
                          (Inl e, s1) \<Rightarrow> (Inl e, s1)
                        | (Inr a, s1) \<Rightarrow>
                            (case blocks s1 a of
                               Some (FileBlk nb) \<Rightarrow>
                                 (case IPtrs nb of
                                    [] \<Rightarrow> (Inl GoPanic, s1)
                                  | ip # rest \<Rightarrow> (Inr (a, BlockPtr (Info ip)), s1))
                             | _ \<Rightarrow> (Inl GoPanic, s1)))
                  else (Inr (topA, aoPtr r), s)) of
              (Inl e, s1) \<Rightarrow> (Inl e, s1)
            | (Inr (topB, p), s1) \<Rightarrow>
                (case newRightBlockLocked cfg md (TailPointer file) file topB (aoStart r + newLen) s1 of
                   (Some e, s2) \<Rightarrow> (Inl e, s2)
                 | (None, s2) \<Rightarrow> (Inr (topB, p), s2)))
      else if copied < n \<and> off + copied < aoNext r
      then (case newRightBlockLocked cfg md (TailPointer file) file topA (aoStart r + newLen) s of
              (Some e, s1) \<Rightarrow> (Inl e, s1)
            | (None, s1) \<Rightarrow>
                (case blocks s1 topA of
                   Some (FileBlk fb) \<Rightarrow>
                     (if IPtrs fb = [] \<or> aoIndex r + 1 < 0 \<or> int (length (IPtrs fb)) < aoIndex r + 2
                      then (Inl GoPanic, s1)
                      else (Inr (topA, aoPtr r),
                            s1\<lparr>blocks := (blocks s1)(topA \<mapsto> FileBlk (fb\<lparr>IPtrs :=
                                  take (nat (aoIndex r + 1)) (IPtrs fb) @ [last (IPtrs fb)] @
                                  take (length (IPtrs fb) - nat (aoIndex r + 2))
                                    (drop (nat (aoIndex r + 1)) (IPtrs fb))\<rparr>))\<rparr>))
                 | _ \<Rightarrow> (Inl GoPanic, s1)))
      else (Inr (topA, aoPtr r), s))"

text \<open>
  One turn of the loop (lines 1221--1305).  \<open>data[nCopied:max]\<close> panics when \<open>max\<close>
  is below \<open>nCopied\<close>.  The splitter fills the block and says how many bytes it took.
\<close>

definition writeStep ::
  "nat \<Rightarrow> fboConfig \<Rightarrow> int option \<Rightarrow> mdView \<Rightarrow> Path \<Rightarrow> nat \<Rightarrow> nat \<Rightarrow> byte list \<Rightarrow> int \<Rightarrow>
     writeState \<Rightarrow> fbo \<Rightarrow> (failure + writeState) \<times> fbo" where
  "writeStep fuel cfg ctx md file uid siA data off w s =
     (case getFileBlockAtOffsetLocked fuel cfg ctx file (wsTop w) (off + wsCopied w) blockWrite s of
        (Inl e, s1) \<Rightarrow> (Inl e, s1)
      | (Inr r, s1) \<Rightarrow>
          (case blocks s1 (aoBlock r) of
             Some (FileBlk b) \<Rightarrow>
               (let wasDirty = DirtyBcache_IsDirty (aoPtr r) (Branch file) s1;
                    mx = (if aoNext r > 0 \<and> aoNext r - off < int (length data)
                          then aoNext r - off else int (length data))
                in if mx < wsCopied w then (Inl GoPanic, s1)
                   else
                     (case CopyUntilSplit cfg b (aoNext r < 0)
                             (take (nat mx - nat (wsCopied w)) (drop (nat (wsCopied w)) data))
                             (off + wsCopied w - aoStart r) of
                        (b', k) \<Rightarrow>
                          (let copied = wsCopied w + k;
                               s2 = s1\<lparr>blocks := (blocks s1)(aoBlock r \<mapsto> FileBlk b')\<rparr>
                           in case writeNewBlocks cfg md file uid (int (length data)) off r (wsTop w)
                                     copied (int (length (Contents b'))) s2 of
                                (Inl e, s3) \<Rightarrow> (Inl e, s3)
                              | (Inr (topB, p), s3) \<Rightarrow>
                                  (let d = (if length (Contents b) \<noteq> length (Contents b') \<and> aoNext r < 0
                                            then (wsDe w)\<lparr>EntryInfo := (EntryInfo (wsDe w))\<lparr>EncodedSize := 0\<rparr>,
                                                   Size := nat ((int (Size (wsDe w)) + int (length (Contents b'))
                                                                  - int (length (Contents b))) mod 2 ^ 64)\<rparr>
                                            else wsDe w);
                                       s4 = (if length (Contents b) \<noteq> length (Contents b') \<and> aoNext r < 0
                                             then s3\<lparr>deCache := (deCache s3)(ref (TailPointer file) \<mapsto> d)\<rparr>
                                             else s3);
                                       newBytes = wsBytes w + int (length (Contents b'))
                                                  - (if wasDirty then int (length (Contents b)) else 0)
                                   in case (case aoParent r of
                                              None \<Rightarrow> (None, s4)
                                            | Some pa \<Rightarrow>
                                                (case (blocks s4 pa, syncInfos s4 siA) of
                                                   (Some (FileBlk pb), Some i) \<Rightarrow>
                                                     (if aoIndex r < 0 \<or> int (length (IPtrs pb)) \<le> aoIndex r
                                                      then (Some GoPanic, s4)
                                                      else (None,
                                                        s4\<lparr>syncInfos := (syncInfos s4)(siA \<mapsto>
                                                               i\<lparr>unrefs := unrefs i @ [Info (IPtrs pb ! nat (aoIndex r))]\<rparr>),
                                                           blocks := (blocks s4)(pa \<mapsto> FileBlk (pb\<lparr>IPtrs :=
                                                               (IPtrs pb)[nat (aoIndex r) :=
                                                                 (IPtrs pb ! nat (aoIndex r))\<lparr>Info :=
                                                                   (Info (IPtrs pb ! nat (aoIndex r)))\<lparr>EncodedSize := 0\<rparr>\<rparr>]\<rparr>))\<rparr>))
                                                 | _ \<Rightarrow> (Some GoPanic, s4))) of
                                        (Some e, s5) \<Rightarrow> (Inl e, s5)
                                      | (None, s5) \<Rightarrow>
                                          (Inr \<lparr>wsCopied = copied, wsTop = topB, wsDe = d,
                                                wsDirty = wsDirty w @ [p], wsBytes = newBytes\<rparr>,
                                           cacheBlockIfNotYetDirtyLocked p file (aoBlock r) s5)))))
           | _ \<Rightarrow> (Inl GoPanic, s1)))"

text \<open>
  The loop runs while bytes remain.  Its end depends on the splitter taking bytes, so it
  runs on fuel.  The state given back with an error is the one of the turn's begin, which
  holds the newly dirtied bytes the source returns there.
\<close>

fun writeLoop ::
  "nat \<Rightarrow> nat \<Rightarrow> fboConfig \<Rightarrow> int option \<Rightarrow> mdView \<Rightarrow> Path \<Rightarrow> nat \<Rightarrow> nat \<Rightarrow> byte list \<Rightarrow> int \<Rightarrow>
     writeState \<Rightarrow> fbo \<Rightarrow> (failure option \<times> writeState) \<times> fbo" where
  "writeLoop 0 fuel cfg ctx md file uid siA data off w s =
     (if wsCopied w < int (length data) then ((Some OutOfFuel, w), s) else ((None, w), s))"
| "writeLoop (Suc k) fuel cfg ctx md file uid siA data off w s =
     (if wsCopied w < int (length data)
      then (case writeStep fuel cfg ctx md file uid siA data off w s of
              (Inl e, s1) \<Rightarrow> ((Some e, w), s1)
            | (Inr w1, s1) \<Rightarrow> writeLoop k fuel cfg ctx md file uid siA data off w1 s1)
      else ((None, w), s))"

text \<open>
  Lines 1308--1327, after the loop: the top block of an indirect file is always made
  dirty, and the write is recorded in the sync operation.
\<close>

definition writeFinish ::
  "Path \<Rightarrow> nat \<Rightarrow> nat \<Rightarrow> byte list \<Rightarrow> int \<Rightarrow> writeState \<Rightarrow> fbo \<Rightarrow>
     (failure + WriteRange \<times> BlockPointer list \<times> int) \<times> fbo" where
  "writeFinish file siA oldSize data off w s =
     (case (blocks s (wsTop w), syncInfos s siA) of
        (Some (FileBlk fb), Some i0) \<Rightarrow>
          (let s1 = (if IsInd fb
                     then (let t = cacheBlockIfNotYetDirtyLocked (TailPointer file) file (wsTop w) s
                           in if doDeferWrite t \<and> Size (wsDe w) > oldSize
                              then onDirtyFile file
                                     (addDeferredNewBytes (int (Size (wsDe w) - oldSize))) t
                              else t)
                     else s);
               dirty = (if IsInd fb then wsDirty w @ [TailPointer file] else wsDirty w)
           in case syncInfos s1 siA of
                Some i \<Rightarrow>
                  (Inr (fst (addWrite (nat (off mod 2 ^ 64)) (length data) (op i)), dirty, wsBytes w),
                   s1\<lparr>syncInfos := (syncInfos s1)(siA \<mapsto>
                         i\<lparr>op := snd (addWrite (nat (off mod 2 ^ 64)) (length data) (op i))\<rparr>)\<rparr>)
              | None \<Rightarrow> (Inl GoPanic, s1))
      | _ \<Rightarrow> (Inl GoPanic, s))"

text \<open>
  The deferred function of lines 1197--1211 runs on every return after it is set up,
  with the newly dirtied bytes being returned.
\<close>

definition writeDeferred :: "fboConfig \<Rightarrow> Path \<Rightarrow> int \<Rightarrow> fbo \<Rightarrow> fbo" where
  "writeDeferred cfg file bytes s =
     maybeForceSync cfg (updateNotYetSyncingBytes file bytes s)"

definition writeDataLocked ::
  "nat \<Rightarrow> fboConfig \<Rightarrow> int option \<Rightarrow> mdView \<Rightarrow> Path \<Rightarrow> byte list \<Rightarrow> int \<Rightarrow> fbo \<Rightarrow>
     (failure + WriteRange \<times> BlockPointer list \<times> int) \<times> fbo" where
  "writeDataLocked fuel cfg ctx md file data off s =
     (if nat ((off + int (length data)) mod 2 ^ 64) > MaxFileBytes cfg
      then (Inl (Failed FileTooBigError), s)
      else case writeGetFileLocked cfg ctx md file s of
        (Inl e, s1) \<Rightarrow> (Inl e, s1)
      | (Inr (topA, uid), s1) \<Rightarrow>
          (let s2 = snd (getOrCreateDirtyFileLocked file s1)
           in case getDirtyEntryLocked cfg ctx file s2 of
                (Inl e, s3) \<Rightarrow> (Inl e, writeDeferred cfg file 0 s3)
              | (Inr d, s3) \<Rightarrow>
                  (case getOrCreateSyncInfoLocked d s3 of
                     (siA, s4) \<Rightarrow>
                       (case writeLoop fuel fuel cfg ctx md file uid siA data off
                               \<lparr>wsCopied = 0, wsTop = topA, wsDe = d, wsDirty = [], wsBytes = 0\<rparr> s4 of
                          ((Some e, w), s5) \<Rightarrow> (Inl e, writeDeferred cfg file (wsBytes w) s5)
                        | ((None, w), s5) \<Rightarrow>
                            (case writeFinish file siA (Size d) data off w s5 of
                               (Inl e, s6) \<Rightarrow> (Inl e, writeDeferred cfg file (wsBytes w) s6)
                             | (Inr res, s6) \<Rightarrow> (Inr res, writeDeferred cfg file (wsBytes w) s6))))))"

text \<open>
  \<open>truncateLocked\<close> (lines 1502--1606).  The error of the lookup at line 1511 is not
  tested; the block it leaves is nil, so the next line panics.  \<open>truncateShrink\<close> is
  its last part (lines 1537--1605), which deletes data.
\<close>

definition truncateExtendCutoffPoint :: int where
  "truncateExtendCutoffPoint = 128 * 1024"

definition truncateShrink ::
  "fboConfig \<Rightarrow> int option \<Rightarrow> Path \<Rightarrow> nat \<Rightarrow> nat \<Rightarrow> atOffset \<Rightarrow> fbo \<Rightarrow>
     (failure + WriteRange option \<times> BlockPointer list \<times> int) \<times> fbo" where
  "truncateShrink cfg ctx file sz topA r s =
     (case getDirtyEntryLocked cfg ctx file s of
        (Inl e, s1) \<Rightarrow> (Inl e, s1)
      | (Inr d, s1) \<Rightarrow>
          (case blocks s1 (aoBlock r) of
             Some (FileBlk b) \<Rightarrow>
               (if int64 (int sz) - aoStart r < 0 \<or> int (length (Contents b)) < int64 (int sz) - aoStart r
                then (Inl GoPanic, s1)
                else
                  (let wasDirty = DirtyBcache_IsDirty (aoPtr r) (Branch file) s1;
                       b' = b\<lparr>Contents := take (nat (int64 (int sz) - aoStart r)) (Contents b)\<rparr>;
                       newBytes = int (length (Contents b'))
                                  - (if wasDirty then int (length (Contents b)) else 0);
                       s2 = s1\<lparr>blocks := (blocks s1)(aoBlock r \<mapsto> FileBlk b')\<rparr>;
                       s3 = updateNotYetSyncingBytes file newBytes
                              (snd (getOrCreateDirtyFileLocked file s2))
                   in case getOrCreateSyncInfoLocked d s3 of
                        (siA, s4) \<Rightarrow>
                          (case (if aoNext r > 0
                                 then (case aoParent r of
                                         None \<Rightarrow> (Some GoPanic, s4)
                                       | Some pa \<Rightarrow>
                                           (case (blocks s4 pa, syncInfos s4 siA) of
                                              (Some (FileBlk pb), Some i) \<Rightarrow>
                                                (if aoIndex r + 1 < 0 \<or> int (length (IPtrs pb)) < aoIndex r + 1
                                                 then (Some GoPanic, s4)
                                                 else (None,
                                                   cacheBlockIfNotYetDirtyLocked (TailPointer file) file pa
                                                     (s4\<lparr>syncInfos := (syncInfos s4)(siA \<mapsto>
                                                            i\<lparr>unrefs := unrefs i @
                                                               map Info (drop (nat (aoIndex r + 1)) (IPtrs pb))\<rparr>),
                                                         blocks := (blocks s4)(pa \<mapsto> FileBlk
                                                            (pb\<lparr>IPtrs := take (nat (aoIndex r + 1)) (IPtrs pb)\<rparr>))\<rparr>)))
                                            | _ \<Rightarrow> (Some GoPanic, s4)))
                                 else (None, s4)) of
                             (Some e, s5) \<Rightarrow> (Inl e, s5)
                           | (None, s5) \<Rightarrow>
                               (case blocks s5 topA of
                                  Some (FileBlk fb) \<Rightarrow>
                                    (let s6 = (if IsInd fb
                                               then cacheBlockIfNotYetDirtyLocked (TailPointer file) file topA s5
                                               else s5)
                                     in case (case aoParent r of
                                                None \<Rightarrow> (None, s6)
                                              | Some pa \<Rightarrow>
                                                  (case (blocks s6 pa, syncInfos s6 siA) of
                                                     (Some (FileBlk pb), Some i) \<Rightarrow>
                                                       (if aoIndex r < 0 \<or> int (length (IPtrs pb)) \<le> aoIndex r
                                                        then (Some GoPanic, s6)
                                                        else (None,
                                                          s6\<lparr>syncInfos := (syncInfos s6)(siA \<mapsto>
                                                                 i\<lparr>unrefs := unrefs i @ [Info (IPtrs pb ! nat (aoIndex r))]\<rparr>),
                                                             blocks := (blocks s6)(pa \<mapsto> FileBlk (pb\<lparr>IPtrs :=
                                                                 (IPtrs pb)[nat (aoIndex r) :=
                                                                   (IPtrs pb ! nat (aoIndex r))\<lparr>Info :=
                                                                     (Info (IPtrs pb ! nat (aoIndex r)))\<lparr>EncodedSize := 0\<rparr>\<rparr>]\<rparr>))\<rparr>))
                                                   | _ \<Rightarrow> (Some GoPanic, s6))) of
                                          (Some e, s7) \<Rightarrow> (Inl e, s7)
                                        | (None, s7) \<Rightarrow>
                                            (case syncInfos s7 siA of
                                               None \<Rightarrow> (Inl GoPanic, s7)
                                             | Some i \<Rightarrow>
                                                 (let s8 = s7\<lparr>syncInfos := (syncInfos s7)(siA \<mapsto>
                                                                 i\<lparr>op := snd (addTruncate sz (op i))\<rparr>),
                                                              deCache := (deCache s7)(ref (TailPointer file) \<mapsto>
                                                                 d\<lparr>EntryInfo := (EntryInfo d)\<lparr>EncodedSize := 0\<rparr>,
                                                                   Size := sz\<rparr>)\<rparr>
                                                  in (Inr (Some (fst (addTruncate sz (op i))), [], newBytes),
                                                      cacheBlockIfNotYetDirtyLocked (aoPtr r) file (aoBlock r) s8))))
                                | _ \<Rightarrow> (Inl GoPanic, s5)))))
           | _ \<Rightarrow> (Inl GoPanic, s1)))"

definition truncateLocked ::
  "nat \<Rightarrow> fboConfig \<Rightarrow> int option \<Rightarrow> mdView \<Rightarrow> Path \<Rightarrow> nat \<Rightarrow> fbo \<Rightarrow>
     (failure + WriteRange option \<times> BlockPointer list \<times> int) \<times> fbo" where
  "truncateLocked fuel cfg ctx md file sz s =
     (case writeGetFileLocked cfg ctx md file s of
        (Inl e, s1) \<Rightarrow> (Inl e, s1)
      | (Inr (topA, uid), s1) \<Rightarrow>
          (case getFileBlockAtOffsetLocked fuel cfg ctx file topA (int64 (int sz)) blockWrite s1 of
             (Inl e, s2) \<Rightarrow> (Inl (case e of Failed x \<Rightarrow> GoPanic | other \<Rightarrow> other), s2)
           | (Inr r, s2) \<Rightarrow>
               (case blocks s2 (aoBlock r) of
                  Some (FileBlk b) \<Rightarrow>
                    (if aoStart r + int (length (Contents b)) + truncateExtendCutoffPoint < int64 (int sz)
                     then (case truncateExtendLocked cfg ctx md file (nat (int64 (int sz) mod 2 ^ 64)) s2 of
                             (Inl e, s3) \<Rightarrow> (Inl e, s3)
                           | (Inr (lw, dirty), s3) \<Rightarrow> (Inr (Some lw, dirty, 0), s3))
                     else if aoStart r + int (length (Contents b)) < int64 (int sz)
                     then (case writeDataLocked fuel cfg ctx md file
                                  (replicate (nat (int64 (int sz) - (aoStart r + int (length (Contents b))))) 0)
                                  (aoStart r + int (length (Contents b))) s2 of
                             (Inl e, s3) \<Rightarrow> (Inl e, s3)
                           | (Inr (lw, dirty, bytes), s3) \<Rightarrow> (Inr (Some lw, dirty, bytes), s3))
                     else if aoStart r + int (length (Contents b)) = int64 (int sz) \<and> aoNext r < 0
                     then (Inr (None, [], 0), s2)
                     else truncateShrink cfg ctx file sz topA r s2)
                | _ \<Rightarrow> (Inl GoPanic, s2))))"

text \<open>
  \<open>maybeWaitOnDeferredWrites\<close> (lines 1053--1100).  The first part registers an error
  listener with the file's tracker.  What the wait then yields, nil when the permit comes
  and no error is queued, or the error sent to the listener, is the argument \<open>waited\<close>.
\<close>

definition maybeWaitOnDeferredWrites ::
  "fboConfig \<Rightarrow> nat \<Rightarrow> failure option \<Rightarrow> fbo \<Rightarrow> failure option \<times> fbo" where
  "maybeWaitOnDeferredWrites cfg node waited s =
     (case pathFromNodeForBlockWriteLocked cfg node of
        Inl e \<Rightarrow> (Some e, s)
      | Inr filePath \<Rightarrow>
          (case getOrCreateDirtyFileLocked filePath s of
             (df, s1) \<Rightarrow>
               (waited,
                onDirtyFile filePath
                  (addErrListener (length (errListeners df) + length (notified df))) s1)))"

text \<open>
  The closures that \<open>Write\<close> (lines 1386--1397) and \<open>Truncate\<close> (lines 1663--1674)
  defer: they take back the newly dirtied bytes from the tracker of the old path and run
  the operation again on the path they are given.
\<close>

definition replayWrite ::
  "nat \<Rightarrow> fboConfig \<Rightarrow> Path \<Rightarrow> int \<Rightarrow> byte list \<Rightarrow> int \<Rightarrow> deferredWrite" where
  "replayWrite fuel cfg filePath bytes data off =
     (\<lambda>ctx rmd f t.
        case writeDataLocked fuel cfg ctx rmd f data off
               (updateNotYetSyncingBytes filePath (- bytes)
                  (snd (getOrCreateDirtyFileLocked filePath t))) of
          (Inl e, t1) \<Rightarrow> (Some e, t1)
        | (Inr res, t1) \<Rightarrow> (None, t1))"

definition replayTruncate ::
  "nat \<Rightarrow> fboConfig \<Rightarrow> Path \<Rightarrow> int \<Rightarrow> nat \<Rightarrow> deferredWrite" where
  "replayTruncate fuel cfg filePath bytes sz =
     (\<lambda>ctx rmd f t.
        case truncateLocked fuel cfg ctx rmd f sz
               (updateNotYetSyncingBytes filePath (- bytes)
                  (snd (getOrCreateDirtyFileLocked filePath t))) of
          (Inl e, t1) \<Rightarrow> (Some e, t1)
        | (Inr res, t1) \<Rightarrow> (None, t1))"

text \<open>
  Lines 1358--1400 of \<open>Write\<close> and 1639--1677 of \<open>Truncate\<close>, from the deferred reset
  of \<open>doDeferWrite\<close> on: the operation, and its deferral when a sync is under way.
\<close>

definition deferIfSyncing ::
  "deferredWrite \<Rightarrow> BlockPointer list \<Rightarrow> fbo \<Rightarrow> folderBlockOps \<Rightarrow> folderBlockOps" where
  "deferIfSyncing w dirty s S =
     (if doDeferWrite s
      then S\<lparr>core := s\<lparr>doDeferWrite := False\<rparr>,
             deferredDirtyDeletes := deferredDirtyDeletes S @ dirty,
             deferredWrites := deferredWrites S @ [w]\<rparr>
      else S\<lparr>core := s\<lparr>doDeferWrite := False\<rparr>\<rparr>)"

text \<open>
  \<open>Write\<close> (lines 1333--1401).  \<open>WriteBody\<close> is what runs after the refund of the
  requested bytes has been deferred at line 1343.
\<close>

definition WriteBody ::
  "nat \<Rightarrow> fboConfig \<Rightarrow> int option \<Rightarrow> mdView \<Rightarrow> nat \<Rightarrow> byte list \<Rightarrow> int \<Rightarrow> failure option \<Rightarrow>
     folderBlockOps \<Rightarrow> failure option \<times> folderBlockOps" where
  "WriteBody fuel cfg ctx md node data off waited S =
     (case maybeWaitOnDeferredWrites cfg node waited (core S) of
        (Some e, s1) \<Rightarrow> (Some e, S\<lparr>core := s1\<rparr>)
      | (None, s1) \<Rightarrow>
          (case pathFromNodeForBlockWriteLocked cfg node of
             Inl e \<Rightarrow> (Some e, S\<lparr>core := s1\<rparr>)
           | Inr filePath \<Rightarrow>
               (case writeDataLocked fuel cfg ctx md filePath data off s1 of
                  (Inl e, s2) \<Rightarrow> (Some e, S\<lparr>core := s2\<lparr>doDeferWrite := False\<rparr>\<rparr>)
                | (Inr (lw, dirty, bytes), s2) \<Rightarrow>
                    (None, deferIfSyncing (replayWrite fuel cfg filePath bytes data off) dirty s2 S))))"

definition Write ::
  "nat \<Rightarrow> fboConfig \<Rightarrow> int option \<Rightarrow> mdView \<Rightarrow> nat \<Rightarrow> byte list \<Rightarrow> int \<Rightarrow> failure option \<Rightarrow>
     folderBlockOps \<Rightarrow> failure option \<times> folderBlockOps" where
  "Write fuel cfg ctx md node data off waited S =
     (case RequestPermissionToDirty cfg (int (length data)) (core S) of
        (Some e, s0) \<Rightarrow> (Some e, S\<lparr>core := s0\<rparr>)
      | (None, s0) \<Rightarrow>
          (case WriteBody fuel cfg ctx md node data off waited (S\<lparr>core := s0\<rparr>) of
             (res, S1) \<Rightarrow>
               (res, S1\<lparr>core := UpdateUnsyncedBytes (- int (length data)) False (core S1)\<rparr>)))"

text \<open>\<open>Truncate\<close> (lines 1611--1678), in the same two parts.\<close>

definition TruncateBody ::
  "nat \<Rightarrow> fboConfig \<Rightarrow> int option \<Rightarrow> mdView \<Rightarrow> nat \<Rightarrow> nat \<Rightarrow> failure option \<Rightarrow>
     folderBlockOps \<Rightarrow> failure option \<times> folderBlockOps" where
  "TruncateBody fuel cfg ctx md node sz waited S =
     (case maybeWaitOnDeferredWrites cfg node waited (core S) of
        (Some e, s1) \<Rightarrow> (Some e, S\<lparr>core := s1\<rparr>)
      | (None, s1) \<Rightarrow>
          (case pathFromNodeForBlockWriteLocked cfg node of
             Inl e \<Rightarrow> (Some e, S\<lparr>core := s1\<rparr>)
           | Inr filePath \<Rightarrow>
               (case truncateLocked fuel cfg ctx md filePath sz s1 of
                  (Inl e, s2) \<Rightarrow> (Some e, S\<lparr>core := s2\<lparr>doDeferWrite := False\<rparr>\<rparr>)
                | (Inr (lw, dirty, bytes), s2) \<Rightarrow>
                    (None, deferIfSyncing (replayTruncate fuel cfg filePath bytes sz) dirty s2 S))))"

definition Truncate ::
  "nat \<Rightarrow> fboConfig \<Rightarrow> int option \<Rightarrow> mdView \<Rightarrow> nat \<Rightarrow> nat \<Rightarrow> failure option \<Rightarrow>
     folderBlockOps \<Rightarrow> failure option \<times> folderBlockOps" where
  "Truncate fuel cfg ctx md node sz waited S =
     (case RequestPermissionToDirty cfg (int64 (int sz)) (core S) of
        (Some e, s0) \<Rightarrow> (Some e, S\<lparr>core := s0\<rparr>)
      | (None, s0) \<Rightarrow>
          (case TruncateBody fuel cfg ctx md node sz waited (S\<lparr>core := s0\<rparr>) of
             (res, S1) \<Rightarrow>
               (res, S1\<lparr>core := UpdateUnsyncedBytes (int64 (- int64 (int sz))) False (core S1)\<rparr>)))"

text \<open>A folder with nothing cached and nothing deferred.\<close>

definition emptyFolder :: folderBlockOps where
  "emptyFolder = \<lparr>core = emptyFbo, deferredWrites = [], deferredDirtyDeletes = []\<rparr>"

section \<open>Folder block operations: a file with a hole\<close>

text \<open>
  The size in the file's dirty directory entry and the pointer list of its top block in
  the dirty cache.
\<close>

definition fileShape :: "Path \<Rightarrow> fbo \<Rightarrow> (nat \<times> IndirectFilePtr list) option" where
  "fileShape file s =
     (case (deCache s (ref (TailPointer file)), dirtyBcache s (TailPointer file, Branch file)) of
        (Some d, Some a) \<Rightarrow>
          (case blocks s a of
             Some (FileBlk fb) \<Rightarrow> Some (Size d, IPtrs fb)
           | _ \<Rightarrow> None)
      | _ \<Rightarrow> None)"

text \<open>
  A folder whose root directory (pointer 100) holds the file \<open>f\<close> (pointer 2), a direct
  file of the one byte \<open>0x41\<close>; both blocks are in the clean cache.
\<close>

definition oneByteFolder :: folderBlockOps where
  "oneByteFolder =
     emptyFolder\<lparr>core := emptyFbo
       \<lparr>blocks := (\<lambda>a. None)
          (0 \<mapsto> DirBlk \<lparr>Children = (\<lambda>n. None)(''f'' \<mapsto> exEntry 2 1)\<rparr>,
           1 \<mapsto> FileBlk \<lparr>IsInd = False, Contents = [65], IPtrs = []\<rparr>),
        nextBlock := 2,
        bcache := (\<lambda>p. None)(exPtr 100 \<mapsto> (0, False), exPtr 2 \<mapsto> (1, False))\<rparr>\<rparr>"

text \<open>
  The file truncated to 1000000, which leaves a hole between its one byte and the new
  end, then truncated to 500000 once, and twice.
\<close>

definition C7_holed :: folderBlockOps where
  "C7_holed = snd (Truncate 1 exConfig None exMD 2 1000000 None oneByteFolder)"

definition C7_once :: folderBlockOps where
  "C7_once = snd (Truncate 1 exConfig None exMD 2 500000 None C7_holed)"

definition C7_twice :: folderBlockOps where
  "C7_twice = snd (Truncate 1 exConfig None exMD 2 500000 None C7_once)"

text \<open>The one-byte file extended to 65664 by \<open>truncateExtendLocked\<close>.\<close>

definition C5_holed :: fbo where
  "C5_holed = snd (truncateExtendLocked exConfig None exMD (exPath 2) 65664 (core oneByteFolder))"

text \<open>
  The configuration with a splitter that never splits: it puts all the data it is given
  into the block at the given offset.
\<close>

definition wholeBlockConfig :: fboConfig where
  "wholeBlockConfig =
     exConfig\<lparr>CopyUntilSplit :=
       (\<lambda>b lastBlock d off.
          (b\<lparr>Contents := take (nat off) (Contents b) @ d @ drop (nat off + length d) (Contents b)\<rparr>,
           int (length d)))\<rparr>"

section \<open>Folder block operations: pointers foreign to a file\<close>

text \<open>
  A sync gives the file's blocks new pointers, and the writes deferred during the sync
  are replayed on the file under those.  The old tail pointer stays out of their way when
  it is foreign to the new file: no file block in the store points to it, the block server
  hands out no block that points to it, the splitter leaves pointer lists alone, and no
  temporary identifier made from now on is its identifier.
\<close>

definition blockAvoids :: "BlockPointer \<Rightarrow> Block \<Rightarrow> bool" where
  "blockAvoids q b =
     (case b of
        FileBlk fb \<Rightarrow> list_all (\<lambda>ip. BlockPtr (Info ip) \<noteq> q) (IPtrs fb)
      | _ \<Rightarrow> True)"

definition avoids :: "BlockPointer \<Rightarrow> (nat \<Rightarrow> Block option) \<Rightarrow> bool" where
  "avoids q bl = (\<forall>a b. bl a = Some b \<longrightarrow> blockAvoids q b)"

definition configAvoids :: "BlockPointer \<Rightarrow> fboConfig \<Rightarrow> bool" where
  "configAvoids q cfg =
     ((\<forall>c p b. BlockOps_Get cfg c p = Inr b \<longrightarrow> blockAvoids q b) \<and>
      (\<forall>b l d off. IPtrs (fst (CopyUntilSplit cfg b l d off)) = IPtrs b))"

text \<open>
  The identifier source is asked with the number of identifiers made so far; from the
  \<open>k\<close>-th identifier on, none is the pointer's.
\<close>

definition freshFrom :: "fboConfig \<Rightarrow> BlockPointer \<Rightarrow> nat \<Rightarrow> bool" where
  "freshFrom cfg q k =
     (\<forall>n i. k \<le> n \<longrightarrow> Crypto_MakeTemporaryBlockID cfg n = Inr i \<longrightarrow> i \<noteq> ID q)"

text \<open>
  The pointer is not in the dirty cache under the branch, the store avoids it, and so
  will the identifiers still to be made.
\<close>

definition clean :: "fboConfig \<Rightarrow> BlockPointer \<Rightarrow> nat \<Rightarrow> fbo \<Rightarrow> bool" where
  "clean cfg q br s =
     (dirtyBcache s (q, br) = None \<and> avoids q (blocks s) \<and> freshFrom cfg q (tempIDsMade s))"

text \<open>The deferred writes that \<open>Write\<close> and \<open>Truncate\<close> build.\<close>

definition isReplay :: "fboConfig \<Rightarrow> deferredWrite \<Rightarrow> bool" where
  "isReplay cfg w =
     ((\<exists>fuel filePath bytes data off. w = replayWrite fuel cfg filePath bytes data off) \<or>
      (\<exists>fuel filePath bytes sz. w = replayTruncate fuel cfg filePath bytes sz))"


text \<open>
  The last lines of \<open>startSyncWriteLocked\<close> (lines 2048--2055), through which every
  successful \<open>StartSync\<close> returns: the tracker is asked to mark the tail pointer as
  syncing, and unless it refuses, the tail pointer is appended to \<open>oldFileBlockPtrs\<close>
  of the sync state built so far.  The tracker's answer is the argument \<open>syncing\<close>.
\<close>

definition startSyncWriteLockedEnd ::
  "Path \<Rightarrow> error option \<Rightarrow> fileSyncState \<Rightarrow> failure option \<times> fileSyncState" where
  "startSyncWriteLockedEnd file syncing syncState =
     (case syncing of
        Some e \<Rightarrow> (Some (Failed e), syncState)
      | None \<Rightarrow>
          (None, syncState\<lparr>oldFileBlockPtrs := oldFileBlockPtrs syncState @ [TailPointer file]\<rparr>))"

text \<open>
  A sync of the one-byte file from pointer 1 to pointer 2, at the moment \<open>FinishSync\<close>
  is called.  The old tail is still in the dirty cache, with its directory entry, its sync
  info and its tracker, whose only block is Synced.  During the sync three bytes were
  written at offset 1 and deferred; the closure is the one \<open>Write\<close> builds, and pointer
  3 is a dirty pointer that write left behind.
\<close>

definition C1_folder :: folderBlockOps where
  "C1_folder =
     \<lparr>core = (core oneByteFolder)
        \<lparr>syncInfos := (\<lambda>a. None)(0 \<mapsto>
            \<lparr>oldInfo = EntryInfo (exEntry 1 1), op = newSyncOp (exPtr 1), unrefs = [],
             bps = None, refBytes = 0, unrefBytes = 0\<rparr>),
         nextInfo := 1,
         dirtyBcache := (\<lambda>k. None)((exPtr 1, 0) \<mapsto> 1, (exPtr 3, 0) \<mapsto> 1),
         unsyncedBytes := 3,
         dirtyFiles := (\<lambda>p. None)(exPtr 1 \<mapsto>
            newDirtyFile\<lparr>fileBlockStates := [(exPtr 1, \<lparr>sync = Synced, orphaned = False\<rparr>)],
                         notYetSyncingBytes := 3\<rparr>),
         unrefCache := (\<lambda>r. None)(ref (exPtr 1) \<mapsto> 0),
         deCache := (\<lambda>r. None)(ref (exPtr 1) \<mapsto> exEntry 1 1)\<rparr>,
      deferredWrites = [replayWrite 1 wholeBlockConfig (exPath 1) 3 [1, 2, 3] 1],
      deferredDirtyDeletes = [exPtr 3]\<rparr>"
section \<open>Theorems: block retrieval queue\<close>




lemma rview_index [simp]: "rview (br\<lparr>index := j\<rparr>) = rview br"
  by (simp add: rview_def)












section \<open>Theorems: quota reclamation\<close>

lemma int64_id: "- (2 ^ 63) \<le> x \<Longrightarrow> x < 2 ^ 63 \<Longrightarrow> int64 x = x"
  by (simp add: int64_def)

lemma capRevisions_span:
  assumes "0 \<le> g" "g \<le> m" "m < 2 ^ 63"
  shows "fst (capRevisions m g) - g \<le> numMaxRevisionsPerQR \<and>
         fst (capRevisions m g) \<le> m \<and>
         snd (capRevisions m g) = (numMaxRevisionsPerQR < m - g)"
proof -
  have a: "int64 (m - g) = m - g" using assms by (intro int64_id) auto
  show ?thesis
  proof (cases "numMaxRevisionsPerQR < m - g")
    case True
    then have "int64 (g + numMaxRevisionsPerQR) = g + numMaxRevisionsPerQR"
      using assms by (intro int64_id) (auto simp: numMaxRevisionsPerQR_def)
    then show ?thesis using True a by (simp add: capRevisions_def)
  next
    case False
    then show ?thesis using a by (simp add: capRevisions_def)
  qed
qed

lemma lowerLatestRev_le: "lowerLatestRev t pos l \<le> l"
proof (induction pos arbitrary: l)
  case Nil
  show ?case by simp
next
  case (Cons a pos)
  obtain r i where a: "a = (r, i)" by (cases a)
  have "lowerLatestRev t pos (if i < t \<and> r < l then r else l) \<le> (if i < t \<and> r < l then r else l)"
    by (rule Cons.IH)
  then show ?case using a by (auto split: if_splits)
qed

lemma lowerLatestRev_lower:
  "(r, i) \<in> set pos \<Longrightarrow> i < t \<Longrightarrow> lowerLatestRev t pos l \<le> r"
proof (induction pos arbitrary: l)
  case Nil
  then show ?case by simp
next
  case (Cons a pos)
  obtain r' i' where a: "a = (r', i')" by (cases a)
  show ?case
  proof (cases "(r, i) = a")
    case True
    have "lowerLatestRev t pos (if i < t \<and> r < l then r else l) \<le> (if i < t \<and> r < l then r else l)"
      by (rule lowerLatestRev_le)
    then show ?thesis using True a Cons.prems by (auto split: if_splits)
  next
    case False
    then have "(r, i) \<in> set pos" using Cons.prems by auto
    from Cons.IH[OF this Cons.prems(2)] show ?thesis using a by simp
  qed
qed

lemma lowerLatestRev_mem:
  "lowerLatestRev t pos l = l \<or> (\<exists>i. (lowerLatestRev t pos l, i) \<in> set pos \<and> i < t)"
proof (induction pos arbitrary: l)
  case Nil
  show ?case by simp
next
  case (Cons a pos)
  obtain r i where a: "a = (r, i)" by (cases a)
  define l' where "l' = (if i < t \<and> r < l then r else l)"
  have eq: "lowerLatestRev t (a # pos) l = lowerLatestRev t pos l'"
    using a by (simp add: l'_def)
  from Cons.IH[of l'] show ?case
  proof
    assume "lowerLatestRev t pos l' = l'"
    then show ?thesis unfolding eq using a by (auto simp: l'_def split: if_splits)
  next
    assume "\<exists>i. (lowerLatestRev t pos l', i) \<in> set pos \<and> i < t"
    then show ?thesis unfolding eq by auto
  qed
qed

lemma shortenRange_small:
  "length ps \<le> numPointersPerGCThreshold \<Longrightarrow> shortenRange ps pos l = (ps, l, True)"
  by (simp add: shortenRange_def)

lemma shortenRange_large:
  assumes big: "numPointersPerGCThreshold < length ps" and d: "distinct (map fst pos)"
  shows "(case shortenRange ps pos l of (ps', l', complete) \<Rightarrow>
           l' \<le> l \<and> complete = (l' = l) \<and>
           (complete \<longrightarrow> ps' = ps) \<and>
           (\<not> complete \<longrightarrow>
              numPointersPerGCThreshold < length ps' \<and>
              (\<exists>i. map_of pos l' = Some i \<and> ps' = drop i ps)) \<and>
           (\<forall>(r, i) \<in> set pos. r < l' \<longrightarrow> length ps - i \<le> numPointersPerGCThreshold))"
proof -
  define t where "t = length ps - numPointersPerGCThreshold"
  define l' where "l' = lowerLatestRev t pos l"
  have le: "l' \<le> l" unfolding l'_def by (rule lowerLatestRev_le)
  have low: "\<And>r i. (r, i) \<in> set pos \<Longrightarrow> r < l' \<Longrightarrow> length ps - i \<le> numPointersPerGCThreshold"
  proof -
    fix r i assume m: "(r, i) \<in> set pos" and lt: "r < l'"
    have "\<not> i < t" using lowerLatestRev_lower[OF m, of t l] lt unfolding l'_def by auto
    then show "length ps - i \<le> numPointersPerGCThreshold" unfolding t_def by simp
  qed
  show ?thesis
  proof (cases "l' < l")
    case True
    from lowerLatestRev_mem[of t pos l] True obtain i where i: "(l', i) \<in> set pos" "i < t"
      unfolding l'_def by auto
    have mo: "map_of pos l' = Some i" using d i(1) by simp
    have len: "numPointersPerGCThreshold < length (drop i ps)"
      using i(2) unfolding t_def by simp
    have "shortenRange ps pos l = (drop i ps, l', False)"
      using big True mo by (simp add: shortenRange_def Let_def t_def[symmetric] l'_def[symmetric])
    then show ?thesis using True len mo low by auto
  next
    case False
    have "shortenRange ps pos l = (ps, l', True)"
      using big False by (simp add: shortenRange_def Let_def t_def[symmetric] l'_def[symmetric])
    then show ?thesis using False le low by auto
  qed
qed

lemma setRevStart_keys: "set (map fst (setRevStart r n m)) = insert r (set (map fst m))"
proof (induction m)
  case Nil
  show ?case by simp
next
  case (Cons a m)
  obtain k v where a: "a = (k, v)" by (cases a)
  show ?case using Cons a by (cases "k = r") auto
qed

lemma setRevStart_distinct: "distinct (map fst m) \<Longrightarrow> distinct (map fst (setRevStart r n m))"
proof (induction m)
  case Nil
  show ?case by simp
next
  case (Cons a m)
  obtain k v where a: "a = (k, v)" by (cases a)
  show ?case
  proof (cases "k = r")
    case True
    then show ?thesis using Cons.prems a by simp
  next
    case False
    have "k \<notin> set (map fst (setRevStart r n m))"
      using Cons.prems a False unfolding setRevStart_keys by simp
    then show ?thesis using Cons a False by simp
  qed
qed

lemma walkBatch_distinct:
  "distinct (map fst pos) \<Longrightarrow> walkBatch e rmds (ps, pos) = (b, ps', pos') \<Longrightarrow>
     distinct (map fst pos')"
proof (induction rmds arbitrary: ps pos)
  case Nil
  then show ?case by simp
next
  case (Cons a rmds)
  show ?case
  proof (cases "Revision a \<le> e")
    case True
    then show ?thesis using Cons.prems by simp
  next
    case False
    have "walkBatch e rmds (ps @ rmdPtrs a, setRevStart (Revision a) (length ps) pos) = (b, ps', pos')"
      using Cons.prems(2) False by simp
    from Cons.IH[OF setRevStart_distinct[OF Cons.prems(1)] this] show ?thesis .
  qed
qed

lemma collectUnrefs_distinct:
  "distinct (map fst pos) \<Longrightarrow> collectUnrefs fuel env e h (ps, pos) = Some (Inr (ps', pos')) \<Longrightarrow>
     distinct (map fst pos')"
proof (induction fuel arbitrary: h ps pos)
  case 0
  then show ?case by simp
next
  case (Suc fuel)
  define startRev where "startRev = (let s0 = int64 (int64 (h - maxMDsAtATime env) + 1)
     in if s0 < MetadataRevisionInitial env then MetadataRevisionInitial env else s0)"
  from Suc.prems(2) obtain rmds where g: "getMDRange env startRev h = Inr rmds"
    by (cases "getMDRange env startRev h") (auto simp: Let_def startRev_def)
  obtain b ps1 pos1 where w: "walkBatch e (rev rmds) (ps, pos) = (b, ps1, pos1)"
    by (cases "walkBatch e (rev rmds) (ps, pos)")
  have d1: "distinct (map fst pos1)" by (rule walkBatch_distinct[OF Suc.prems(1) w])
  show ?case
  proof (cases b)
    case True
    then show ?thesis using Suc.prems(2) g w d1 by (simp add: Let_def startRev_def)
  next
    case False
    define h' where "h' = (case rmds of [] \<Rightarrow> h | r # _ \<Rightarrow> int64 (Revision r - 1))"
    show ?thesis
    proof (cases "int (length rmds) < maxMDsAtATime env \<or> h' < MetadataRevisionInitial env")
      case True
      then show ?thesis using Suc.prems(2) g w d1 False
        by (auto simp add: Let_def startRev_def h'_def)
    next
      case F2: False
      then have "collectUnrefs fuel env e h' (ps1, pos1) = Some (Inr (ps', pos'))"
        using Suc.prems(2) g w False by (auto simp add: Let_def startRev_def h'_def)
      from Suc.IH[OF d1 this] show ?thesis .
    qed
  qed
qed

lemma getUnreferencedBlocks_threshold:
  assumes lt: "earliestRev < latestRev"
    and c: "collectUnrefs fuel env earliestRev latestRev ([], []) = Some (Inr (ps, pos))"
  shows "\<exists>ps' l' complete.
          getUnreferencedBlocks fuel env latestRev earliestRev = Some (Inr (ps', l', complete)) \<and>
          (length ps \<le> numPointersPerGCThreshold \<longrightarrow> ps' = ps \<and> l' = latestRev \<and> complete) \<and>
          (numPointersPerGCThreshold < length ps \<longrightarrow>
             l' \<le> latestRev \<and> complete = (l' = latestRev) \<and>
             (complete \<longrightarrow> ps' = ps) \<and>
             (\<not> complete \<longrightarrow>
                numPointersPerGCThreshold < length ps' \<and>
                (\<exists>i. map_of pos l' = Some i \<and> ps' = drop i ps)) \<and>
             (\<forall>(r, i) \<in> set pos. r < l' \<longrightarrow> length ps - i \<le> numPointersPerGCThreshold))"
proof -
  have d: "distinct (map fst pos)"
    using collectUnrefs_distinct[OF _ c] by simp
  obtain ps' l' complete where s: "shortenRange ps pos latestRev = (ps', l', complete)"
    by (cases "shortenRange ps pos latestRev")
  have g: "getUnreferencedBlocks fuel env latestRev earliestRev = Some (Inr (ps', l', complete))"
    using lt c s by (simp add: getUnreferencedBlocks_def)
  show ?thesis
  proof (cases "length ps \<le> numPointersPerGCThreshold")
    case True
    then show ?thesis using g s shortenRange_small[OF True, of pos latestRev] by auto
  next
    case False
    then have big: "numPointersPerGCThreshold < length ps" by simp
    from shortenRange_large[OF big d, of latestRev] s
    show ?thesis using g big by (intro exI[of _ ps'] exI[of _ l'] exI[of _ complete]) auto
  qed
qed

lemma doReclamation_finalizes:
  assumes "getMDForFBM env = Inr head" "IsReadableOrError env = None" "merged head"
    "GetCurrentUserInfo env = Inr uid" "IsWriter env uid" "isQRNecessary env fbm head"
    "TruncateLock env = Inr True"
    "getMostRecentOldEnoughAndGCRevisions fuel env head = Some (Inr (m, g))"
    "m \<noteq> MetadataRevisionUninitialized env" "g < m"
    "getUnreferencedBlocks fuel env (fst (capRevisions m g)) g = Some (Inr (ps, l, complete))"
    "ps \<noteq> [] \<or> snd (capRevisions m g)"
    "deleteBlockRefs env ps = Inr zs"
  shows "doReclamation fuel env fbm =
           Some (finalizeGCOp env l zs,
                 rememberQR (finalizeGCOp env l zs) head (fst (capRevisions m g)) complete fbm,
                 [EvTruncateLock, EvDelete ps, EvFinalize l zs, EvTruncateUnlock])"
  using assms by (auto simp: doReclamation_def reclaimLocked_def split: prod.splits)

text \<open>
  Claim C8 (as amended).  First part: for revision numbers in the valid range, the cap of
  lines 810--815 leaves at most \<open>numMaxRevisionsPerQR = 100\<close> revisions between
  \<open>lastGCRev\<close> and the latest revision handed to \<open>getUnreferencedBlocks\<close>.
  Second part: when the walk over the range has collected \<open>ps\<close> with the start
  positions \<open>pos\<close>, a batch of at most 100 pointers is returned whole and complete;
  a larger batch is returned from the oldest revision boundary whose batch still has more
  than 100 pointers (every older boundary leaves at most 100), and the result is
  incomplete exactly when that boundary is older than the requested latest revision.
  Third part: when the run gets as far as the delete, the \<open>gcOp\<close> is finalised at the
  revision \<open>getUnreferencedBlocks\<close> returned, and a run that ends without error
  records that call's \<open>complete\<close> flag in \<open>wasLastQRComplete\<close>.
\<close>

theorem quota_reclamation_bounds:
  "(0 \<le> g0 \<and> g0 \<le> m0 \<and> m0 < 2 ^ 63 \<longrightarrow>
      fst (capRevisions m0 g0) - g0 \<le> numMaxRevisionsPerQR \<and>
      fst (capRevisions m0 g0) \<le> m0 \<and>
      snd (capRevisions m0 g0) = (numMaxRevisionsPerQR < m0 - g0)) \<and>
   (earliestRev < latestRev \<and>
    collectUnrefs fuel env earliestRev latestRev ([], []) = Some (Inr (ps, pos)) \<longrightarrow>
      (\<exists>ps' l' complete.
          getUnreferencedBlocks fuel env latestRev earliestRev = Some (Inr (ps', l', complete)) \<and>
          (length ps \<le> numPointersPerGCThreshold \<longrightarrow> ps' = ps \<and> l' = latestRev \<and> complete) \<and>
          (numPointersPerGCThreshold < length ps \<longrightarrow>
             l' \<le> latestRev \<and> complete = (l' = latestRev) \<and>
             (complete \<longrightarrow> ps' = ps) \<and>
             (\<not> complete \<longrightarrow>
                numPointersPerGCThreshold < length ps' \<and>
                (\<exists>i. map_of pos l' = Some i \<and> ps' = drop i ps)) \<and>
             (\<forall>(r, i) \<in> set pos. r < l' \<longrightarrow> length ps - i \<le> numPointersPerGCThreshold)))) \<and>
   (getMDForFBM env = Inr head \<and> IsReadableOrError env = None \<and> merged head \<and>
    GetCurrentUserInfo env = Inr uid \<and> IsWriter env uid \<and> isQRNecessary env fbm head \<and>
    TruncateLock env = Inr True \<and>
    getMostRecentOldEnoughAndGCRevisions fuel env head = Some (Inr (m, g)) \<and>
    m \<noteq> MetadataRevisionUninitialized env \<and> g < m \<and>
    getUnreferencedBlocks fuel env (fst (capRevisions m g)) g = Some (Inr (qs, l, c)) \<and>
    (qs \<noteq> [] \<or> snd (capRevisions m g)) \<and>
    deleteBlockRefs env qs = Inr zs \<longrightarrow>
      doReclamation fuel env fbm =
        Some (finalizeGCOp env l zs,
              rememberQR (finalizeGCOp env l zs) head (fst (capRevisions m g)) c fbm,
              [EvTruncateLock, EvDelete qs, EvFinalize l zs, EvTruncateUnlock]))"
proof (intro conjI impI)
  assume "0 \<le> g0 \<and> g0 \<le> m0 \<and> m0 < 2 ^ 63"
  then show "fst (capRevisions m0 g0) - g0 \<le> numMaxRevisionsPerQR"
    "fst (capRevisions m0 g0) \<le> m0"
    "snd (capRevisions m0 g0) = (numMaxRevisionsPerQR < m0 - g0)"
    using capRevisions_span[of g0 m0] by simp_all
next
  assume h: "earliestRev < latestRev \<and>
    collectUnrefs fuel env earliestRev latestRev ([], []) = Some (Inr (ps, pos))"
  show "\<exists>ps' l' complete.
          getUnreferencedBlocks fuel env latestRev earliestRev = Some (Inr (ps', l', complete)) \<and>
          (length ps \<le> numPointersPerGCThreshold \<longrightarrow> ps' = ps \<and> l' = latestRev \<and> complete) \<and>
          (numPointersPerGCThreshold < length ps \<longrightarrow>
             l' \<le> latestRev \<and> complete = (l' = latestRev) \<and>
             (complete \<longrightarrow> ps' = ps) \<and>
             (\<not> complete \<longrightarrow>
                numPointersPerGCThreshold < length ps' \<and>
                (\<exists>i. map_of pos l' = Some i \<and> ps' = drop i ps)) \<and>
             (\<forall>(r, i) \<in> set pos. r < l' \<longrightarrow> length ps - i \<le> numPointersPerGCThreshold))"
    by (rule getUnreferencedBlocks_threshold[OF conjunct1[OF h] conjunct2[OF h]])
next
  assume "getMDForFBM env = Inr head \<and> IsReadableOrError env = None \<and> merged head \<and>
    GetCurrentUserInfo env = Inr uid \<and> IsWriter env uid \<and> isQRNecessary env fbm head \<and>
    TruncateLock env = Inr True \<and>
    getMostRecentOldEnoughAndGCRevisions fuel env head = Some (Inr (m, g)) \<and>
    m \<noteq> MetadataRevisionUninitialized env \<and> g < m \<and>
    getUnreferencedBlocks fuel env (fst (capRevisions m g)) g = Some (Inr (qs, l, c)) \<and>
    (qs \<noteq> [] \<or> snd (capRevisions m g)) \<and>
    deleteBlockRefs env qs = Inr zs"
  then show "doReclamation fuel env fbm =
        Some (finalizeGCOp env l zs,
              rememberQR (finalizeGCOp env l zs) head (fst (capRevisions m g)) c fbm,
              [EvTruncateLock, EvDelete qs, EvFinalize l zs, EvTruncateUnlock])"
    using doReclamation_finalizes[of env head uid fbm fuel m g qs l c zs] by blast
qed

lemma C8_three_collect:
  "collectUnrefs (Suc 0) C8_three 0 3 ([], []) =
     Some (Inr (replicate 60 (C8_ptr 3) @ replicate 60 (C8_ptr 2) @ replicate 60 (C8_ptr 1),
                [(3, 0), (2, 60), (1, 120)]))"
  by (simp add: C8_three_def C8_env_def C8_rmd_def int64_def rmdPtrs_def Let_def)

lemma C8_three_unrefs:
  "getUnreferencedBlocks (Suc 0) C8_three 3 0 =
     Some (Inr (replicate 60 (C8_ptr 2) @ replicate 60 (C8_ptr 1), 2, False))"
  by (simp add: getUnreferencedBlocks_def C8_three_collect shortenRange_def
      numPointersPerGCThreshold_def Let_def del: collectUnrefs.simps)

lemma C8_three_revisions:
  "getMostRecentOldEnoughAndGCRevisions (Suc 0) C8_three (C8_rmd 3 60) = Some (Inr (3, 0))"
  by (simp add: getMostRecentOldEnoughAndGCRevisions_def C8_three_def C8_env_def C8_rmd_def
      int64_def isOldEnough_def Let_def)

text \<open>
  The theorem on the history of three revisions with sixty unreferenced blocks each: the
  range is shortened to revision 2 (120 pointers) and the run is recorded as incomplete.
\<close>

theorem quota_reclamation_bounds_witness:
  "fst (capRevisions 300 5) - 5 \<le> numMaxRevisionsPerQR \<and>
   fst (capRevisions 300 5) = 105 \<and> snd (capRevisions 300 5) \<and>
   getUnreferencedBlocks (Suc 0) C8_three 3 0 =
     Some (Inr (replicate 60 (C8_ptr 2) @ replicate 60 (C8_ptr 1), 2, False)) \<and>
   doReclamation (Suc 0) C8_three C8_fbm =
     Some (None,
           \<lparr>lastQRHeadRev = 3, lastQROldEnoughRev = 3, wasLastQRComplete = False\<rparr>,
           [EvTruncateLock, EvDelete (replicate 60 (C8_ptr 2) @ replicate 60 (C8_ptr 1)),
            EvFinalize 2 [7], EvTruncateUnlock])"
proof -
  note T = quota_reclamation_bounds[of 5 300 0 3 "Suc 0" C8_three
      "replicate 60 (C8_ptr 3) @ replicate 60 (C8_ptr 2) @ replicate 60 (C8_ptr 1)"
      "[(3, 0), (2, 60), (1, 120)]" "C8_rmd 3 60" 1 C8_fbm 3 0
      "replicate 60 (C8_ptr 2) @ replicate 60 (C8_ptr 1)" 2 False "[7]"]
  have h1: "(0::int) \<le> 5 \<and> (5::int) \<le> 300 \<and> (300::int) < 2 ^ 63" by simp
  have h2: "(0::int) < 3 \<and> collectUnrefs (Suc 0) C8_three 0 3 ([], []) =
     Some (Inr (replicate 60 (C8_ptr 3) @ replicate 60 (C8_ptr 2) @ replicate 60 (C8_ptr 1),
                [(3, 0), (2, 60), (1, 120)]))"
    using C8_three_collect by simp
  have cap: "capRevisions 3 0 = (3, False)"
    by (simp add: capRevisions_def int64_def numMaxRevisionsPerQR_def)
  have h3: "getMDForFBM C8_three = Inr (C8_rmd 3 60) \<and> IsReadableOrError C8_three = None \<and>
    merged (C8_rmd 3 60) \<and>
    GetCurrentUserInfo C8_three = Inr 1 \<and> IsWriter C8_three 1 \<and>
    isQRNecessary C8_three C8_fbm (C8_rmd 3 60) \<and>
    TruncateLock C8_three = Inr True \<and>
    getMostRecentOldEnoughAndGCRevisions (Suc 0) C8_three (C8_rmd 3 60) = Some (Inr (3, 0)) \<and>
    3 \<noteq> MetadataRevisionUninitialized C8_three \<and> (0::int) < 3 \<and>
    getUnreferencedBlocks (Suc 0) C8_three (fst (capRevisions 3 0)) 0 =
      Some (Inr (replicate 60 (C8_ptr 2) @ replicate 60 (C8_ptr 1), 2, False)) \<and>
    (replicate 60 (C8_ptr 2) @ replicate 60 (C8_ptr 1) \<noteq> [] \<or> snd (capRevisions 3 0)) \<and>
    deleteBlockRefs C8_three (replicate 60 (C8_ptr 2) @ replicate 60 (C8_ptr 1)) = Inr [7]"
    using C8_three_unrefs C8_three_revisions cap
    by (simp add: C8_three_def C8_env_def C8_rmd_def isQRNecessary_def C8_fbm_def)
  have R: "fst (capRevisions 300 5) - 5 \<le> numMaxRevisionsPerQR"
    "doReclamation (Suc 0) C8_three C8_fbm =
        Some (finalizeGCOp C8_three 2 [7],
              rememberQR (finalizeGCOp C8_three 2 [7]) (C8_rmd 3 60) (fst (capRevisions 3 0))
                False C8_fbm,
              [EvTruncateLock, EvDelete (replicate 60 (C8_ptr 2) @ replicate 60 (C8_ptr 1)),
               EvFinalize 2 [7], EvTruncateUnlock])"
    using T h1 h2 h3 by blast+
  have f: "finalizeGCOp C8_three 2 [7] = None"
    by (simp add: C8_three_def C8_env_def)
  have c300: "capRevisions 300 5 = (105, True)"
    by (simp add: capRevisions_def int64_def numMaxRevisionsPerQR_def)
  show ?thesis
    using R C8_three_unrefs
    by (simp add: f cap c300 rememberQR_def C8_rmd_def C8_fbm_def)
qed

text \<open>
  Claim C8 as stated fails when only the whole range exceeds the threshold: one revision
  with 101 unreferenced blocks is collected whole, nothing is shortened, and the run is
  recorded as complete.
\<close>

theorem quota_reclamation_complete_counterexample:
  "numPointersPerGCThreshold < length (replicate 101 (C8_ptr 1)) \<and>
   getUnreferencedBlocks (Suc 0) C8_one 1 0 = Some (Inr (replicate 101 (C8_ptr 1), 1, True)) \<and>
   doReclamation (Suc 0) C8_one C8_fbm =
     Some (None,
           \<lparr>lastQRHeadRev = 1, lastQROldEnoughRev = 1, wasLastQRComplete = True\<rparr>,
           [EvTruncateLock, EvDelete (replicate 101 (C8_ptr 1)), EvFinalize 1 [7],
            EvTruncateUnlock])"
  by (simp add: doReclamation_def reclaimLocked_def getUnreferencedBlocks_def
      getMostRecentOldEnoughAndGCRevisions_def shortenRange_def capRevisions_def
      numPointersPerGCThreshold_def numMaxRevisionsPerQR_def isQRNecessary_def rememberQR_def
      C8_one_def C8_env_def C8_rmd_def C8_fbm_def int64_def isOldEnough_def rmdPtrs_def Let_def)

section \<open>Theorems: finishing a sync\<close>

lemma deleteDirty_ok: "fst (deleteDirty ps br s) = None"
  by (induction ps arbitrary: s) (simp_all add: DirtyBcache_Delete_def)

lemma deleteDirty_cache:
  "dirtyBcache (snd (deleteDirty ps br s)) k =
     (if fst k \<in> set ps \<and> snd k = br then None else dirtyBcache s k)"
proof (induction ps arbitrary: s)
  case Nil
  show ?case by simp
next
  case (Cons p ps)
  show ?case
    by (simp add: DirtyBcache_Delete_def Cons.IH) (cases k, auto)
qed

lemma fold_DeletePermanent_cache:
  "dirtyBcache (fold (\<lambda>p. BlockCache_DeletePermanent (ID p)) ps s) = dirtyBcache s"
  by (induction ps arbitrary: s) (simp_all add: BlockCache_DeletePermanent_def)

lemma beforeReplay_ok: "fst (beforeReplay cfg st S) = None"
proof -
  obtain s1 where d1: "deleteDirty (oldFileBlockPtrs st) (fboBranch cfg) (core S) = (None, s1)"
    using deleteDirty_ok[of "oldFileBlockPtrs st" "fboBranch cfg" "core S"]
    by (cases "deleteDirty (oldFileBlockPtrs st) (fboBranch cfg) (core S)") auto
  define s2 where "s2 = fold (\<lambda>p. BlockCache_DeletePermanent (ID p)) (newIndirectFileBlockPtrs st) s1"
  obtain s3 where d2: "deleteDirty (deferredDirtyDeletes S) (fboBranch cfg) s2 = (None, s3)"
    using deleteDirty_ok[of "deferredDirtyDeletes S" "fboBranch cfg" s2]
    by (cases "deleteDirty (deferredDirtyDeletes S) (fboBranch cfg) s2") auto
  show ?thesis by (simp add: beforeReplay_def d1 s2_def[symmetric] d2 Let_def)
qed

lemma beforeReplay_lists:
  "deferredWrites (snd (beforeReplay cfg st S)) = [] \<and>
   deferredDirtyDeletes (snd (beforeReplay cfg st S)) = []"
proof -
  obtain s1 where d1: "deleteDirty (oldFileBlockPtrs st) (fboBranch cfg) (core S) = (None, s1)"
    using deleteDirty_ok[of "oldFileBlockPtrs st" "fboBranch cfg" "core S"]
    by (cases "deleteDirty (oldFileBlockPtrs st) (fboBranch cfg) (core S)") auto
  define s2 where "s2 = fold (\<lambda>p. BlockCache_DeletePermanent (ID p)) (newIndirectFileBlockPtrs st) s1"
  obtain s3 where d2: "deleteDirty (deferredDirtyDeletes S) (fboBranch cfg) s2 = (None, s3)"
    using deleteDirty_ok[of "deferredDirtyDeletes S" "fboBranch cfg" s2]
    by (cases "deleteDirty (deferredDirtyDeletes S) (fboBranch cfg) s2") auto
  show ?thesis by (simp add: beforeReplay_def d1 s2_def[symmetric] d2 Let_def)
qed

lemma beforeReplay_cache:
  "dirtyBcache (core (snd (beforeReplay cfg st S))) k =
     (if (fst k \<in> set (oldFileBlockPtrs st) \<or> fst k \<in> set (deferredDirtyDeletes S))
         \<and> snd k = fboBranch cfg
      then None else dirtyBcache (core S) k)"
proof -
  obtain s1 where d1: "deleteDirty (oldFileBlockPtrs st) (fboBranch cfg) (core S) = (None, s1)"
    using deleteDirty_ok[of "oldFileBlockPtrs st" "fboBranch cfg" "core S"]
    by (cases "deleteDirty (oldFileBlockPtrs st) (fboBranch cfg) (core S)") auto
  define s2 where "s2 = fold (\<lambda>p. BlockCache_DeletePermanent (ID p)) (newIndirectFileBlockPtrs st) s1"
  obtain s3 where d2: "deleteDirty (deferredDirtyDeletes S) (fboBranch cfg) s2 = (None, s3)"
    using deleteDirty_ok[of "deferredDirtyDeletes S" "fboBranch cfg" s2]
    by (cases "deleteDirty (deferredDirtyDeletes S) (fboBranch cfg) s2") auto
  have c1: "dirtyBcache s1 k = (if fst k \<in> set (oldFileBlockPtrs st) \<and> snd k = fboBranch cfg
              then None else dirtyBcache (core S) k)"
    using deleteDirty_cache[of "oldFileBlockPtrs st" "fboBranch cfg" "core S" k] d1 by simp
  have c2: "dirtyBcache s2 = dirtyBcache s1"
    unfolding s2_def by (rule fold_DeletePermanent_cache)
  have c3: "dirtyBcache s3 k = (if fst k \<in> set (deferredDirtyDeletes S) \<and> snd k = fboBranch cfg
              then None else dirtyBcache s2 k)"
    using deleteDirty_cache[of "deferredDirtyDeletes S" "fboBranch cfg" s2 k] d2 by simp
  have "core (snd (beforeReplay cfg st S)) = s3"
    by (simp add: beforeReplay_def d1 s2_def[symmetric] d2 Let_def)
  then show ?thesis using c1 c2 c3 by auto
qed

lemma clearCacheInfoLocked_ok:
  assumes "clearCacheInfoLocked file s = (None, s')"
  shows "path file \<noteq> [] \<and>
         deCache s' (ref (TailPointer file)) = None \<and>
         unrefCache s' (ref (TailPointer file)) = None \<and>
         dirtyFiles s' (TailPointer file) = None \<and>
         dirtyBcache s' = dirtyBcache s \<and>
         (case dirtyFiles s (TailPointer file) of None \<Rightarrow> True | Some df \<Rightarrow> finishSync df = None)"
  using assms
  by (auto simp: clearCacheInfoLocked_def Let_def split: if_splits option.splits)






section \<open>Theorems: cleaning up after a failed sync\<close>

lemma revertSyncInfo_drops_all:
  assumes "syncInfos s siA = Some old" "syncInfos s savedA = Some saved"
    "bps saved = Some b" "putStates s b = Some ps"
  shows "blockStatesOf siA (snd (revertSyncInfoAfterRecoverableError rm siA savedA s)) = Some []"
  using assms
  by (simp add: revertSyncInfoAfterRecoverableError_def blockStatesOf_def Let_def)

lemma C2_failed_eval:
  "syncInfos C2_failed 0 = Some \<lparr>oldInfo = \<lparr>BlockPtr = exPtr 1, EncodedSize = 10\<rparr>,
                   op = \<lparr>opFile = exPtr 1, opWrites = [], opUpdated = True\<rparr>,
                   unrefs = [], bps = Some 0, refBytes = 0, unrefBytes = 0\<rparr>"
  "syncInfos C2_failed (Suc 0) = Some \<lparr>oldInfo = \<lparr>BlockPtr = exPtr 1, EncodedSize = 10\<rparr>,
                   op = \<lparr>opFile = exPtr 1, opWrites = [], opUpdated = True\<rparr>,
                   unrefs = [], bps = Some 2, refBytes = 0, unrefBytes = 0\<rparr>"
  "putStates C2_failed 0 = Some \<lparr>blockStates = [C2_bs 11, C2_bs 12, C2_bs 13]\<rparr>"
  "putStates C2_failed 2 = Some \<lparr>blockStates = [C2_bs 11, C2_bs 12]\<rparr>"
  "dirtyFiles C2_failed = (\<lambda>p. None)"
  by (simp_all add: C2_failed_def C2_before_def syncInfo_DeepCopy_def emptyFbo_def Let_def)

text \<open>
  Claim C2, at the failed sync above.  The saved sync info (address 1) holds the block
  states of A and B, and only C is listed in \<open>blocksToRemove\<close>; the source's comment
  says that the good pointers are saved.  After \<open>CleanupSyncState\<close> with the recoverable
  error the file's sync info holds the saved block-put state, and that state holds no
  block state at all: the loop that should copy the good ones ranges over the list that
  was set to nil one statement earlier, through the same pointer.
\<close>

theorem CleanupSyncState_drops_saved_block_states:
  "blockStatesOf 1 C2_failed = Some [C2_bs 11, C2_bs 12] \<and>
   fst (CleanupSyncState exConfig (exPath 1) [exPtr 13] C2_syncState
          (Some (Failed (ExternalError 2))) C2_failed) = None \<and>
   blockStatesOf 0 (snd (CleanupSyncState exConfig (exPath 1) [exPtr 13] C2_syncState
          (Some (Failed (ExternalError 2))) C2_failed)) = Some []"
  by (simp add: CleanupSyncState_def C2_failed_eval C2_syncState_def exConfig_def exPath_def
      notifyErrListeners_def revertSyncInfoAfterRecoverableError_def blockStatesOf_def Let_def
      TailPointer_def)

section \<open>Theorems: reading\<close>

text \<open>
  Claim C9.  In the loop of \<open>Read\<close>, when the lookup of the block at the next byte fails
  with \<open>DeadlineExceeded\<close> and some bytes have been read, the result is that count with
  no error; when it fails, with any error, and no byte has been read, the result is the
  count 0 with the error.  Under a context whose deadline is more than two seconds away
  the loop runs under a deadline two seconds earlier.
\<close>

theorem Read_short_read_on_deadline:
  "(nRead < n \<and> 0 < nRead \<and>
    getFileBlockAtOffsetLocked fuel cfg ctx file topA (nRead + off) blockRead s =
      (Inl (Failed DeadlineExceeded), s1) \<longrightarrow>
    readLoop fuel cfg ctx file topA off n nRead dest s = ((nRead, None), dest, s1)) \<and>
   (0 < n \<and>
    getFileBlockAtOffsetLocked fuel cfg ctx file topA off blockRead s = (Inl e, s1) \<longrightarrow>
    readLoop fuel cfg ctx file topA off n 0 dest s = ((0, Some e), dest, s1)) \<and>
   (now + 2 * 1000000000 < deadline \<and>
    getFileLocked cfg (Some deadline) file blockRead s = (Inr topA, s1) \<longrightarrow>
    Read fuel cfg (Some deadline) now file dest off s =
      readLoop fuel cfg (Some (deadline - 2 * 1000000000)) file topA off (int (length dest)) 0 dest s1)"
proof (intro conjI impI)
  assume "nRead < n \<and> 0 < nRead \<and>
    getFileBlockAtOffsetLocked fuel cfg ctx file topA (nRead + off) blockRead s =
      (Inl (Failed DeadlineExceeded), s1)"
  then show "readLoop fuel cfg ctx file topA off n nRead dest s = ((nRead, None), dest, s1)"
    by (subst readLoop.simps) simp
next
  assume "0 < n \<and>
    getFileBlockAtOffsetLocked fuel cfg ctx file topA off blockRead s = (Inl e, s1)"
  then show "readLoop fuel cfg ctx file topA off n 0 dest s = ((0, Some e), dest, s1)"
    by (subst readLoop.simps) simp
next
  assume "now + 2 * 1000000000 < deadline \<and>
    getFileLocked cfg (Some deadline) file blockRead s = (Inr topA, s1)"
  then show "Read fuel cfg (Some deadline) now file dest off s =
      readLoop fuel cfg (Some (deadline - 2 * 1000000000)) file topA off (int (length dest)) 0 dest s1"
    by (simp add: Read_def readCtx_def readTimeoutSmallerBy_def Let_def)
qed

lemma C9_top:
  "getFileLocked C9_config ctx (exPath 2) blockRead C9_state = (Inr 0, C9_state)"
  by (simp add: getFileLocked_def getFileBlockLocked_def getFileBlockHelperLocked_def
      getBlockHelperLocked_def getBlockFromDirtyOrCleanCache_def C9_state_def emptyFbo_def
      exPath_def pathIsValid_def ptrIsValid_def exPtr_def TailPointer_def)

lemma C9_first:
  "getFileBlockAtOffsetLocked (Suc 0) C9_config ctx (exPath 2) 0 0 blockRead C9_state =
     (Inr \<lparr>aoPtr = exPtr 11, aoParent = Some 0, aoIndex = 0, aoBlock = 1, aoNext = 4, aoStart = 0\<rparr>,
      C9_state)"
  by (simp add: getFileBlockAtOffsetLocked_def descendStep_def getFileBlockLocked_def
      getFileBlockHelperLocked_def
      getBlockHelperLocked_def getBlockFromDirtyOrCleanCache_def C9_state_def emptyFbo_def
      exPath_def pathIsValid_def ptrIsValid_def exPtr_def TailPointer_def exIPtr_def Let_def)

lemma C9_second:
  "getFileBlockAtOffsetLocked (Suc 0) C9_config (Some 8000000000) (exPath 2) 0 4 blockRead C9_state =
     (Inl (Failed DeadlineExceeded), C9_state)"
  by (simp add: getFileBlockAtOffsetLocked_def descendStep_def getFileBlockLocked_def
      getFileBlockHelperLocked_def C9_config_def exConfig_def
      getBlockHelperLocked_def getBlockFromDirtyOrCleanCache_def C9_state_def emptyFbo_def
      exPath_def pathIsValid_def ptrIsValid_def exPtr_def TailPointer_def exIPtr_def Let_def)

lemma C9_blocks: "blocks C9_state (Suc 0) = Some (FileBlk \<lparr>IsInd = False, Contents = [1, 2, 3, 4], IPtrs = []\<rparr>)"
  by (simp add: C9_state_def emptyFbo_def)

lemma C9_copy:
  "readLoop (Suc 0) C9_config (Some 8000000000) (exPath 2) 0 0 6 0 [0, 0, 0, 0, 0, 0] C9_state =
   readLoop (Suc 0) C9_config (Some 8000000000) (exPath 2) 0 0 6 4 [1, 2, 3, 4, 0, 0] C9_state"
  by (subst readLoop.simps) (simp add: C9_first C9_blocks copyInto_def)

text \<open>
  The two-leaf file under a deadline of ten seconds, read at time 0: the loop runs under a
  deadline of eight seconds, the fetch of the second leaf fails, and the read of six bytes
  at offset 0 returns the four bytes of the first leaf with no error, while the read at
  offset 4 returns 0 and the error.
\<close>

theorem Read_short_read_on_deadline_witness:
  "Read (Suc 0) C9_config (Some 10000000000) 0 (exPath 2) [0, 0, 0, 0, 0, 0] 0 C9_state =
     ((4, None), [1, 2, 3, 4, 0, 0], C9_state) \<and>
   Read (Suc 0) C9_config (Some 10000000000) 0 (exPath 2) [0, 0, 0, 0, 0, 0] 4 C9_state =
     ((0, Some (Failed DeadlineExceeded)), [0, 0, 0, 0, 0, 0], C9_state)"
proof -
  note A = Read_short_read_on_deadline[where nRead=4 and n=6 and fuel="Suc 0" and cfg=C9_config
      and ctx="Some 8000000000" and ?file="exPath 2" and topA=0 and off=0 and s=C9_state
      and ?s1.0=C9_state and e="Failed DeadlineExceeded" and now=0 and deadline=10000000000
      and dest="[1, 2, 3, 4, 0, 0]"]
  note B = Read_short_read_on_deadline[where nRead=4 and n=6 and fuel="Suc 0" and cfg=C9_config
      and ctx="Some 8000000000" and ?file="exPath 2" and topA=0 and off=4 and s=C9_state
      and ?s1.0=C9_state and e="Failed DeadlineExceeded" and now=0 and deadline=10000000000
      and dest="[0, 0, 0, 0, 0, 0]"]
  note C = Read_short_read_on_deadline[where nRead=4 and n=6 and fuel="Suc 0" and cfg=C9_config
      and ctx="Some 8000000000" and ?file="exPath 2" and topA=0 and off=0 and s=C9_state
      and ?s1.0=C9_state and e="Failed DeadlineExceeded" and now=0 and deadline=10000000000
      and dest="[0, 0, 0, 0, 0, 0]"]
  have a1: "readLoop (Suc 0) C9_config (Some 8000000000) (exPath 2) 0 0 6 4 [1, 2, 3, 4, 0, 0] C9_state
      = ((4, None), [1, 2, 3, 4, 0, 0], C9_state)"
    using A C9_second by simp
  have a3: "Read (Suc 0) C9_config (Some 10000000000) 0 (exPath 2) [0, 0, 0, 0, 0, 0] 0 C9_state =
      readLoop (Suc 0) C9_config (Some 8000000000) (exPath 2) 0 0 6 0 [0, 0, 0, 0, 0, 0] C9_state"
    using C C9_top[of "Some 10000000000"] by simp
  have b2: "readLoop (Suc 0) C9_config (Some 8000000000) (exPath 2) 0 4 6 0 [0, 0, 0, 0, 0, 0] C9_state
      = ((0, Some (Failed DeadlineExceeded)), [0, 0, 0, 0, 0, 0], C9_state)"
    using B C9_second by simp
  have b3: "Read (Suc 0) C9_config (Some 10000000000) 0 (exPath 2) [0, 0, 0, 0, 0, 0] 4 C9_state =
      readLoop (Suc 0) C9_config (Some 8000000000) (exPath 2) 0 4 6 0 [0, 0, 0, 0, 0, 0] C9_state"
    using B C9_top[of "Some 10000000000"] by simp
  show ?thesis
    unfolding a3 b3 C9_copy a1 b2 by simp
qed

section \<open>Evaluating the folder block operations\<close>

lemmas ex_defs = exConfig_def exMD_def exPath_def exPtr_def exEntry_def emptyFbo_def emptyFolder_def
  oneByteFolder_def wholeBlockConfig_def

lemmas path_defs = pathIsValid_def ptrIsValid_def HasValidParent_def TailPointer_def TailName_def
  ParentPath_def ref_def

lemmas cache_defs = DirtyBcache_IsDirty_def DirtyBcache_Put_def DirtyBcache_Delete_def
  UpdateUnsyncedBytes_def BlockCache_Put_def getBlockFromDirtyOrCleanCache_def

lemmas tracker_defs = newDirtyFile_def setBlockDirty_def blockNeedsCopy_def setBlockNotDirty_def
  isBlockDirty_def isBlockSyncing_def addErrListener_def updateNotYetSyncingBytes_def
  addDeferredNewBytes_def onDirtyFile_def getOrCreateDirtyFileLocked_def
  cacheBlockIfNotYetDirtyLocked_def

lemmas fetch_defs = getBlockHelperLocked_def getFileBlockHelperLocked_def deepCopyBlock_def
  getFileBlockLocked_def getFileLocked_def descendStep_def getFileBlockAtOffsetLocked_def
  getDirBlockHelperLocked_def getDirLocked_def updateWithDirtyEntriesLocked_def
  getDirtyEntryLocked_def

lemmas write_defs = newSyncOp_def addWrite_def addTruncate_def pathFromNodeForBlockWriteLocked_def
  writeGetFileLocked_def createIndirectBlockLocked_def newRightBlockLocked_def
  getOrCreateSyncInfoLocked_def maybeForceSync_def extendMakeIndirect_def truncateExtendLocked_def
  truncateExtendCutoffPoint_def truncateLocked_def maybeWaitOnDeferredWrites_def
  deferIfSyncing_def TruncateBody_def Truncate_def int64_def

lemmas all_defs = fileShape_def ex_defs path_defs cache_defs tracker_defs fetch_defs write_defs Let_def

lemmas write_data_defs = writeNewBlocks_def writeStep_def writeFinish_def writeDeferred_def
  writeDataLocked_def WriteBody_def Write_def truncateShrink_def replayWrite_def
  replayTruncate_def notYetSyncing_def unsyncedBalance_def

section \<open>Theorems: writes and the unsynced-bytes counter\<close>

lemma bal_getOrCreateDirtyFileLocked [simp]:
  "unsyncedBalance p (snd (getOrCreateDirtyFileLocked file s)) = unsyncedBalance p s"
  by (simp add: getOrCreateDirtyFileLocked_def unsyncedBalance_def notYetSyncing_def newDirtyFile_def
      split: option.splits)

lemma bal_onDirtyFile:
  "(\<And>df. notYetSyncingBytes (f df) = notYetSyncingBytes df) \<Longrightarrow>
   unsyncedBalance p (onDirtyFile file f s) = unsyncedBalance p s"
  by (simp add: onDirtyFile_def unsyncedBalance_def notYetSyncing_def split: option.splits)

lemma bal_cacheBlockIfNotYetDirtyLocked [simp]:
  "unsyncedBalance p (cacheBlockIfNotYetDirtyLocked q file a s) = unsyncedBalance p s"
  by (simp add: cacheBlockIfNotYetDirtyLocked_def getOrCreateDirtyFileLocked_def
      DirtyBcache_Put_def Let_def setBlockDirty_def unsyncedBalance_def notYetSyncing_def
      newDirtyFile_def split: option.splits prod.splits)

lemma bal_updateNotYetSyncingBytes [simp]:
  "unsyncedBalance (TailPointer file) (updateNotYetSyncingBytes file d s) =
   unsyncedBalance (TailPointer file) s"
  by (simp add: updateNotYetSyncingBytes_def UpdateUnsyncedBytes_def unsyncedBalance_def
      notYetSyncing_def split: option.splits)

lemma bal_blocks [simp]:
  "unsyncedBalance p (s\<lparr>blocks := b\<rparr>) = unsyncedBalance p s"
  "unsyncedBalance p (s\<lparr>nextBlock := n\<rparr>) = unsyncedBalance p s"
  "unsyncedBalance p (s\<lparr>syncInfos := i\<rparr>) = unsyncedBalance p s"
  "unsyncedBalance p (s\<lparr>nextInfo := n\<rparr>) = unsyncedBalance p s"
  "unsyncedBalance p (s\<lparr>unrefCache := u\<rparr>) = unsyncedBalance p s"
  "unsyncedBalance p (s\<lparr>deCache := c\<rparr>) = unsyncedBalance p s"
  "unsyncedBalance p (s\<lparr>bcache := bc\<rparr>) = unsyncedBalance p s"
  "unsyncedBalance p (s\<lparr>dirtyBcache := dc\<rparr>) = unsyncedBalance p s"
  "unsyncedBalance p (s\<lparr>tempIDsMade := n\<rparr>) = unsyncedBalance p s"
  "unsyncedBalance p (s\<lparr>forceSyncSent := fs\<rparr>) = unsyncedBalance p s"
  "unsyncedBalance p (s\<lparr>doDeferWrite := dw\<rparr>) = unsyncedBalance p s"
  by (simp_all add: unsyncedBalance_def notYetSyncing_def)

lemma bal_getBlockHelperLocked:
  "getBlockHelperLocked cfg ctx q br dc s = (x, s1) \<Longrightarrow> unsyncedBalance p s1 = unsyncedBalance p s"
  by (auto simp: getBlockHelperLocked_def BlockCache_Put_def Let_def
      split: option.splits sum.splits if_splits)

lemma bal_getFileBlockHelperLocked:
  "getFileBlockHelperLocked cfg ctx q br s = (x, s1) \<Longrightarrow> unsyncedBalance p s1 = unsyncedBalance p s"
  by (auto simp: getFileBlockHelperLocked_def dest: bal_getBlockHelperLocked
      split: prod.splits sum.splits option.splits Block.splits)

lemma bal_getFileBlockLocked:
  "getFileBlockLocked cfg ctx q file rtype s = (x, s1) \<Longrightarrow> unsyncedBalance p s1 = unsyncedBalance p s"
  by (auto simp: getFileBlockLocked_def deepCopyBlock_def dest: bal_getFileBlockHelperLocked
      split: prod.splits sum.splits option.splits if_splits)

lemma bal_getFileLocked:
  "getFileLocked cfg ctx file rtype s = (x, s1) \<Longrightarrow> unsyncedBalance p s1 = unsyncedBalance p s"
  by (auto simp: getFileLocked_def dest: bal_getFileBlockLocked split: if_splits)

lemma bal_descend:
  "descend fuel cfg ctx file rtype off r s = (x, s1) \<Longrightarrow> unsyncedBalance p s1 = unsyncedBalance p s"
proof (induction fuel arbitrary: r s)
  case 0
  then show ?case by (auto split: option.splits Block.splits if_splits)
next
  case (Suc k)
  have step: "unsyncedBalance p s1 = unsyncedBalance p s"
    if "getFileBlockLocked cfg ctx q file rtype s = (Inr a, t)"
      and "descend k cfg ctx file rtype off r' t = (x, s1)" for q a t r'
    using Suc.IH[OF that(2)] bal_getFileBlockLocked[OF that(1)] by simp
  from Suc.prems show ?case
    by (auto dest: bal_getFileBlockLocked step
        split: option.splits Block.splits if_splits sum.splits prod.splits)
qed

lemma bal_getFileBlockAtOffsetLocked:
  "getFileBlockAtOffsetLocked fuel cfg ctx file topA off rtype s = (x, s1) \<Longrightarrow>
   unsyncedBalance p s1 = unsyncedBalance p s"
  by (auto simp: getFileBlockAtOffsetLocked_def dest: bal_descend split: if_splits)

lemma bal_writeGetFileLocked:
  "writeGetFileLocked cfg ctx md file s = (x, s1) \<Longrightarrow> unsyncedBalance p s1 = unsyncedBalance p s"
  by (auto simp: writeGetFileLocked_def dest: bal_getFileLocked
      split: sum.splits if_splits prod.splits)

lemma bal_setBlockNotDirty:
  "unsyncedBalance p (onDirtyFile file (setBlockNotDirty q) s) = unsyncedBalance p s"
  by (rule bal_onDirtyFile) (simp add: setBlockNotDirty_def)

lemma bal_addDeferredNewBytes:
  "unsyncedBalance p (onDirtyFile file (addDeferredNewBytes d) s) = unsyncedBalance p s"
  by (rule bal_onDirtyFile) (simp add: addDeferredNewBytes_def)

lemma bal_addErrListener:
  "unsyncedBalance p (onDirtyFile file (addErrListener ch) s) = unsyncedBalance p s"
  by (rule bal_onDirtyFile) (simp add: addErrListener_def)

lemma bal_createIndirectBlockLocked:
  "createIndirectBlockLocked cfg md file uid dver s = (x, s1) \<Longrightarrow>
   unsyncedBalance p s1 = unsyncedBalance p s"
  by (auto simp: createIndirectBlockLocked_def Let_def bal_setBlockNotDirty split: sum.splits)

lemma bal_newRightBlockLocked:
  "newRightBlockLocked cfg md q file pblock off s = (x, s1) \<Longrightarrow>
   unsyncedBalance p s1 = unsyncedBalance p s"
  by (auto simp: newRightBlockLocked_def Let_def split: sum.splits option.splits Block.splits)

lemma bal_getDirLocked:
  "getDirLocked cfg ctx dir rtype s = (x, s1) \<Longrightarrow> unsyncedBalance p s1 = unsyncedBalance p s"
  by (auto simp: getDirLocked_def getDirBlockHelperLocked_def deepCopyBlock_def
      dest: bal_getBlockHelperLocked
      split: sum.splits option.splits Block.splits prod.splits if_splits)

lemma bal_getDirtyEntryLocked:
  "getDirtyEntryLocked cfg ctx file s = (x, s1) \<Longrightarrow> unsyncedBalance p s1 = unsyncedBalance p s"
  by (auto simp: getDirtyEntryLocked_def dest: bal_getDirLocked
      split: sum.splits option.splits Block.splits prod.splits if_splits)

lemma bal_getOrCreateSyncInfoLocked:
  "getOrCreateSyncInfoLocked d s = (x, s1) \<Longrightarrow> unsyncedBalance p s1 = unsyncedBalance p s"
  by (auto simp: getOrCreateSyncInfoLocked_def split: option.splits)

lemma bal_maybeForceSync [simp]: "unsyncedBalance p (maybeForceSync cfg s) = unsyncedBalance p s"
  by (simp add: maybeForceSync_def)

lemma bal_extendMakeIndirect:
  "extendMakeIndirect cfg md file uid old s = (x, s1) \<Longrightarrow> unsyncedBalance p s1 = unsyncedBalance p s"
  by (auto simp: extendMakeIndirect_def Let_def dest!: bal_createIndirectBlockLocked[where p=p]
      split: option.splits Block.splits if_splits sum.splits prod.splits list.splits)

lemma bal_truncateExtendLocked:
  assumes "truncateExtendLocked cfg ctx md file sz s = (x, s') "
  shows "unsyncedBalance p s' = unsyncedBalance p s"
proof (cases "sz > MaxFileBytes cfg")
  case True
  then show ?thesis using assms by (simp add: truncateExtendLocked_def)
next
  case False
  obtain x1 s1 where g1: "writeGetFileLocked cfg ctx md file s = (x1, s1)"
    by (cases "writeGetFileLocked cfg ctx md file s")
  note u1 = bal_writeGetFileLocked[OF g1]
  show ?thesis
  proof (cases x1)
    case (Inl e)
    then show ?thesis using assms False g1 u1 by (simp add: truncateExtendLocked_def)
  next
    case (Inr ou)
    obtain old uid where ou: "ou = (old, uid)" by (cases ou)
    obtain x2 s2 where g2: "extendMakeIndirect cfg md file uid old s1 = (x2, s2)"
      by (cases "extendMakeIndirect cfg md file uid old s1")
    note u2 = bal_extendMakeIndirect[OF g2]
    show ?thesis
    proof (cases x2)
      case (Inl e)
      then show ?thesis using assms False g1 Inr ou g2 u1 u2 by (simp add: truncateExtendLocked_def)
    next
      case (Inr td)
      obtain topA dirty0 where td: "td = (topA, dirty0)" by (cases td)
      obtain x3 s3 where g3:
        "newRightBlockLocked cfg md (TailPointer file) file topA (int64 (int sz)) s2 = (x3, s3)"
        by (cases "newRightBlockLocked cfg md (TailPointer file) file topA (int64 (int sz)) s2")
      note u3 = bal_newRightBlockLocked[OF g3]
      obtain x4 s4 where g4: "getDirtyEntryLocked cfg ctx file s3 = (x4, s4)"
        by (cases "getDirtyEntryLocked cfg ctx file s3")
      note u4 = bal_getDirtyEntryLocked[OF g4]
      have u5: "unsyncedBalance p s5 = unsyncedBalance p s4" if "getOrCreateSyncInfoLocked d s4 = (a, s5)" for d a s5
        using bal_getOrCreateSyncInfoLocked[OF that] .
      show ?thesis
        using assms False g1 \<open>x1 = Inr ou\<close> ou g2 Inr td g3 g4 u1 u2 u3 u4
        by (auto simp: truncateExtendLocked_def Let_def dest!: u5
            split: option.splits Block.splits if_splits sum.splits prod.splits)
    qed
  qed
qed

lemma bal_writeNewBlocks:
  "writeNewBlocks cfg md file uid n off r topA copied newLen s = (x, s1) \<Longrightarrow>
   unsyncedBalance p s1 = unsyncedBalance p s"
  by (auto simp: writeNewBlocks_def Let_def
      dest!: bal_createIndirectBlockLocked[where p=p] bal_newRightBlockLocked[where p=p]
      split: option.splits Block.splits if_splits sum.splits prod.splits list.splits)

lemma bal_writeStep:
  assumes "writeStep fuel cfg ctx md file uid siA data off w s = (x, s')"
  shows "unsyncedBalance p s' = unsyncedBalance p s"
proof -
  obtain x1 s1 where g1:
    "getFileBlockAtOffsetLocked fuel cfg ctx file (wsTop w) (off + wsCopied w) blockWrite s = (x1, s1)"
    by (cases "getFileBlockAtOffsetLocked fuel cfg ctx file (wsTop w) (off + wsCopied w) blockWrite s")
  note u1 = bal_getFileBlockAtOffsetLocked[OF g1]
  have u2: "unsyncedBalance p t' = unsyncedBalance p s1"
    if "writeNewBlocks cfg md file uid n off r topA copied newLen t = (y, t')"
      and "unsyncedBalance p t = unsyncedBalance p s1" for n r topA copied newLen t y t'
    using bal_writeNewBlocks[OF that(1)] that(2) by simp
  show ?thesis
    using assms g1 u1
    by (auto simp: writeStep_def Let_def dest!: u2
        split: option.splits Block.splits if_splits sum.splits prod.splits)
qed

lemma bal_writeLoop:
  "writeLoop k fuel cfg ctx md file uid siA data off w s = (x, s1) \<Longrightarrow>
   unsyncedBalance p s1 = unsyncedBalance p s"
proof (induction k arbitrary: w s)
  case 0
  then show ?case by (auto split: if_splits)
next
  case (Suc k)
  have step: "unsyncedBalance p s1 = unsyncedBalance p s"
    if "writeStep fuel cfg ctx md file uid siA data off w s = (Inr w1, t)"
      and "writeLoop k fuel cfg ctx md file uid siA data off w1 t = (x, s1)" for w1 t
    using Suc.IH[OF that(2)] bal_writeStep[OF that(1)] by simp
  from Suc.prems show ?case
    by (auto dest: bal_writeStep[where p=p] step split: if_splits sum.splits prod.splits)
qed

lemma bal_writeFinish:
  "writeFinish file siA oldSize data off w s = (x, s1) \<Longrightarrow> unsyncedBalance p s1 = unsyncedBalance p s"
  by (auto simp: writeFinish_def Let_def bal_addDeferredNewBytes
      split: option.splits Block.splits if_splits prod.splits)

lemma bal_writeDeferred [simp]:
  "unsyncedBalance (TailPointer file) (writeDeferred cfg file b s) = unsyncedBalance (TailPointer file) s"
  by (simp add: writeDeferred_def)

lemma bal_writeDataLocked:
  assumes "writeDataLocked fuel cfg ctx md file data off s = (x, s')"
  shows "unsyncedBalance (TailPointer file) s' = unsyncedBalance (TailPointer file) s"
proof (cases "nat ((off + int (length data)) mod 2 ^ 64) > MaxFileBytes cfg")
  case True
  then show ?thesis using assms by (simp add: writeDataLocked_def)
next
  case False
  obtain x1 s1 where g1: "writeGetFileLocked cfg ctx md file s = (x1, s1)"
    by (cases "writeGetFileLocked cfg ctx md file s")
  note u1 = bal_writeGetFileLocked[OF g1]
  show ?thesis
  proof (cases x1)
    case (Inl e)
    then show ?thesis using assms False g1 u1 by (simp add: writeDataLocked_def)
  next
    case (Inr tu)
    obtain topA uid where tu: "tu = (topA, uid)" by (cases tu)
    define s2 where "s2 = snd (getOrCreateDirtyFileLocked file s1)"
    have u2: "unsyncedBalance (TailPointer file) s2 = unsyncedBalance (TailPointer file) s" using u1 by (simp add: s2_def)
    obtain x3 s3 where g3: "getDirtyEntryLocked cfg ctx file s2 = (x3, s3)"
      by (cases "getDirtyEntryLocked cfg ctx file s2")
    have u3: "unsyncedBalance (TailPointer file) s3 = unsyncedBalance (TailPointer file) s" using bal_getDirtyEntryLocked[OF g3] u2 by simp
    show ?thesis
    proof (cases x3)
      case (Inl e)
      then show ?thesis using assms False g1 \<open>x1 = Inr tu\<close> tu g3 u3
        by (auto simp: writeDataLocked_def s2_def[symmetric])
    next
      case (Inr d)
      obtain siA s4 where g4: "getOrCreateSyncInfoLocked d s3 = (siA, s4)"
        by (cases "getOrCreateSyncInfoLocked d s3")
      have u4: "unsyncedBalance (TailPointer file) s4 = unsyncedBalance (TailPointer file) s" using bal_getOrCreateSyncInfoLocked[OF g4] u3 by simp
      obtain r5 w5 s5 where g5: "writeLoop fuel fuel cfg ctx md file uid siA data off
          \<lparr>wsCopied = 0, wsTop = topA, wsDe = d, wsDirty = [], wsBytes = 0\<rparr> s4 = ((r5, w5), s5)"
        by (cases "writeLoop fuel fuel cfg ctx md file uid siA data off
          \<lparr>wsCopied = 0, wsTop = topA, wsDe = d, wsDirty = [], wsBytes = 0\<rparr> s4") auto
      have u5: "unsyncedBalance (TailPointer file) s5 = unsyncedBalance (TailPointer file) s" using bal_writeLoop[OF g5] u4 by simp
      obtain x6 s6 where g6: "writeFinish file siA (Size d) data off w5 s5 = (x6, s6)"
        by (cases "writeFinish file siA (Size d) data off w5 s5")
      have u6: "unsyncedBalance (TailPointer file) s6 = unsyncedBalance (TailPointer file) s" using bal_writeFinish[OF g6] u5 by simp
      show ?thesis
        using assms False g1 \<open>x1 = Inr tu\<close> tu g3 Inr g4 g5 g6 u5 u6
        by (auto simp: writeDataLocked_def s2_def[symmetric] split: option.splits sum.splits)
    qed
  qed
qed

lemma bal_truncateShrink:
  assumes "truncateShrink cfg ctx file sz topA r s = (x, s')"
  shows "unsyncedBalance (TailPointer file) s' = unsyncedBalance (TailPointer file) s"
proof -
  obtain x1 s1 where g1: "getDirtyEntryLocked cfg ctx file s = (x1, s1)"
    by (cases "getDirtyEntryLocked cfg ctx file s")
  note u1 = bal_getDirtyEntryLocked[OF g1]
  have u2: "unsyncedBalance (TailPointer file) t' = unsyncedBalance (TailPointer file) s1"
    if "getOrCreateSyncInfoLocked d t = (a, t')" and "unsyncedBalance (TailPointer file) t = unsyncedBalance (TailPointer file) s1" for d t a t'
    using bal_getOrCreateSyncInfoLocked[OF that(1)] that(2) by simp
  show ?thesis
    using assms g1 u1
    by (auto simp: truncateShrink_def Let_def dest!: u2
        split: option.splits Block.splits if_splits sum.splits prod.splits)
qed

lemma bal_truncateLocked:
  assumes "truncateLocked fuel cfg ctx md file sz s = (x, s')"
  shows "unsyncedBalance (TailPointer file) s' = unsyncedBalance (TailPointer file) s"
proof -
  obtain x1 s1 where g1: "writeGetFileLocked cfg ctx md file s = (x1, s1)"
    by (cases "writeGetFileLocked cfg ctx md file s")
  note u1 = bal_writeGetFileLocked[OF g1]
  show ?thesis
  proof (cases x1)
    case (Inl e)
    then show ?thesis using assms g1 u1 by (simp add: truncateLocked_def)
  next
    case (Inr tu)
    obtain topA uid where tu: "tu = (topA, uid)" by (cases tu)
    obtain x2 s2 where g2:
      "getFileBlockAtOffsetLocked fuel cfg ctx file topA (int64 (int sz)) blockWrite s1 = (x2, s2)"
      by (cases "getFileBlockAtOffsetLocked fuel cfg ctx file topA (int64 (int sz)) blockWrite s1")
    have u2: "unsyncedBalance (TailPointer file) s2 = unsyncedBalance (TailPointer file) s" using bal_getFileBlockAtOffsetLocked[OF g2] u1 by simp
    have a: "unsyncedBalance (TailPointer file) t' = unsyncedBalance (TailPointer file) s" if "truncateExtendLocked cfg ctx md file n s2 = (y, t')" for n y t'
      using bal_truncateExtendLocked[OF that] u2 by simp
    have b: "unsyncedBalance (TailPointer file) t' = unsyncedBalance (TailPointer file) s" if "writeDataLocked fuel cfg ctx md file d o' s2 = (y, t')" for d o' y t'
      using bal_writeDataLocked[OF that] u2 by simp
    have c: "unsyncedBalance (TailPointer file) t' = unsyncedBalance (TailPointer file) s" if "truncateShrink cfg ctx file sz topA r s2 = (y, t')" for r y t'
      using bal_truncateShrink[OF that] u2 by simp
    show ?thesis
      using assms g1 Inr tu g2 u2
      by (auto simp: truncateLocked_def dest: a b c
          split: option.splits Block.splits if_splits sum.splits prod.splits)
  qed
qed

lemma pathFromNode_is:
  "pathFromNodeForBlockWriteLocked cfg node = Inr f \<Longrightarrow> f = PathFromNode cfg node"
  by (auto simp: pathFromNodeForBlockWriteLocked_def split: if_splits)

lemma bal_maybeWaitOnDeferredWrites:
  assumes "maybeWaitOnDeferredWrites cfg node waited s = (x, s1)"
  shows "unsyncedBalance p s1 = unsyncedBalance p s"
proof (cases "pathFromNodeForBlockWriteLocked cfg node")
  case (Inl e)
  then show ?thesis using assms by (simp add: maybeWaitOnDeferredWrites_def)
next
  case (Inr f)
  obtain df t where g: "getOrCreateDirtyFileLocked f s = (df, t)"
    by (cases "getOrCreateDirtyFileLocked f s")
  have "unsyncedBalance p t = unsyncedBalance p s"
    using bal_getOrCreateDirtyFileLocked[of p f s] g by simp
  then show ?thesis
    using assms Inr g by (auto simp: maybeWaitOnDeferredWrites_def bal_addErrListener)
qed

lemma bal_WriteBody:
  assumes "WriteBody fuel cfg ctx md node data off waited S = (x, S')"
  shows "unsyncedBalance (TailPointer (PathFromNode cfg node)) (core S') = unsyncedBalance (TailPointer (PathFromNode cfg node)) (core S)"
proof -
  obtain x1 s1 where g1: "maybeWaitOnDeferredWrites cfg node waited (core S) = (x1, s1)"
    by (cases "maybeWaitOnDeferredWrites cfg node waited (core S)")
  note u1 = bal_maybeWaitOnDeferredWrites[OF g1]
  have b: "unsyncedBalance (TailPointer (PathFromNode cfg node)) t' = unsyncedBalance (TailPointer (PathFromNode cfg node)) (core S)"
    if "writeDataLocked fuel cfg ctx md (PathFromNode cfg node) data off s1 = (y, t')" for y t'
    using bal_writeDataLocked[OF that] u1 by simp
  show ?thesis
    using assms g1 u1
    by (auto simp: WriteBody_def deferIfSyncing_def dest: b dest!: pathFromNode_is
        split: option.splits sum.splits prod.splits if_splits)
qed

lemma bal_TruncateBody:
  assumes "TruncateBody fuel cfg ctx md node sz waited S = (x, S')"
  shows "unsyncedBalance (TailPointer (PathFromNode cfg node)) (core S') = unsyncedBalance (TailPointer (PathFromNode cfg node)) (core S)"
proof -
  obtain x1 s1 where g1: "maybeWaitOnDeferredWrites cfg node waited (core S) = (x1, s1)"
    by (cases "maybeWaitOnDeferredWrites cfg node waited (core S)")
  note u1 = bal_maybeWaitOnDeferredWrites[OF g1]
  have b: "unsyncedBalance (TailPointer (PathFromNode cfg node)) t' = unsyncedBalance (TailPointer (PathFromNode cfg node)) (core S)"
    if "truncateLocked fuel cfg ctx md (PathFromNode cfg node) sz s1 = (y, t')" for y t'
    using bal_truncateLocked[OF that] u1 by simp
  show ?thesis
    using assms g1 u1
    by (auto simp: TruncateBody_def deferIfSyncing_def dest: b dest!: pathFromNode_is
        split: option.splits sum.splits prod.splits if_splits)
qed

text \<open>
  Claim C10.  When the dirty cache admits the bytes of a \<open>Write\<close> (the length of the
  data) or of a \<open>Truncate\<close> (the size, below \<open>2^63\<close> so that it is itself as an
  \<open>int64\<close>), the unsynced-bytes counter after the operation is the counter at the end of
  the operation's body minus those bytes, whatever the body returned: nil, an error of the
  wait, of the path, of the write itself, a panic, or a deferral.  The body changes the
  counter only by what the file's tracker records as bytes not yet syncing, so the counter
  beyond the tracker's bytes is what admission left minus the admitted bytes.  When
  admission refuses, the error is returned and nothing is subtracted.
\<close>

theorem Write_Truncate_refund:
  "(RequestPermissionToDirty cfg (int (length data)) (core S) = (None, s0) \<longrightarrow>
      unsyncedBytes (core (snd (Write fuel cfg ctx md node data off waited S))) =
        unsyncedBytes (core (snd (WriteBody fuel cfg ctx md node data off waited (S\<lparr>core := s0\<rparr>))))
          - int (length data) \<and>
      unsyncedBalance (TailPointer (PathFromNode cfg node))
          (core (snd (Write fuel cfg ctx md node data off waited S))) =
        unsyncedBalance (TailPointer (PathFromNode cfg node)) s0 - int (length data)) \<and>
   (sz < 2 ^ 63 \<and> RequestPermissionToDirty cfg (int sz) (core S) = (None, t0) \<longrightarrow>
      unsyncedBytes (core (snd (Truncate fuel cfg ctx md node sz waited S))) =
        unsyncedBytes (core (snd (TruncateBody fuel cfg ctx md node sz waited (S\<lparr>core := t0\<rparr>))))
          - int sz \<and>
      unsyncedBalance (TailPointer (PathFromNode cfg node))
          (core (snd (Truncate fuel cfg ctx md node sz waited S))) =
        unsyncedBalance (TailPointer (PathFromNode cfg node)) t0 - int sz) \<and>
   (RequestPermissionToDirty cfg (int (length data)) (core S) = (Some e, s0) \<longrightarrow>
      Write fuel cfg ctx md node data off waited S = (Some e, S\<lparr>core := s0\<rparr>)) \<and>
   (RequestPermissionToDirty cfg (int64 (int sz)) (core S) = (Some e, t0) \<longrightarrow>
      Truncate fuel cfg ctx md node sz waited S = (Some e, S\<lparr>core := t0\<rparr>))"
proof (intro conjI impI)
  assume a: "RequestPermissionToDirty cfg (int (length data)) (core S) = (None, s0)"
  obtain x S1 where b: "WriteBody fuel cfg ctx md node data off waited (S\<lparr>core := s0\<rparr>) = (x, S1)"
    by (cases "WriteBody fuel cfg ctx md node data off waited (S\<lparr>core := s0\<rparr>)")
  show "unsyncedBytes (core (snd (Write fuel cfg ctx md node data off waited S))) =
        unsyncedBytes (core (snd (WriteBody fuel cfg ctx md node data off waited (S\<lparr>core := s0\<rparr>))))
          - int (length data)"
    using a b by (simp add: Write_def UpdateUnsyncedBytes_def)
  have "unsyncedBalance (TailPointer (PathFromNode cfg node)) (core S1) =
        unsyncedBalance (TailPointer (PathFromNode cfg node)) s0"
    using bal_WriteBody[OF b] by simp
  then show "unsyncedBalance (TailPointer (PathFromNode cfg node))
          (core (snd (Write fuel cfg ctx md node data off waited S))) =
        unsyncedBalance (TailPointer (PathFromNode cfg node)) s0 - int (length data)"
    using a b by (simp add: Write_def UpdateUnsyncedBytes_def unsyncedBalance_def notYetSyncing_def)
next
  assume a: "sz < 2 ^ 63 \<and> RequestPermissionToDirty cfg (int sz) (core S) = (None, t0)"
  then have i: "int64 (int sz) = int sz" by (simp add: int64_def)
  have j: "int64 (- int sz) = - int sz" using a by (simp add: int64_def)
  obtain x S1 where b: "TruncateBody fuel cfg ctx md node sz waited (S\<lparr>core := t0\<rparr>) = (x, S1)"
    by (cases "TruncateBody fuel cfg ctx md node sz waited (S\<lparr>core := t0\<rparr>)")
  show "unsyncedBytes (core (snd (Truncate fuel cfg ctx md node sz waited S))) =
        unsyncedBytes (core (snd (TruncateBody fuel cfg ctx md node sz waited (S\<lparr>core := t0\<rparr>))))
          - int sz"
    using a b i j by (simp add: Truncate_def UpdateUnsyncedBytes_def)
  have "unsyncedBalance (TailPointer (PathFromNode cfg node)) (core S1) =
        unsyncedBalance (TailPointer (PathFromNode cfg node)) t0"
    using bal_TruncateBody[OF b] by simp
  then show "unsyncedBalance (TailPointer (PathFromNode cfg node))
          (core (snd (Truncate fuel cfg ctx md node sz waited S))) =
        unsyncedBalance (TailPointer (PathFromNode cfg node)) t0 - int sz"
    using a b i j by (simp add: Truncate_def UpdateUnsyncedBytes_def unsyncedBalance_def notYetSyncing_def)
next
  assume "RequestPermissionToDirty cfg (int (length data)) (core S) = (Some e, s0)"
  then show "Write fuel cfg ctx md node data off waited S = (Some e, S\<lparr>core := s0\<rparr>)"
    by (simp add: Write_def)
next
  assume "RequestPermissionToDirty cfg (int64 (int sz)) (core S) = (Some e, t0)"
  then show "Truncate fuel cfg ctx md node sz waited S = (Some e, S\<lparr>core := t0\<rparr>)"
    by (simp add: Truncate_def)
qed

lemma C10_write:
  "fst (Write 1 wholeBlockConfig None exMD 2 [1, 2, 3] 1 None oneByteFolder) = None \<and>
   unsyncedBytes (core (snd (Write 1 wholeBlockConfig None exMD 2 [1, 2, 3] 1 None oneByteFolder))) = 4 \<and>
   notYetSyncing (exPtr 2)
     (core (snd (Write 1 wholeBlockConfig None exMD 2 [1, 2, 3] 1 None oneByteFolder))) = 4"
  by (simp add: all_defs write_data_defs)

lemma C10_fails:
  "fst (Write 1 exConfig None exMD 2 [1, 2, 3] 0 None emptyFolder) = Some (Failed (ExternalError 1))"
  by (simp add: all_defs write_data_defs)

text \<open>
  A write of three bytes at offset 1 of the one-byte file, under the splitter that never
  splits: it succeeds, the tracker and the cache both count the four bytes of the block
  as newly dirtied, and the three admitted bytes are gone.  The same write to a file whose
  block cannot be fetched fails after admission, and a truncate to 500 likewise: the
  counter is back where it was.
\<close>

theorem Write_Truncate_refund_witness:
  "fst (Write 1 wholeBlockConfig None exMD 2 [1, 2, 3] 1 None oneByteFolder) = None \<and>
   unsyncedBytes (core (snd (Write 1 wholeBlockConfig None exMD 2 [1, 2, 3] 1 None oneByteFolder))) = 4 \<and>
   notYetSyncing (exPtr 2)
     (core (snd (Write 1 wholeBlockConfig None exMD 2 [1, 2, 3] 1 None oneByteFolder))) = 4 \<and>
   unsyncedBalance (exPtr 2)
     (core (snd (Write 1 wholeBlockConfig None exMD 2 [1, 2, 3] 1 None oneByteFolder))) = 0 \<and>
   fst (Write 1 exConfig None exMD 2 [1, 2, 3] 0 None emptyFolder) = Some (Failed (ExternalError 1)) \<and>
   unsyncedBalance (exPtr 2)
     (core (snd (Write 1 exConfig None exMD 2 [1, 2, 3] 0 None emptyFolder))) = 0 \<and>
   unsyncedBalance (exPtr 2)
     (core (snd (Truncate 1 exConfig None exMD 2 500 None emptyFolder))) = 0"
proof -
  note T = Write_Truncate_refund[where cfg=wholeBlockConfig and data="[1, 2, 3]" and S=oneByteFolder
      and ?s0.0="UpdateUnsyncedBytes 3 False (core oneByteFolder)" and fuel=1 and ctx=None and md=exMD
      and node=2 and off=1 and waited=None and sz=500
      and ?t0.0="UpdateUnsyncedBytes 500 False (core oneByteFolder)"]
  note U = Write_Truncate_refund[where cfg=exConfig and data="[1, 2, 3]" and S=emptyFolder
      and ?s0.0="UpdateUnsyncedBytes 3 False emptyFbo" and fuel=1 and ctx=None and md=exMD
      and node=2 and off=0 and waited=None and sz=500
      and ?t0.0="UpdateUnsyncedBytes 500 False emptyFbo"]
  have p: "TailPointer (PathFromNode wholeBlockConfig 2) = exPtr 2"
    "TailPointer (PathFromNode exConfig 2) = exPtr 2"
    by (simp_all add: wholeBlockConfig_def exConfig_def exPath_def TailPointer_def)
  have h1: "RequestPermissionToDirty wholeBlockConfig (int (length [1::byte, 2, 3])) (core oneByteFolder) =
      (None, UpdateUnsyncedBytes 3 False (core oneByteFolder))"
    by (simp add: wholeBlockConfig_def exConfig_def)
  have h2: "RequestPermissionToDirty exConfig (int (length [1::byte, 2, 3])) (core emptyFolder) =
      (None, UpdateUnsyncedBytes 3 False emptyFbo)"
    by (simp add: exConfig_def emptyFolder_def)
  have h3: "(500::nat) < 2 ^ 63 \<and> RequestPermissionToDirty exConfig (int 500) (core emptyFolder) =
      (None, UpdateUnsyncedBytes 500 False emptyFbo)"
    by (simp add: exConfig_def emptyFolder_def)
  have a: "unsyncedBalance (exPtr 2)
       (core (snd (Write 1 wholeBlockConfig None exMD 2 [1, 2, 3] 1 None oneByteFolder))) =
      unsyncedBalance (exPtr 2) (UpdateUnsyncedBytes 3 False (core oneByteFolder)) - int (length [1::byte, 2, 3])"
    using T h1 unfolding p by blast
  have b: "unsyncedBalance (exPtr 2)
       (core (snd (Write 1 exConfig None exMD 2 [1, 2, 3] 0 None emptyFolder))) =
      unsyncedBalance (exPtr 2) (UpdateUnsyncedBytes 3 False emptyFbo) - int (length [1::byte, 2, 3])"
    using U h2 unfolding p by blast
  have c: "unsyncedBalance (exPtr 2)
       (core (snd (Truncate 1 exConfig None exMD 2 500 None emptyFolder))) =
      unsyncedBalance (exPtr 2) (UpdateUnsyncedBytes 500 False emptyFbo) - int 500"
    using U h3 unfolding p by blast
  have z: "unsyncedBalance (exPtr 2) (UpdateUnsyncedBytes 3 False (core oneByteFolder)) = 3"
    "unsyncedBalance (exPtr 2) (UpdateUnsyncedBytes 3 False emptyFbo) = 3"
    "unsyncedBalance (exPtr 2) (UpdateUnsyncedBytes 500 False emptyFbo) = 500"
    by (simp_all add: unsyncedBalance_def notYetSyncing_def UpdateUnsyncedBytes_def oneByteFolder_def
        emptyFolder_def emptyFbo_def)
  show ?thesis
    unfolding a b c z using C10_write C10_fails by simp
qed

section \<open>Theorems: truncating a file with a hole\<close>

text \<open>
  Claim C7, on the file with a hole.  The file of size 1000000 has its one byte at offset
  0 and an empty block at offset 1000000.  \<open>Truncate\<close> to 500000 finds the leaf at
  offset 0, takes the new size for a growth beyond the cutoff and extends with a hole: the
  size becomes 500000 and a pointer at offset 500000 is appended after the one at
  1000000.  The same call again succeeds again and appends another pointer at 500000: the
  size is unchanged, the pointer list is not.
\<close>

theorem Truncate_twice_appends_again:
  "fst (Truncate 1 exConfig None exMD 2 1000000 None oneByteFolder) = None \<and>
   fst (Truncate 1 exConfig None exMD 2 500000 None C7_holed) = None \<and>
   fst (Truncate 1 exConfig None exMD 2 500000 None C7_once) = None \<and>
   map_option (\<lambda>(n, ps). (n, map Off ps)) (fileShape (exPath 2) (core C7_holed)) =
     Some (1000000, [0, 1000000]) \<and>
   map_option (\<lambda>(n, ps). (n, map Off ps)) (fileShape (exPath 2) (core C7_once)) =
     Some (500000, [0, 1000000, 500000]) \<and>
   map_option (\<lambda>(n, ps). (n, map Off ps)) (fileShape (exPath 2) (core C7_twice)) =
     Some (500000, [0, 1000000, 500000, 500000])"
  by (simp add: C7_twice_def C7_once_def C7_holed_def all_defs)

section \<open>Theorems: the replayed writes leave a foreign pointer alone\<close>

lemma avoids_upd:
  "avoids q bl \<Longrightarrow> blockAvoids q b \<Longrightarrow> avoids q (bl(a \<mapsto> b))"
  by (simp add: avoids_def)

lemma avoids_copy:
  "avoids q bl \<Longrightarrow> avoids q (bl(a := bl a'))"
  by (auto simp: avoids_def)

lemma avoids_file:
  "avoids q bl \<Longrightarrow> bl a = Some (FileBlk fb) \<Longrightarrow> list_all (\<lambda>ip. BlockPtr (Info ip) \<noteq> q) (IPtrs fb)"
proof -
  assume a: "avoids q bl" and b: "bl a = Some (FileBlk fb)"
  from a b have "blockAvoids q (FileBlk fb)" unfolding avoids_def by blast
  then show ?thesis by (simp add: blockAvoids_def)
qed

lemma avoids_ptr:
  "avoids q bl \<Longrightarrow> bl a = Some (FileBlk fb) \<Longrightarrow> ip \<in> set (IPtrs fb) \<Longrightarrow> BlockPtr (Info ip) \<noteq> q"
  using avoids_file[of q bl a fb] by (auto simp: list_all_iff)

lemma cl_getOrCreateDirtyFileLocked [simp]:
  "clean cfg q br (snd (getOrCreateDirtyFileLocked file s)) = clean cfg q br s"
  by (simp add: getOrCreateDirtyFileLocked_def clean_def split: option.splits)

lemma cl_onDirtyFile [simp]: "clean cfg q br (onDirtyFile file f s) = clean cfg q br s"
  by (simp add: onDirtyFile_def clean_def split: option.splits)

lemma cl_updateNotYetSyncingBytes [simp]:
  "clean cfg q br (updateNotYetSyncingBytes file d s) = clean cfg q br s"
  by (simp add: updateNotYetSyncingBytes_def UpdateUnsyncedBytes_def clean_def split: option.splits)

lemma cl_maybeForceSync [simp]: "clean cfg q br (maybeForceSync cfg s) = clean cfg q br s"
  by (simp add: maybeForceSync_def clean_def)

lemma cl_fields [simp]:
  "clean cfg q br (s\<lparr>nextBlock := n\<rparr>) = clean cfg q br s"
  "clean cfg q br (s\<lparr>syncInfos := i\<rparr>) = clean cfg q br s"
  "clean cfg q br (s\<lparr>nextInfo := n\<rparr>) = clean cfg q br s"
  "clean cfg q br (s\<lparr>unrefCache := u\<rparr>) = clean cfg q br s"
  "clean cfg q br (s\<lparr>deCache := c\<rparr>) = clean cfg q br s"
  "clean cfg q br (s\<lparr>bcache := bc\<rparr>) = clean cfg q br s"
  "clean cfg q br (s\<lparr>forceSyncSent := fs\<rparr>) = clean cfg q br s"
  "clean cfg q br (s\<lparr>doDeferWrite := dw\<rparr>) = clean cfg q br s"
  "clean cfg q br (s\<lparr>dirtyFiles := dfs\<rparr>) = clean cfg q br s"
  "clean cfg q br (s\<lparr>unsyncedBytes := ub\<rparr>) = clean cfg q br s"
  by (simp_all add: clean_def)

lemma freshFrom_mono:
  assumes "freshFrom cfg q k" and "k \<le> k'"
  shows "freshFrom cfg q k'"
  unfolding freshFrom_def
proof (intro allI impI)
  fix n i
  assume "k' \<le> n" and c: "Crypto_MakeTemporaryBlockID cfg n = Inr i"
  then have "k \<le> n" using assms(2) by simp
  then show "i \<noteq> ID q" using assms(1) c unfolding freshFrom_def by blast
qed

lemma freshFrom_Suc [simp]: "freshFrom cfg q k \<Longrightarrow> freshFrom cfg q (Suc k)"
  by (erule freshFrom_mono) simp

lemma freshFrom_ID:
  assumes "freshFrom cfg q k" and "Crypto_MakeTemporaryBlockID cfg k = Inr i"
  shows "i \<noteq> ID q"
proof -
  have "k \<le> k" by simp
  then show ?thesis using assms unfolding freshFrom_def by blast
qed

lemma cl_temp:
  "clean cfg q br s \<Longrightarrow> clean cfg q br (s\<lparr>tempIDsMade := Suc (tempIDsMade s)\<rparr>)"
  by (simp add: clean_def)

lemma cl_blocks_upd:
  "clean cfg q br s \<Longrightarrow> blockAvoids q b \<Longrightarrow> clean cfg q br (s\<lparr>blocks := (blocks s)(a \<mapsto> b)\<rparr>)"
  by (simp add: clean_def avoids_upd)

lemma cl_blocks_copy:
  "clean cfg q br s \<Longrightarrow> clean cfg q br (s\<lparr>blocks := (blocks s)(a := blocks s a')\<rparr>)"
  by (simp add: clean_def avoids_copy)

lemma cl_cacheBlockIfNotYetDirtyLocked:
  "p \<noteq> q \<Longrightarrow> clean cfg q br (cacheBlockIfNotYetDirtyLocked p file a s) = clean cfg q br s"
  by (simp add: cacheBlockIfNotYetDirtyLocked_def getOrCreateDirtyFileLocked_def
      DirtyBcache_Put_def Let_def setBlockDirty_def clean_def split: option.splits prod.splits)

lemma cl_file:
  "clean cfg q br s \<Longrightarrow> blocks s a = Some (FileBlk fb) \<Longrightarrow>
   list_all (\<lambda>ip. BlockPtr (Info ip) \<noteq> q) (IPtrs fb)"
  by (auto simp: clean_def dest: avoids_file)

lemma cl_ptr:
  "clean cfg q br s \<Longrightarrow> blocks s a = Some (FileBlk fb) \<Longrightarrow> ip \<in> set (IPtrs fb) \<Longrightarrow>
   BlockPtr (Info ip) \<noteq> q"
  by (auto simp: clean_def dest: avoids_ptr)

lemma cl_getBlockHelperLocked:
  "getBlockHelperLocked cfg ctx p b dc s = (x, s1) \<Longrightarrow> configAvoids q cfg \<Longrightarrow> clean cfg q br s \<Longrightarrow>
   clean cfg q br s1"
  by (auto simp: getBlockHelperLocked_def BlockCache_Put_def Let_def configAvoids_def
      intro!: cl_blocks_upd split: option.splits sum.splits if_splits)

lemma cl_getFileBlockHelperLocked:
  "getFileBlockHelperLocked cfg ctx p b s = (x, s1) \<Longrightarrow> configAvoids q cfg \<Longrightarrow> clean cfg q br s \<Longrightarrow>
   clean cfg q br s1"
  by (auto simp: getFileBlockHelperLocked_def dest: cl_getBlockHelperLocked[where q=q and br=br]
      split: prod.splits sum.splits option.splits Block.splits)

lemma cl_getFileBlockLocked:
  "getFileBlockLocked cfg ctx p file rtype s = (x, s1) \<Longrightarrow> configAvoids q cfg \<Longrightarrow> clean cfg q br s \<Longrightarrow>
   clean cfg q br s1"
  by (auto simp: getFileBlockLocked_def deepCopyBlock_def intro!: cl_blocks_copy
      dest: cl_getFileBlockHelperLocked[where q=q and br=br]
      split: prod.splits sum.splits option.splits if_splits)

lemma cl_getFileLocked:
  "getFileLocked cfg ctx file rtype s = (x, s1) \<Longrightarrow> configAvoids q cfg \<Longrightarrow> clean cfg q br s \<Longrightarrow>
   clean cfg q br s1"
  by (auto simp: getFileLocked_def dest: cl_getFileBlockLocked[where q=q and br=br] split: if_splits)

lemma proj_cache [simp]:
  "blocks (cacheBlockIfNotYetDirtyLocked p file a s) = blocks s"
  "syncInfos (cacheBlockIfNotYetDirtyLocked p file a s) = syncInfos s"
  "tempIDsMade (cacheBlockIfNotYetDirtyLocked p file a s) = tempIDsMade s"
  "p \<noteq> q \<Longrightarrow> dirtyBcache (cacheBlockIfNotYetDirtyLocked p file a s) (q, br) = dirtyBcache s (q, br)"
  by (simp_all add: cacheBlockIfNotYetDirtyLocked_def getOrCreateDirtyFileLocked_def
      DirtyBcache_Put_def Let_def setBlockDirty_def split: option.splits prod.splits)

lemma proj_maybeForceSync [simp]:
  "blocks (maybeForceSync cfg s) = blocks s"
  "tempIDsMade (maybeForceSync cfg s) = tempIDsMade s"
  "dirtyBcache (maybeForceSync cfg s) = dirtyBcache s"
  by (simp_all add: maybeForceSync_def)

lemma proj_onDirtyFile [simp]:
  "blocks (onDirtyFile file f s) = blocks s"
  "syncInfos (onDirtyFile file f s) = syncInfos s"
  "tempIDsMade (onDirtyFile file f s) = tempIDsMade s"
  "dirtyBcache (onDirtyFile file f s) = dirtyBcache s"
  by (simp_all add: onDirtyFile_def split: option.splits)

lemma proj_updateNotYetSyncingBytes [simp]:
  "blocks (updateNotYetSyncingBytes file d s) = blocks s"
  "syncInfos (updateNotYetSyncingBytes file d s) = syncInfos s"
  "tempIDsMade (updateNotYetSyncingBytes file d s) = tempIDsMade s"
  "dirtyBcache (updateNotYetSyncingBytes file d s) = dirtyBcache s"
  by (simp_all add: updateNotYetSyncingBytes_def UpdateUnsyncedBytes_def split: option.splits)

lemma proj_getOrCreateDirtyFileLocked [simp]:
  "blocks (snd (getOrCreateDirtyFileLocked file s)) = blocks s"
  "syncInfos (snd (getOrCreateDirtyFileLocked file s)) = syncInfos s"
  "tempIDsMade (snd (getOrCreateDirtyFileLocked file s)) = tempIDsMade s"
  "dirtyBcache (snd (getOrCreateDirtyFileLocked file s)) = dirtyBcache s"
  by (simp_all add: getOrCreateDirtyFileLocked_def split: option.splits)

lemma avoids_upd_iff [simp]:
  "avoids q bl \<Longrightarrow> avoids q (bl(a \<mapsto> b)) = blockAvoids q b"
  by (auto simp: avoids_def)

lemma blockAvoids_FileBlk:
  "blockAvoids q (FileBlk fb) = list_all (\<lambda>ip. BlockPtr (Info ip) \<noteq> q) (IPtrs fb)"
  by (simp add: blockAvoids_def)

lemma findNextIndex_range:
  "findNextIndex ps off i = Some k \<Longrightarrow> i - 1 \<le> k \<and> k < i + int (length ps)"
proof (induction ps arbitrary: i)
  case Nil
  then show ?case by simp
next
  case (Cons a ps)
  show ?case
  proof (cases "Off a = off \<or> Off a > off")
    case True
    then show ?thesis using Cons.prems by (auto split: if_splits)
  next
    case False
    then have "findNextIndex ps off (i + 1) = Some k" using Cons.prems by simp
    from Cons.IH[OF this] show ?thesis by simp
  qed
qed

lemma descendStep_ptr:
  assumes "descendStep fb off r = Inr r1"
    and "list_all (\<lambda>ip. BlockPtr (Info ip) \<noteq> q) (IPtrs fb)"
  shows "aoPtr r1 \<noteq> q"
proof -
  define k where "k = (case findNextIndex (IPtrs fb) off 0 of
                         None \<Rightarrow> int (length (IPtrs fb)) - 1 | Some i \<Rightarrow> i)"
  have k0: "0 \<le> k" and r1: "aoPtr r1 = BlockPtr (Info (IPtrs fb ! nat k))"
    using assms(1) by (auto simp: descendStep_def Let_def k_def[symmetric] split: if_splits)
  have "k < int (length (IPtrs fb))"
  proof (cases "findNextIndex (IPtrs fb) off 0")
    case None
    then show ?thesis by (simp add: k_def)
  next
    case (Some i)
    then show ?thesis using findNextIndex_range[OF Some] by (simp add: k_def)
  qed
  then have "nat k < length (IPtrs fb)" using k0 by simp
  then have "IPtrs fb ! nat k \<in> set (IPtrs fb)" by simp
  then show ?thesis using assms(2) r1 by (auto simp: list_all_iff)
qed

lemma cl_descend:
  "descend fuel cfg ctx file rtype off r s = (x, s1) \<Longrightarrow> configAvoids q cfg \<Longrightarrow> clean cfg q br s \<Longrightarrow>
   aoPtr r \<noteq> q \<Longrightarrow> clean cfg q br s1 \<and> (\<forall>r'. x = Inr r' \<longrightarrow> aoPtr r' \<noteq> q)"
proof (induction fuel arbitrary: r s)
  case 0
  then show ?case by (auto split: option.splits Block.splits if_splits)
next
  case (Suc k)
  show ?case
  proof (cases "blocks s (aoBlock r)")
    case None
    then show ?thesis using Suc.prems by auto
  next
    case (Some blk)
    show ?thesis
    proof (cases blk)
      case (FileBlk fb)
      show ?thesis
      proof (cases "IsInd fb")
        case False
        then show ?thesis using Suc.prems Some FileBlk by auto
      next
        case True
        show ?thesis
        proof (cases "descendStep fb off r")
          case (Inl e)
          then show ?thesis using Suc.prems Some FileBlk True by auto
        next
          case (Inr r1)
          have p1: "aoPtr r1 \<noteq> q"
            using descendStep_ptr[OF Inr] cl_file[OF Suc.prems(3)] Some FileBlk by simp
          obtain y t where g: "getFileBlockLocked cfg ctx (aoPtr r1) file rtype s = (y, t)"
            by (cases "getFileBlockLocked cfg ctx (aoPtr r1) file rtype s")
          have ct: "clean cfg q br t" using cl_getFileBlockLocked[OF g Suc.prems(2,3)] .
          show ?thesis
          proof (cases y)
            case (Inl e)
            then show ?thesis using Suc.prems(1) Some FileBlk True Inr g ct by auto
          next
            case a: (Inr a)
            have d: "descend k cfg ctx file rtype off (r1\<lparr>aoBlock := a\<rparr>) t = (x, s1)"
              using Suc.prems(1) Some FileBlk True Inr g a by simp
            show ?thesis using Suc.IH[OF d Suc.prems(2) ct] p1 by simp
          qed
        qed
      qed
    qed (use Suc.prems Some in auto)
  qed
qed

lemma cl_getFileBlockAtOffsetLocked:
  "getFileBlockAtOffsetLocked fuel cfg ctx file topA off rtype s = (x, s1) \<Longrightarrow>
   configAvoids q cfg \<Longrightarrow> clean cfg q br s \<Longrightarrow> TailPointer file \<noteq> q \<Longrightarrow>
   clean cfg q br s1 \<and> (\<forall>r'. x = Inr r' \<longrightarrow> aoPtr r' \<noteq> q)"
  by (auto simp: getFileBlockAtOffsetLocked_def dest!: cl_descend[where q=q and br=br]
      split: if_splits)

lemma cl_writeGetFileLocked:
  "writeGetFileLocked cfg ctx md file s = (x, s1) \<Longrightarrow> configAvoids q cfg \<Longrightarrow> clean cfg q br s \<Longrightarrow>
   clean cfg q br s1"
  by (auto simp: writeGetFileLocked_def dest: cl_getFileLocked[where q=q and br=br]
      split: sum.splits if_splits prod.splits)

lemma ptr_ID: "ID p \<noteq> ID q \<Longrightarrow> p \<noteq> q"
  by auto

lemma cl_createIndirectBlockLocked:
  assumes "createIndirectBlockLocked cfg md file uid dver s = (x, s1)"
    and "configAvoids q cfg" and "clean cfg q br s" and "TailPointer file \<noteq> q"
  shows "clean cfg q br s1"
proof (cases "Crypto_MakeTemporaryBlockID cfg (tempIDsMade s)")
  case (Inl e)
  then show ?thesis using assms by (simp add: createIndirectBlockLocked_def)
next
  case (Inr newID)
  have n: "newID \<noteq> ID q" using assms(3) Inr by (auto simp: clean_def dest: freshFrom_ID)
  let ?ptr = "\<lparr>ID = newID, KeyGen = LatestKeyGeneration md, DataVer = dver, Creator = uid, RefNonce = 0\<rparr>"
  have pq: "?ptr \<noteq> q" using n by (intro ptr_ID) simp
  let ?fb = "\<lparr>IsInd = True, Contents = [],
               IPtrs = [\<lparr>Info = \<lparr>BlockPtr = ?ptr, EncodedSize = 0\<rparr>, Off = 0, Holes = False\<rparr>]\<rparr>"
  have ba: "blockAvoids q (FileBlk ?fb)" using pq by (simp add: blockAvoids_def)
  have c1: "clean cfg q br (s\<lparr>tempIDsMade := Suc (tempIDsMade s),
      blocks := (blocks s)(nextBlock s \<mapsto> FileBlk ?fb), nextBlock := Suc (nextBlock s)\<rparr>)"
    using cl_blocks_upd[OF assms(3) ba, of "nextBlock s"] by (simp add: clean_def)
  show ?thesis
    using assms(1) Inr c1 assms(4)
    by (auto simp: createIndirectBlockLocked_def Let_def cl_cacheBlockIfNotYetDirtyLocked)
qed

lemma cl_newRightBlockLocked:
  assumes "newRightBlockLocked cfg md p file pblock off s = (x, s1)"
    and "configAvoids q cfg" and "clean cfg q br s" and "p \<noteq> q"
  shows "clean cfg q br s1"
proof (cases "Crypto_MakeTemporaryBlockID cfg (tempIDsMade s)")
  case (Inl e)
  then show ?thesis using assms by (simp add: newRightBlockLocked_def)
next
  case (Inr newRID)
  have n: "newRID \<noteq> ID q" using assms(3) Inr by (auto simp: clean_def dest: freshFrom_ID)
  show ?thesis
  proof (cases "KBPKI_GetCurrentUserInfo cfg")
    case (Inl e)
    then show ?thesis using assms \<open>Crypto_MakeTemporaryBlockID cfg (tempIDsMade s) = Inr newRID\<close>
      by (auto simp: newRightBlockLocked_def Let_def intro: cl_temp)
  next
    case u: (Inr uid)
    let ?ptr = "\<lparr>ID = newRID, KeyGen = LatestKeyGeneration md,
                  DataVer = DefaultNewBlockDataVersion cfg False, Creator = uid, RefNonce = 0\<rparr>"
    have pq: "?ptr \<noteq> q" using n by (intro ptr_ID) simp
    show ?thesis
    proof (cases "blocks s pblock")
      case None
      then show ?thesis using assms Inr u by (auto simp: newRightBlockLocked_def Let_def intro: cl_temp)
    next
      case (Some blk)
      show ?thesis
      proof (cases blk)
        case (FileBlk pb)
        have l: "list_all (\<lambda>ip. BlockPtr (Info ip) \<noteq> q) (IPtrs pb)"
          using cl_file[OF assms(3)] Some FileBlk by simp
        let ?pb = "pb\<lparr>IPtrs := IPtrs pb @ [\<lparr>Info = \<lparr>BlockPtr = ?ptr, EncodedSize = 0\<rparr>, Off = off, Holes = False\<rparr>]\<rparr>"
        have b1: "blockAvoids q (FileBlk \<lparr>IsInd = False, Contents = [], IPtrs = []\<rparr>)"
          by (simp add: blockAvoids_def)
        have b2: "blockAvoids q (FileBlk ?pb)" using l pq by (simp add: blockAvoids_def)
        have c0: "clean cfg q br (s\<lparr>tempIDsMade := Suc (tempIDsMade s)\<rparr>)" using assms(3) by (rule cl_temp)
        have c1: "clean cfg q br (s\<lparr>tempIDsMade := Suc (tempIDsMade s),
            blocks := (blocks s)(nextBlock s \<mapsto> FileBlk \<lparr>IsInd = False, Contents = [], IPtrs = []\<rparr>,
                                 pblock \<mapsto> FileBlk ?pb),
            nextBlock := Suc (nextBlock s)\<rparr>)"
          using assms(3) b1 b2 by (simp add: clean_def avoids_upd)
        show ?thesis
          using assms(1,4) Inr u Some FileBlk c1 pq
          by (auto simp: newRightBlockLocked_def Let_def cl_cacheBlockIfNotYetDirtyLocked)
      qed (use assms Inr u Some in \<open>auto simp: newRightBlockLocked_def Let_def intro: cl_temp\<close>)
    qed
  qed
qed

lemma cl_getDirLocked:
  "getDirLocked cfg ctx dir rtype s = (x, s1) \<Longrightarrow> configAvoids q cfg \<Longrightarrow> clean cfg q br s \<Longrightarrow>
   clean cfg q br s1"
  by (auto simp: getDirLocked_def getDirBlockHelperLocked_def deepCopyBlock_def blockAvoids_def
      intro!: cl_blocks_upd dest: cl_getBlockHelperLocked[where q=q and br=br]
      split: sum.splits option.splits Block.splits prod.splits if_splits)

lemma cl_getDirtyEntryLocked:
  "getDirtyEntryLocked cfg ctx file s = (x, s1) \<Longrightarrow> configAvoids q cfg \<Longrightarrow> clean cfg q br s \<Longrightarrow>
   clean cfg q br s1"
  by (auto simp: getDirtyEntryLocked_def dest: cl_getDirLocked[where q=q and br=br]
      split: sum.splits option.splits Block.splits prod.splits if_splits)

lemma cl_getOrCreateSyncInfoLocked:
  "getOrCreateSyncInfoLocked d s = (x, s1) \<Longrightarrow> clean cfg q br s1 = clean cfg q br s"
  by (auto simp: getOrCreateSyncInfoLocked_def clean_def split: option.splits)

lemma cl_extendMakeIndirect:
  assumes g: "extendMakeIndirect cfg md file uid old s = (x, s1)"
    and ca: "configAvoids q cfg" and c: "clean cfg q br s" and t: "TailPointer file \<noteq> q"
  shows "clean cfg q br s1"
proof (cases "blocks s old")
  case None
  then show ?thesis using g c by (simp add: extendMakeIndirect_def)
next
  case (Some blk)
  show ?thesis
  proof (cases blk)
    case (FileBlk fb)
    show ?thesis
    proof (cases "IsInd fb")
      case True
      then show ?thesis using g c Some FileBlk by (simp add: extendMakeIndirect_def)
    next
      case False
      obtain y t1 where g1: "createIndirectBlockLocked cfg md file uid (DefaultNewBlockDataVersion cfg True) s = (y, t1)"
        by (cases "createIndirectBlockLocked cfg md file uid (DefaultNewBlockDataVersion cfg True) s")
      have c1: "clean cfg q br t1" using cl_createIndirectBlockLocked[OF g1 ca c t] .
      show ?thesis
      proof (cases y)
        case (Inl e)
        then show ?thesis using g Some FileBlk False g1 c1 by (simp add: extendMakeIndirect_def)
      next
        case (Inr a)
        show ?thesis
        proof (cases "blocks t1 a")
          case None
          then show ?thesis using g Some FileBlk False g1 c1 Inr by (simp add: extendMakeIndirect_def)
        next
          case s2: (Some blk2)
          show ?thesis
          proof (cases blk2)
            case nb: (FileBlk nb)
            have l: "list_all (\<lambda>ip. BlockPtr (Info ip) \<noteq> q) (IPtrs nb)"
              using cl_file[OF c1] s2 nb by simp
            show ?thesis
            proof (cases "IPtrs nb")
              case Nil
              then show ?thesis using g Some FileBlk False g1 c1 Inr s2 nb
                by (simp add: extendMakeIndirect_def)
            next
              case (Cons ip rest)
              have pq: "BlockPtr (Info ip) \<noteq> q" using l Cons by simp
              have ba: "blockAvoids q (FileBlk (nb\<lparr>IPtrs := ip\<lparr>Holes := True\<rparr> # rest\<rparr>))"
                using l Cons by (simp add: blockAvoids_FileBlk)
              have c2: "clean cfg q br (t1\<lparr>blocks := (blocks t1)(a \<mapsto> FileBlk (nb\<lparr>IPtrs := ip\<lparr>Holes := True\<rparr> # rest\<rparr>))\<rparr>)"
                using cl_blocks_upd[OF c1 ba] .
              show ?thesis
                using g Some FileBlk False g1 Inr s2 nb Cons c2 pq
                by (auto simp: extendMakeIndirect_def Let_def cl_cacheBlockIfNotYetDirtyLocked)
            qed
          qed (use g Some FileBlk False g1 c1 Inr s2 in \<open>simp_all add: extendMakeIndirect_def\<close>)
        qed
      qed
    qed
  qed (use g c Some in \<open>simp_all add: extendMakeIndirect_def\<close>)
qed

lemma cl_truncateExtendLocked:
  assumes g: "truncateExtendLocked cfg ctx md file sz s = (x, s')"
    and ca: "configAvoids q cfg" and c: "clean cfg q br s" and t: "TailPointer file \<noteq> q"
  shows "clean cfg q br s'"
proof (cases "sz > MaxFileBytes cfg")
  case True
  then show ?thesis using g c by (simp add: truncateExtendLocked_def)
next
  case False
  obtain x1 s1 where g1: "writeGetFileLocked cfg ctx md file s = (x1, s1)"
    by (cases "writeGetFileLocked cfg ctx md file s")
  note c1 = cl_writeGetFileLocked[OF g1 ca c]
  show ?thesis
  proof (cases x1)
    case (Inl e)
    then show ?thesis using g False g1 c1 by (simp add: truncateExtendLocked_def)
  next
    case (Inr ou)
    obtain old uid where ou: "ou = (old, uid)" by (cases ou)
    obtain x2 s2 where g2: "extendMakeIndirect cfg md file uid old s1 = (x2, s2)"
      by (cases "extendMakeIndirect cfg md file uid old s1")
    note c2 = cl_extendMakeIndirect[OF g2 ca c1 t]
    show ?thesis
    proof (cases x2)
      case (Inl e)
      then show ?thesis using g False g1 Inr ou g2 c2 by (simp add: truncateExtendLocked_def)
    next
      case td: (Inr td)
      obtain topA dirty0 where tdd: "td = (topA, dirty0)" by (cases td)
      obtain x3 s3 where g3:
        "newRightBlockLocked cfg md (TailPointer file) file topA (int64 (int sz)) s2 = (x3, s3)"
        by (cases "newRightBlockLocked cfg md (TailPointer file) file topA (int64 (int sz)) s2")
      note c3 = cl_newRightBlockLocked[OF g3 ca c2 t]
      obtain x4 s4 where g4: "getDirtyEntryLocked cfg ctx file s3 = (x4, s4)"
        by (cases "getDirtyEntryLocked cfg ctx file s3")
      note c4 = cl_getDirtyEntryLocked[OF g4 ca c3]
      have fin: "dirtyBcache s5 (q, br) = None \<and> avoids q (blocks s5) \<and>
                 freshFrom cfg q (tempIDsMade s5) \<and>
                 (\<forall>fb5. blocks s5 topA = Some (FileBlk fb5) \<longrightarrow>
                    list_all (\<lambda>ip. BlockPtr (Info ip) \<noteq> q) (IPtrs fb5))"
        if "getOrCreateSyncInfoLocked d s4 = (siA, s5)" for d siA s5
      proof -
        have c5: "clean cfg q br s5" using cl_getOrCreateSyncInfoLocked[OF that(1)] c4 by simp
        then show ?thesis using cl_file[OF c5] by (auto simp: clean_def)
      qed
      show ?thesis
        using g False g1 Inr ou g2 td tdd g3 g4 c3 c4 t
        by (auto simp: truncateExtendLocked_def Let_def clean_def blockAvoids_FileBlk list_all_iff
            dest!: fin split: option.splits Block.splits if_splits sum.splits prod.splits)
    qed
  qed
qed

lemma list_all_shift:
  assumes "list_all P xs" "xs \<noteq> []"
  shows "list_all P (take n xs @ [last xs] @ take m (drop k xs))"
proof -
  have "set (take n xs) \<subseteq> set xs" "set (take m (drop k xs)) \<subseteq> set xs" "last xs \<in> set xs"
    using assms(2) by (auto dest: in_set_takeD in_set_dropD)
  then show ?thesis using assms(1) by (auto simp: list_all_iff)
qed

lemma list_all_encoded:
  assumes "list_all (\<lambda>ip. BlockPtr (Info ip) \<noteq> q) xs" "i < length xs"
  shows "list_all (\<lambda>ip. BlockPtr (Info ip) \<noteq> q)
           (xs[i := (xs ! i)\<lparr>Info := (Info (xs ! i))\<lparr>EncodedSize := 0\<rparr>\<rparr>])"
proof -
  have "BlockPtr (Info (xs ! i)) \<noteq> q" using assms by (simp add: list_all_length)
  then show ?thesis using assms(1)
    by (auto simp: list_all_iff dest!: set_update_subset_insert[THEN subsetD])
qed

lemma cl_writeNewBlocks:
  assumes g: "writeNewBlocks cfg md file uid n off r topA copied newLen s = (x, s1)"
    and ca: "configAvoids q cfg" and c: "clean cfg q br s" and t: "TailPointer file \<noteq> q"
    and rp: "aoPtr r \<noteq> q"
  shows "clean cfg q br s1 \<and> (\<forall>topB p. x = Inr (topB, p) \<longrightarrow> p \<noteq> q)"
proof (cases "copied < n \<and> aoNext r < 0")
  case True
  show ?thesis
  proof (cases "aoPtr r = TailPointer file")
    case False
    obtain y t2 where g2: "newRightBlockLocked cfg md (TailPointer file) file topA (aoStart r + newLen) s = (y, t2)"
      by (cases "newRightBlockLocked cfg md (TailPointer file) file topA (aoStart r + newLen) s")
    note c2 = cl_newRightBlockLocked[OF g2 ca c t]
    show ?thesis using g True False g2 c2 rp
      by (auto simp: writeNewBlocks_def split: option.splits)
  next
    case tl: True
    obtain y t1 where g1: "createIndirectBlockLocked cfg md file uid (DefaultNewBlockDataVersion cfg False) s = (y, t1)"
      by (cases "createIndirectBlockLocked cfg md file uid (DefaultNewBlockDataVersion cfg False) s")
    note c1 = cl_createIndirectBlockLocked[OF g1 ca c t]
    have nr: "clean cfg q br t2"
      if "newRightBlockLocked cfg md (TailPointer file) file a o' t1 = (z, t2)" for a o' z t2
      using cl_newRightBlockLocked[OF that ca c1 t] .
    have pp: "BlockPtr (Info ip) \<noteq> q" if "blocks t1 a = Some (FileBlk nb)" "IPtrs nb = ip # rest" for a nb ip rest
      using cl_file[OF c1 that(1)] that(2) by simp
    show ?thesis using g True tl g1 c1
      by (auto simp: writeNewBlocks_def dest: nr pp
          split: option.splits sum.splits Block.splits list.splits prod.splits)
  qed
next
  case False
  show ?thesis
  proof (cases "copied < n \<and> off + copied < aoNext r")
    case nf: False
    then show ?thesis using g False c rp by (auto simp: writeNewBlocks_def)
  next
    case True
    obtain y t2 where g2: "newRightBlockLocked cfg md (TailPointer file) file topA (aoStart r + newLen) s = (y, t2)"
      by (cases "newRightBlockLocked cfg md (TailPointer file) file topA (aoStart r + newLen) s")
    note c2 = cl_newRightBlockLocked[OF g2 ca c t]
    have sh: "avoids q ((blocks t2)(topA \<mapsto> FileBlk (fb\<lparr>IPtrs :=
                  take a (IPtrs fb) @ [last (IPtrs fb)] @ take m (drop k (IPtrs fb))\<rparr>)))"
      if "blocks t2 topA = Some (FileBlk fb)" "IPtrs fb \<noteq> []" for fb a m k
    proof -
      have "list_all (\<lambda>ip. BlockPtr (Info ip) \<noteq> q)
              (take a (IPtrs fb) @ [last (IPtrs fb)] @ take m (drop k (IPtrs fb)))"
        by (rule list_all_shift[OF cl_file[OF c2 that(1)] that(2)])
      then have "blockAvoids q (FileBlk (fb\<lparr>IPtrs :=
                  take a (IPtrs fb) @ [last (IPtrs fb)] @ take m (drop k (IPtrs fb))\<rparr>))"
        by (simp add: blockAvoids_FileBlk del: append.simps list_all_append)
      then show ?thesis using c2 by (simp add: clean_def del: append.simps)
    qed
    show ?thesis using g False True g2 c2 rp
      by (auto simp: writeNewBlocks_def clean_def sh simp del: avoids_upd_iff append.simps
          split: option.splits Block.splits if_splits)
  qed
qed

lemma cl_parent_upd:
  assumes c: "clean cfg q br s" and b: "blocks s pa = Some (FileBlk pb)" and i: "i < length (IPtrs pb)"
  shows "clean cfg q br (s\<lparr>syncInfos := si',
            blocks := (blocks s)(pa \<mapsto> FileBlk (pb\<lparr>IPtrs :=
               (IPtrs pb)[i := (IPtrs pb ! i)\<lparr>Info := (Info (IPtrs pb ! i))\<lparr>EncodedSize := 0\<rparr>\<rparr>]\<rparr>))\<rparr>)"
proof -
  have "blockAvoids q (FileBlk (pb\<lparr>IPtrs :=
               (IPtrs pb)[i := (IPtrs pb ! i)\<lparr>Info := (Info (IPtrs pb ! i))\<lparr>EncodedSize := 0\<rparr>\<rparr>]\<rparr>))"
    using list_all_encoded[OF cl_file[OF c b] i] by (simp add: blockAvoids_FileBlk)
  then show ?thesis using c by (simp add: clean_def)
qed

lemma cl_parent_take:
  assumes c: "clean cfg q br s" and b: "blocks s pa = Some (FileBlk pb)"
  shows "clean cfg q br (s\<lparr>syncInfos := si',
            blocks := (blocks s)(pa \<mapsto> FileBlk (pb\<lparr>IPtrs := take n (IPtrs pb)\<rparr>))\<rparr>)"
proof -
  have "list_all (\<lambda>ip. BlockPtr (Info ip) \<noteq> q) (take n (IPtrs pb))"
    using cl_file[OF c b] by (auto simp: list_all_iff dest: in_set_takeD)
  then have "blockAvoids q (FileBlk (pb\<lparr>IPtrs := take n (IPtrs pb)\<rparr>))"
    by (simp add: blockAvoids_FileBlk)
  then show ?thesis using c by (simp add: clean_def)
qed

lemma cl_split_upd:
  assumes ca: "configAvoids q cfg" and c: "clean cfg q br s" and b: "blocks s a = Some (FileBlk b0)"
    and k: "CopyUntilSplit cfg b0 l d off = (b', k)"
  shows "clean cfg q br (s\<lparr>blocks := (blocks s)(a \<mapsto> FileBlk b')\<rparr>)"
proof -
  have "IPtrs (fst (CopyUntilSplit cfg b0 l d off)) = IPtrs b0" using ca
    by (simp add: configAvoids_def)
  then have "IPtrs b' = IPtrs b0" using k by simp
  then have "blockAvoids q (FileBlk b')" using cl_file[OF c b] by (simp add: blockAvoids_FileBlk)
  then show ?thesis using c by (simp add: clean_def)
qed

lemma cl_writeStep:
  assumes g: "writeStep fuel cfg ctx md file uid siA data off w s = (x, s')"
    and ca: "configAvoids q cfg" and c: "clean cfg q br s" and t: "TailPointer file \<noteq> q"
  shows "clean cfg q br s'"
proof -
  obtain y s1 where g1: "getFileBlockAtOffsetLocked fuel cfg ctx file (wsTop w) (off + wsCopied w) blockWrite s = (y, s1)"
    by (cases "getFileBlockAtOffsetLocked fuel cfg ctx file (wsTop w) (off + wsCopied w) blockWrite s")
  note c1 = cl_getFileBlockAtOffsetLocked[OF g1 ca c t]
  show ?thesis
  proof (cases y)
    case (Inl e)
    then show ?thesis using g g1 c1 by (auto simp: writeStep_def)
  next
    case (Inr r)
    then have rp: "aoPtr r \<noteq> q" and cs1: "clean cfg q br s1" using c1 by auto
    show ?thesis
    proof (cases "blocks s1 (aoBlock r)")
      case None
      then show ?thesis using g g1 Inr cs1 by (auto simp: writeStep_def)
    next
      case (Some bb)
      show ?thesis
      proof (cases bb)
        case (DirBlk x1)
        then show ?thesis using g g1 Inr cs1 Some by (auto simp: writeStep_def)
      next
        case CommonBlk
        then show ?thesis using g g1 Inr cs1 Some by (auto simp: writeStep_def)
      next
        case (FileBlk b)
        define mx where "mx = (if aoNext r > 0 \<and> aoNext r - off < int (length data)
                          then aoNext r - off else int (length data))"
        show ?thesis
        proof (cases "mx < wsCopied w")
          case True
          then show ?thesis using g g1 Inr cs1 Some FileBlk
            by (auto simp: writeStep_def Let_def mx_def)
        next
          case False
          obtain b' k where sp: "CopyUntilSplit cfg b (aoNext r < 0)
                             (take (nat mx - nat (wsCopied w)) (drop (nat (wsCopied w)) data))
                             (off + wsCopied w - aoStart r) = (b', k)"
            by (cases "CopyUntilSplit cfg b (aoNext r < 0)
                             (take (nat mx - nat (wsCopied w)) (drop (nat (wsCopied w)) data))
                             (off + wsCopied w - aoStart r)")
          define s2 where "s2 = s1\<lparr>blocks := (blocks s1)(aoBlock r \<mapsto> FileBlk b')\<rparr>"
          have c2: "clean cfg q br s2" unfolding s2_def
            using cl_split_upd[OF ca cs1 _ sp] Some FileBlk by simp
          obtain z s3 where g3: "writeNewBlocks cfg md file uid (int (length data)) off r (wsTop w)
                                     (wsCopied w + k) (int (length (Contents b'))) s2 = (z, s3)"
            by (cases "writeNewBlocks cfg md file uid (int (length data)) off r (wsTop w)
                                     (wsCopied w + k) (int (length (Contents b'))) s2")
          note c3 = cl_writeNewBlocks[OF g3 ca c2 t rp]
          then have cs3: "clean cfg q br s3" by simp
          have pu: "list_all (\<lambda>ip. BlockPtr (Info ip) \<noteq> q)
               ((IPtrs pb)[nat (aoIndex r) := (IPtrs pb ! nat (aoIndex r))\<lparr>Info := (Info (IPtrs pb ! nat (aoIndex r)))\<lparr>EncodedSize := 0\<rparr>\<rparr>])"
            if "blocks s3 pa = Some (FileBlk pb)" "\<not> aoIndex r < 0" "\<not> int (length (IPtrs pb)) \<le> aoIndex r"
            for pa pb
            using that by (intro list_all_encoded cl_file[OF cs3 that(1)]) auto
          have u3: "dirtyBcache s3 (q, br) = None" "avoids q (blocks s3)"
            "freshFrom cfg q (tempIDsMade s3)"
            using cs3 by (simp_all add: clean_def)
          show ?thesis
          proof (cases z)
            case (Inl e)
            then show ?thesis using g g1 Inr Some FileBlk False sp g3 cs3
              by (auto simp: writeStep_def Let_def mx_def[symmetric] s2_def[symmetric])
          next
            case zr: (Inr tp)
            obtain topB p where tp: "tp = (topB, p)" by (cases tp)
            have pq: "p \<noteq> q" using c3 zr tp by simp
            show ?thesis using g g1 Inr Some FileBlk False sp g3 u3 zr tp pq
              by (auto simp: writeStep_def Let_def mx_def[symmetric] s2_def[symmetric]
                  clean_def blockAvoids_FileBlk pu
                  split: option.splits Block.splits if_splits)
          qed
        qed
      qed
    qed
  qed
qed

lemma cl_writeLoop:
  "writeLoop k fuel cfg ctx md file uid siA data off w s = (x, s') \<Longrightarrow>
   configAvoids q cfg \<Longrightarrow> clean cfg q br s \<Longrightarrow> TailPointer file \<noteq> q \<Longrightarrow> clean cfg q br s'"
proof (induction k arbitrary: w s)
  case 0
  then show ?case by (auto split: if_splits)
next
  case (Suc k)
  obtain y s1 where g1: "writeStep fuel cfg ctx md file uid siA data off w s = (y, s1)"
    by (cases "writeStep fuel cfg ctx md file uid siA data off w s")
  note c1 = cl_writeStep[OF g1 Suc.prems(2,3,4)]
  show ?case
  proof (cases "wsCopied w < int (length data)")
    case False
    then show ?thesis using Suc.prems by auto
  next
    case True
    show ?thesis
    proof (cases y)
      case (Inl e)
      then show ?thesis using Suc.prems(1) True g1 c1 by auto
    next
      case (Inr w1)
      then have "writeLoop k fuel cfg ctx md file uid siA data off w1 s1 = (x, s')"
        using Suc.prems(1) True g1 by auto
      from Suc.IH[OF this Suc.prems(2) c1 Suc.prems(4)] show ?thesis .
    qed
  qed
qed

lemma cl_writeFinish:
  "writeFinish file siA oldSize data off w s = (x, s') \<Longrightarrow> clean cfg q br s \<Longrightarrow>
   TailPointer file \<noteq> q \<Longrightarrow> clean cfg q br s'"
  by (auto simp: writeFinish_def Let_def cl_cacheBlockIfNotYetDirtyLocked
      split: option.splits Block.splits if_splits)

lemma cl_writeDeferred [simp]:
  "clean cfg q br (writeDeferred cfg file n s) = clean cfg q br s"
  by (simp add: writeDeferred_def)

lemma cl_writeDataLocked:
  assumes g: "writeDataLocked fuel cfg ctx md file data off s = (x, s')"
    and ca: "configAvoids q cfg" and c: "clean cfg q br s" and t: "TailPointer file \<noteq> q"
  shows "clean cfg q br s'"
proof (cases "nat ((off + int (length data)) mod 2 ^ 64) > MaxFileBytes cfg")
  case True
  then show ?thesis using g c by (simp add: writeDataLocked_def)
next
  case False
  obtain y s1 where g1: "writeGetFileLocked cfg ctx md file s = (y, s1)"
    by (cases "writeGetFileLocked cfg ctx md file s")
  note c1 = cl_writeGetFileLocked[OF g1 ca c]
  show ?thesis
  proof (cases y)
    case (Inl e)
    then show ?thesis using g False g1 c1 by (auto simp: writeDataLocked_def)
  next
    case (Inr tu)
    obtain topA uid where tu: "tu = (topA, uid)" by (cases tu)
    define s2 where "s2 = snd (getOrCreateDirtyFileLocked file s1)"
    have c2: "clean cfg q br s2" using c1 by (simp add: s2_def)
    obtain z s3 where g3: "getDirtyEntryLocked cfg ctx file s2 = (z, s3)"
      by (cases "getDirtyEntryLocked cfg ctx file s2")
    note c3 = cl_getDirtyEntryLocked[OF g3 ca c2]
    show ?thesis
    proof (cases z)
      case (Inl e)
      then show ?thesis using g False g1 Inr tu g3 c3
        by (auto simp: writeDataLocked_def Let_def s2_def[symmetric])
    next
      case zr: (Inr d)
      obtain siA s4 where g4: "getOrCreateSyncInfoLocked d s3 = (siA, s4)"
        by (cases "getOrCreateSyncInfoLocked d s3")
      have c4: "clean cfg q br s4" using cl_getOrCreateSyncInfoLocked[OF g4] c3 by simp
      obtain lr s5 where g5: "writeLoop fuel fuel cfg ctx md file uid siA data off
                               \<lparr>wsCopied = 0, wsTop = topA, wsDe = d, wsDirty = [], wsBytes = 0\<rparr> s4 = (lr, s5)"
        by (cases "writeLoop fuel fuel cfg ctx md file uid siA data off
                               \<lparr>wsCopied = 0, wsTop = topA, wsDe = d, wsDirty = [], wsBytes = 0\<rparr> s4")
      note c5 = cl_writeLoop[OF g5 ca c4 t]
      obtain eo w where lr: "lr = (eo, w)" by (cases lr)
      show ?thesis
      proof (cases eo)
        case (Some e)
        then show ?thesis using g False g1 Inr tu g3 zr g4 g5 lr c5
          by (auto simp: writeDataLocked_def Let_def s2_def[symmetric])
      next
        case None
        obtain fr s6 where g6: "writeFinish file siA (Size d) data off w s5 = (fr, s6)"
          by (cases "writeFinish file siA (Size d) data off w s5")
        note c6 = cl_writeFinish[OF g6 c5 t]
        show ?thesis using g False g1 Inr tu g3 zr g4 g5 lr None g6 c6
          by (auto simp: writeDataLocked_def Let_def s2_def[symmetric] split: sum.splits)
      qed
    qed
  qed
qed

lemma la_take: "list_all P xs \<Longrightarrow> list_all P (take n xs)"
  by (auto simp: list_all_iff dest: in_set_takeD)

lemma la_nth:
  "list_all (\<lambda>ip. BlockPtr (Info ip) \<noteq> q) ys \<Longrightarrow> \<not> i < 0 \<Longrightarrow> \<not> int (length ys) \<le> i \<Longrightarrow>
   BlockPtr (Info (ys ! nat i)) \<noteq> q"
  by (simp add: list_all_length)

lemma la_upd_enc:
  "list_all (\<lambda>ip. BlockPtr (Info ip) \<noteq> q) xs \<Longrightarrow> BlockPtr (Info y) \<noteq> q \<Longrightarrow>
   list_all (\<lambda>ip. BlockPtr (Info ip) \<noteq> q) (xs[i := y\<lparr>Info := (Info y)\<lparr>EncodedSize := 0\<rparr>\<rparr>])"
  by (auto simp: list_all_iff dest!: set_update_subset_insert[THEN subsetD])

lemma cl_truncateShrink:
  assumes g: "truncateShrink cfg ctx file sz topA r s = (x, s')"
    and ca: "configAvoids q cfg" and c: "clean cfg q br s" and t: "TailPointer file \<noteq> q"
    and rp: "aoPtr r \<noteq> q"
  shows "clean cfg q br s'"
proof -
  obtain y s1 where g1: "getDirtyEntryLocked cfg ctx file s = (y, s1)"
    by (cases "getDirtyEntryLocked cfg ctx file s")
  note c1 = cl_getDirtyEntryLocked[OF g1 ca c]
  show ?thesis
  proof (cases y)
    case (Inl e)
    then show ?thesis using g g1 c1 by (auto simp: truncateShrink_def)
  next
    case (Inr d)
    show ?thesis
    proof (cases "\<exists>b. blocks s1 (aoBlock r) = Some (FileBlk b) \<and>
                    \<not> (int64 (int sz) - aoStart r < 0 \<or> int (length (Contents b)) < int64 (int sz) - aoStart r)")
      case False
      then show ?thesis using g g1 Inr c1
        by (auto simp: truncateShrink_def split: option.splits Block.splits if_splits)
    next
      case True
      then obtain b where b: "blocks s1 (aoBlock r) = Some (FileBlk b)"
        and nb: "\<not> (int64 (int sz) - aoStart r < 0 \<or> int (length (Contents b)) < int64 (int sz) - aoStart r)"
        by blast
      define b' where "b' = b\<lparr>Contents := take (nat (int64 (int sz) - aoStart r)) (Contents b)\<rparr>"
      define newBytes where "newBytes = int (length (Contents b'))
                                  - (if DirtyBcache_IsDirty (aoPtr r) (Branch file) s1 then int (length (Contents b)) else 0)"
      define s3 where "s3 = updateNotYetSyncingBytes file newBytes
                              (snd (getOrCreateDirtyFileLocked file
                                 (s1\<lparr>blocks := (blocks s1)(aoBlock r \<mapsto> FileBlk b')\<rparr>)))"
      have ba: "blockAvoids q (FileBlk b')"
        using cl_file[OF c1 b] by (simp add: blockAvoids_FileBlk b'_def)
      have c3: "clean cfg q br s3"
        unfolding s3_def using c1 ba by (simp add: clean_def)
      obtain siA s4 where g4: "getOrCreateSyncInfoLocked d s3 = (siA, s4)"
        by (cases "getOrCreateSyncInfoLocked d s3")
      have c4: "clean cfg q br s4" using cl_getOrCreateSyncInfoLocked[OF g4] c3 by simp
      have u4: "dirtyBcache s4 (q, br) = None" "avoids q (blocks s4)"
        "freshFrom cfg q (tempIDsMade s4)"
        using c4 by (simp_all add: clean_def)
      have e4: "list_all (\<lambda>ip. BlockPtr (Info ip) \<noteq> q) (IPtrs pb)"
        if "blocks s4 pa = Some (FileBlk pb)" for pa pb
        using cl_file[OF c4 that] .
      show ?thesis using g g1 Inr b nb g4 u4 t rp
        by (auto simp: truncateShrink_def Let_def b'_def[symmetric] newBytes_def[symmetric]
            s3_def[symmetric] clean_def blockAvoids_FileBlk la_take la_nth la_upd_enc e4
            split: option.splits Block.splits if_splits)
    qed
  qed
qed

lemma cl_truncateLocked:
  assumes g: "truncateLocked fuel cfg ctx md file sz s = (x, s')"
    and ca: "configAvoids q cfg" and c: "clean cfg q br s" and t: "TailPointer file \<noteq> q"
  shows "clean cfg q br s'"
proof -
  obtain y s1 where g1: "writeGetFileLocked cfg ctx md file s = (y, s1)"
    by (cases "writeGetFileLocked cfg ctx md file s")
  note c1 = cl_writeGetFileLocked[OF g1 ca c]
  show ?thesis
  proof (cases y)
    case (Inl e)
    then show ?thesis using g g1 c1 by (auto simp: truncateLocked_def)
  next
    case (Inr tu)
    obtain topA uid where tu: "tu = (topA, uid)" by (cases tu)
    obtain z s2 where g2: "getFileBlockAtOffsetLocked fuel cfg ctx file topA (int64 (int sz)) blockWrite s1 = (z, s2)"
      by (cases "getFileBlockAtOffsetLocked fuel cfg ctx file topA (int64 (int sz)) blockWrite s1")
    note c2 = cl_getFileBlockAtOffsetLocked[OF g2 ca c1 t]
    then have cs2: "clean cfg q br s2" by simp
    show ?thesis
    proof (cases z)
      case (Inl e)
      then show ?thesis using g g1 Inr tu g2 cs2 by (auto simp: truncateLocked_def)
    next
      case zr: (Inr r)
      then have rp: "aoPtr r \<noteq> q" using c2 by simp
      have te: "clean cfg q br s3"
        if "truncateExtendLocked cfg ctx md file n s2 = (u, s3)" for n u s3
        using cl_truncateExtendLocked[OF that ca cs2 t] .
      have wd: "clean cfg q br s3"
        if "writeDataLocked fuel cfg ctx md file d o' s2 = (u, s3)" for d o' u s3
        using cl_writeDataLocked[OF that ca cs2 t] .
      have ts: "clean cfg q br s3"
        if "truncateShrink cfg ctx file sz topA r s2 = (u, s3)" for u s3
        using cl_truncateShrink[OF that ca cs2 t rp] .
      show ?thesis using g g1 Inr tu g2 zr cs2
        by (auto simp: truncateLocked_def dest: te wd ts
            split: option.splits Block.splits if_splits sum.splits prod.splits)
    qed
  qed
qed

lemma cl_replay:
  assumes r: "isReplay cfg w" and g: "w ctx md f s = (x, s')"
    and ca: "configAvoids q cfg" and c: "clean cfg q br s" and t: "TailPointer f \<noteq> q"
  shows "clean cfg q br s'"
proof -
  have c0: "clean cfg q br (updateNotYetSyncingBytes filePath n (snd (getOrCreateDirtyFileLocked filePath s)))"
    for filePath n
    using c by (simp add: clean_def)
  from r consider
    (wr) fuel filePath bytes data off where "w = replayWrite fuel cfg filePath bytes data off"
    | (tr) fuel filePath bytes sz where "w = replayTruncate fuel cfg filePath bytes sz"
    unfolding isReplay_def by blast
  then show ?thesis
  proof cases
    case wr
    obtain y s1 where g1: "writeDataLocked fuel cfg ctx md f data off
               (updateNotYetSyncingBytes filePath (- bytes)
                  (snd (getOrCreateDirtyFileLocked filePath s))) = (y, s1)"
      by (cases "writeDataLocked fuel cfg ctx md f data off
               (updateNotYetSyncingBytes filePath (- bytes)
                  (snd (getOrCreateDirtyFileLocked filePath s)))")
    note c1 = cl_writeDataLocked[OF g1 ca c0 t]
    show ?thesis using g wr g1 c1 by (auto simp: replayWrite_def split: sum.splits)
  next
    case tr
    obtain y s1 where g1: "truncateLocked fuel cfg ctx md f sz
               (updateNotYetSyncingBytes filePath (- bytes)
                  (snd (getOrCreateDirtyFileLocked filePath s))) = (y, s1)"
      by (cases "truncateLocked fuel cfg ctx md f sz
               (updateNotYetSyncingBytes filePath (- bytes)
                  (snd (getOrCreateDirtyFileLocked filePath s)))")
    note c1 = cl_truncateLocked[OF g1 ca c0 t]
    show ?thesis using g tr g1 c1 by (auto simp: replayTruncate_def split: sum.splits)
  qed
qed

lemma cl_replayWrites:
  "replayWrites ws ctx md f s = (x, s') \<Longrightarrow> \<forall>w \<in> set ws. isReplay cfg w \<Longrightarrow>
   configAvoids q cfg \<Longrightarrow> clean cfg q br s \<Longrightarrow> TailPointer f \<noteq> q \<Longrightarrow> clean cfg q br s'"
proof (induction ws arbitrary: s)
  case Nil
  then show ?case by simp
next
  case (Cons w ws)
  obtain r s1 where w: "w ctx md f s = (r, s1)" by (cases "w ctx md f s")
  have c1: "clean cfg q br s1"
    using cl_replay[where w=w and cfg=cfg, OF _ w Cons.prems(3,4,5)] Cons.prems(2) by simp
  show ?case
  proof (cases r)
    case (Some e)
    then show ?thesis using Cons.prems(1) w c1 by simp
  next
    case None
    then have "replayWrites ws ctx md f s1 = (x, s')" using Cons.prems(1) w by simp
    from Cons.IH[OF this _ Cons.prems(3) c1 Cons.prems(5)] Cons.prems(2) show ?thesis by simp
  qed
qed

lemma deleteDirty_blocks: "blocks (snd (deleteDirty ps br s)) = blocks s"
  by (induction ps arbitrary: s) (simp_all add: DirtyBcache_Delete_def)

lemma fold_DeletePermanent_blocks:
  "blocks (fold (\<lambda>p. BlockCache_DeletePermanent (ID p)) ps s) = blocks s"
  by (induction ps arbitrary: s) (simp_all add: BlockCache_DeletePermanent_def)

lemma beforeReplay_blocks:
  "blocks (core (snd (beforeReplay cfg st S))) = blocks (core S)"
proof -
  have "blocks (snd (deleteDirty ps br (fold (\<lambda>p. BlockCache_DeletePermanent (ID p)) ns
           (snd (deleteDirty os br' s)))))= blocks s" for ps br ns os br' s
    by (simp add: deleteDirty_blocks fold_DeletePermanent_blocks)
  then show ?thesis
    by (auto simp: beforeReplay_def Let_def deleteDirty_blocks fold_DeletePermanent_blocks
        split: prod.splits option.splits dest!: arg_cong[where f="\<lambda>x. blocks (snd x)"])
qed

lemma deleteDirty_temp: "tempIDsMade (snd (deleteDirty ps br s)) = tempIDsMade s"
  by (induction ps arbitrary: s) (simp_all add: DirtyBcache_Delete_def)

lemma fold_DeletePermanent_temp:
  "tempIDsMade (fold (\<lambda>p. BlockCache_DeletePermanent (ID p)) ps s) = tempIDsMade s"
  by (induction ps arbitrary: s) (simp_all add: BlockCache_DeletePermanent_def)

lemma beforeReplay_temp:
  "tempIDsMade (core (snd (beforeReplay cfg st S))) = tempIDsMade (core S)"
  by (auto simp: beforeReplay_def Let_def deleteDirty_temp fold_DeletePermanent_temp
      split: prod.splits option.splits dest!: arg_cong[where f="\<lambda>x. tempIDsMade (snd x)"])

section \<open>Theorems: a finished sync clears the old file\<close>

lemma startSyncWriteLockedEnd_tail:
  "startSyncWriteLockedEnd file syncing st0 = (None, st) \<Longrightarrow>
   TailPointer file \<in> set (oldFileBlockPtrs st)"
  by (auto simp: startSyncWriteLockedEnd_def split: option.splits)

text \<open>
  Claim C1.  Take a sync of a file whose \<open>StartSync\<close> has returned the sync state
  without error, so through the last lines of \<open>startSyncWriteLocked\<close>, and whose
  \<open>FinishSync\<close> returns without error.  The file's path carries the folder's branch,
  the deferred writes are the closures that \<open>Write\<close> and \<open>Truncate\<close> build, the
  sync has given the file a new tail pointer, and the old tail pointer is foreign to the
  file as it is now: no file block in the store points to it, none that the block server
  hands out does, and no temporary identifier made from now on is its identifier.  Then
  immediately after \<open>FinishSync\<close>: \<open>IsDirty\<close> of the old path is false,
  \<open>unrefCache\<close> and \<open>deCache\<close> have no entry at the old tail's reference, the
  tracker found after the replay passed \<open>finishSync\<close> and its \<open>dirtyFiles\<close>
  entry is deleted.
\<close>

theorem FinishSync_clears_file:
  assumes ss: "startSyncWriteLockedEnd oldPath syncing st0 = (None, st)"
    and fs: "FinishSync cfg ctx oldPath newPath md st S = ((stillDirty, None), S')"
    and br: "Branch oldPath = fboBranch cfg"
    and rw: "\<forall>w \<in> set (deferredWrites S). isReplay cfg w"
    and ca: "configAvoids (TailPointer oldPath) cfg"
    and av: "avoids (TailPointer oldPath) (blocks (core S))"
    and fr: "freshFrom cfg (TailPointer oldPath) (tempIDsMade (core S))"
    and np: "TailPointer newPath \<noteq> TailPointer oldPath"
  shows "\<not> IsDirty oldPath (core S') \<and>
         unrefCache (core S') (ref (TailPointer oldPath)) = None \<and>
         deCache (core S') (ref (TailPointer oldPath)) = None \<and>
         dirtyFiles (core S') (TailPointer oldPath) = None \<and>
         (case dirtyFiles (snd (replayWrites (deferredWrites S) ctx md newPath
                                  (core (snd (beforeReplay cfg st S))))) (TailPointer oldPath) of
            None \<Rightarrow> True
          | Some df \<Rightarrow> finishSync df = None) \<and>
         deferredWrites S' = [] \<and> deferredDirtyDeletes S' = [] \<and>
         stillDirty = (deferredWrites S \<noteq> [])"
proof -
  note tail = startSyncWriteLockedEnd_tail[OF ss]
  obtain S1 where b: "beforeReplay cfg st S = (None, S1)"
    using beforeReplay_ok[of cfg st S] by (cases "beforeReplay cfg st S") auto
  obtain r4 s4 where r: "replayWrites (deferredWrites S) ctx md newPath (core S1) = (r4, s4)"
    by (cases "replayWrites (deferredWrites S) ctx md newPath (core S1)")
  have r4: "r4 = None" using fs b r by (cases r4) (simp_all add: FinishSync_def)
  obtain r5 s5 where c: "clearCacheInfoLocked oldPath s4 = (r5, s5)"
    by (cases "clearCacheInfoLocked oldPath s4")
  have r5: "r5 = None" using fs b r r4 c by (cases r5) (simp_all add: FinishSync_def)
  have S': "S' = S1\<lparr>core := s5\<rparr>" and sd: "stillDirty = (deferredWrites S \<noteq> [])"
    using fs b r r4 c r5 by (simp_all add: FinishSync_def)
  have k1: "dirtyBcache (core S1) (TailPointer oldPath, Branch oldPath) = None"
    using beforeReplay_cache[of cfg st S "(TailPointer oldPath, Branch oldPath)"] b tail br by simp
  have a1: "avoids (TailPointer oldPath) (blocks (core S1))"
    using beforeReplay_blocks[of cfg st S] b av by simp
  have f1: "freshFrom cfg (TailPointer oldPath) (tempIDsMade (core S1))"
    using beforeReplay_temp[of cfg st S] b fr by simp
  have c1: "clean cfg (TailPointer oldPath) (Branch oldPath) (core S1)"
    using k1 a1 f1 by (simp add: clean_def)
  have "clean cfg (TailPointer oldPath) (Branch oldPath) s4"
    using cl_replayWrites[OF r rw ca c1 np] .
  then have k4: "dirtyBcache s4 (TailPointer oldPath, Branch oldPath) = None"
    by (simp add: clean_def)
  note cl = clearCacheInfoLocked_ok[OF c[unfolded r5]]
  have lists: "deferredWrites S1 = []" "deferredDirtyDeletes S1 = []"
    using beforeReplay_lists[of cfg st S] b by simp_all
  show ?thesis
    using cl k4 lists sd b r
    by (simp add: S' IsDirty_def DirtyBcache_IsDirty_def)
qed

lemma C1_folder_run:
  "fst (FinishSync wholeBlockConfig None (exPath 1) (exPath 2) exMD C1_syncState C1_folder) = (True, None) \<and>
   IsDirty (exPath 2)
     (core (snd (FinishSync wholeBlockConfig None (exPath 1) (exPath 2) exMD C1_syncState C1_folder))) \<and>
   unsyncedBytes
     (core (snd (FinishSync wholeBlockConfig None (exPath 1) (exPath 2) exMD C1_syncState C1_folder))) = 4"
  by (simp add: FinishSync_def beforeReplay_def clearCacheInfoLocked_def finishSync_def IsDirty_def
      C1_folder_def C1_syncState_def all_defs write_data_defs)

text \<open>
  The theorem on the sync of the one-byte file with its deferred write of three bytes:
  the old tail is dirty before and clean after, its entries and its tracker are gone, and
  the replayed write has dirtied the new tail.
\<close>

theorem FinishSync_clears_file_witness:
  "fst (FinishSync wholeBlockConfig None (exPath 1) (exPath 2) exMD C1_syncState C1_folder) = (True, None) \<and>
   IsDirty (exPath 1) (core C1_folder) \<and>
   \<not> IsDirty (exPath 1)
       (core (snd (FinishSync wholeBlockConfig None (exPath 1) (exPath 2) exMD C1_syncState C1_folder))) \<and>
   IsDirty (exPath 2)
     (core (snd (FinishSync wholeBlockConfig None (exPath 1) (exPath 2) exMD C1_syncState C1_folder))) \<and>
   unrefCache (core (snd (FinishSync wholeBlockConfig None (exPath 1) (exPath 2) exMD C1_syncState C1_folder)))
     (ref (TailPointer (exPath 1))) = None \<and>
   deCache (core (snd (FinishSync wholeBlockConfig None (exPath 1) (exPath 2) exMD C1_syncState C1_folder)))
     (ref (TailPointer (exPath 1))) = None \<and>
   dirtyFiles (core (snd (FinishSync wholeBlockConfig None (exPath 1) (exPath 2) exMD C1_syncState C1_folder)))
     (TailPointer (exPath 1)) = None"
proof -
  have h0: "startSyncWriteLockedEnd (exPath 1) None (C1_syncState\<lparr>oldFileBlockPtrs := []\<rparr>)
              = (None, C1_syncState)"
    by (simp add: startSyncWriteLockedEnd_def C1_syncState_def TailPointer_def exPath_def)
  have h1: "FinishSync wholeBlockConfig None (exPath 1) (exPath 2) exMD C1_syncState C1_folder =
              ((True, None),
               snd (FinishSync wholeBlockConfig None (exPath 1) (exPath 2) exMD C1_syncState C1_folder))"
    using C1_folder_run by (simp add: prod_eq_iff)
  have h2: "Branch (exPath 1) = fboBranch wholeBlockConfig"
    by (simp add: exPath_def exConfig_def wholeBlockConfig_def)
  have "isReplay wholeBlockConfig (replayWrite 1 wholeBlockConfig (exPath 1) 3 [1, 2, 3] 1)"
    unfolding isReplay_def by (intro disjI1 exI) (rule refl)
  then have h3: "\<forall>w \<in> set (deferredWrites C1_folder). isReplay wholeBlockConfig w"
    by (simp add: C1_folder_def)
  have h4: "configAvoids (TailPointer (exPath 1)) wholeBlockConfig"
    by (simp add: configAvoids_def wholeBlockConfig_def exConfig_def TailPointer_def exPath_def
        exPtr_def)
  have h5: "avoids (TailPointer (exPath 1)) (blocks (core C1_folder))"
    by (simp add: avoids_def blockAvoids_def C1_folder_def oneByteFolder_def emptyFbo_def
        emptyFolder_def)
  have h7: "freshFrom wholeBlockConfig (TailPointer (exPath 1)) (tempIDsMade (core C1_folder))"
    by (simp add: freshFrom_def wholeBlockConfig_def exConfig_def TailPointer_def exPath_def
        exPtr_def)
  have h6: "TailPointer (exPath 2) \<noteq> TailPointer (exPath 1)"
    by (simp add: TailPointer_def exPath_def exPtr_def)
  have d: "IsDirty (exPath 1) (core C1_folder)"
    by (simp add: IsDirty_def DirtyBcache_IsDirty_def C1_folder_def TailPointer_def exPath_def
        exPtr_def)
  from FinishSync_clears_file[OF h0 h1 h2 h3 h4 h5 h7 h6] show ?thesis
    using C1_folder_run d by simp
qed


end
